theory Spec2Isabelle
  imports Main "HOL-Library.Word"
begin

section \<open>Machine integers, layouts and errors\<close>

text \<open>
  The nodes of ConvolutionalNodes.h compute every dimension in \<open>size_t\<close>, which is a
  64-bit unsigned integer on the x64 targets the library is built for: addition,
  subtraction and multiplication wrap around, division truncates.  The cast
  \<open>(int)\<close> in the error messages goes to a 32-bit signed integer.
\<close>

type_synonym size_t = "64 word"

text \<open>
  \<open>ImageLayout\<close> (width, height, channels) is declared outside this file; the nodes use
  its three getters and the constructor \<open>ImageLayoutWHC\<close>.
\<close>

record ImageLayout =
  GetWidth :: size_t
  GetHeight :: size_t
  GetNumChannels :: size_t

definition ImageLayoutWHC :: "size_t \<Rightarrow> size_t \<Rightarrow> size_t \<Rightarrow> ImageLayout" where
  "ImageLayoutWHC w h c = \<lparr>GetWidth = w, GetHeight = h, GetNumChannels = c\<rparr>"

text \<open>
  \<open>InvalidArgument\<close> and \<open>LogicError\<close> throw; they carry the format string of the
  source and the values printed into it.  An unsigned division by zero is undefined
  behaviour in C++ (a hardware trap on x64): the model gives it the value
  \<open>DivideByZero\<close>.
\<close>

datatype fmt_arg = ArgStr string | ArgInt int

datatype error =
    InvalidArgument string
  | LogicError string "fmt_arg list"
  | DivideByZero


section \<open>The convolution node: parameters and shape inference\<close>

record ConvolutionNode =
  m_kernelWidth :: size_t
  m_kernelHeight :: size_t
  m_horizontalSubsample :: size_t
  m_verticalSubsample :: size_t
  m_zeroPadding :: bool
  m_1DConvolutionOnGPUSparse :: bool
  m_maxTempMemSizeInSamples :: size_t
  m_sampleLayout :: ImageLayout
  m_inputSampleLayout :: ImageLayout

text \<open>
  \<open>InferImageDimsFromInput(1, false)\<close> belongs to the node framework: it copies the
  sample layout of the input into \<open>m_inputSampleLayout\<close> (and into \<open>m_sampleLayout\<close>
  too when its flag is set).  The layout of the input is an argument here.
\<close>

definition InferImageDimsFromInput ::
  "ConvolutionNode \<Rightarrow> ImageLayout \<Rightarrow> bool \<Rightarrow> ConvolutionNode" where
  "InferImageDimsFromInput node inputLayout outputSameAsInput =
     (let node1 = node\<lparr>m_inputSampleLayout := inputLayout\<rparr>
      in if outputSameAsInput then node1\<lparr>m_sampleLayout := inputLayout\<rparr> else node1)"

text \<open>
  \<open>ConvolutionNode::InferImageDimsFromInputs\<close>.  With zero padding the two centres
  are \<open>const int\<close>: the remainder is narrowed to \<open>int\<close> and widened again (sign
  extended) for the subtraction in \<open>size_t\<close>.
\<close>

definition InferImageDimsFromInputs ::
  "ConvolutionNode \<Rightarrow> ImageLayout \<Rightarrow> error + ConvolutionNode" where
  "InferImageDimsFromInputs node0 inputLayout =
     (let node = InferImageDimsFromInput node0 inputLayout False;
          inL = m_inputSampleLayout node
      in if GetWidth inL < m_kernelWidth node \<or> GetHeight inL < m_kernelHeight node
         then Inl (InvalidArgument
                ''inputWidth must >= kernelWidth and inputHeight must >= kernelHeight.'')
         else if m_horizontalSubsample node = 0 \<or> m_verticalSubsample node = 0
         then Inl DivideByZero
         else if m_zeroPadding node
         then
           (let kernelWidthCenter = (ucast (m_kernelWidth node mod 2) :: 32 word);
                kernelHeightCenter = (ucast (m_kernelHeight node mod 2) :: 32 word)
            in Inr (node\<lparr>m_sampleLayout := ImageLayoutWHC
                 ((GetWidth inL - scast kernelWidthCenter) div m_horizontalSubsample node + 1)
                 ((GetHeight inL - scast kernelHeightCenter) div m_verticalSubsample node + 1)
                 (GetNumChannels (m_sampleLayout node))\<rparr>))
         else
           Inr (node\<lparr>m_sampleLayout := ImageLayoutWHC
                 ((GetWidth inL - m_kernelWidth node) div m_horizontalSubsample node + 1)
                 ((GetHeight inL - m_kernelHeight node) div m_verticalSubsample node + 1)
                 (GetNumChannels (m_sampleLayout node))\<rparr>))"

section \<open>The pooling nodes: parameters and shape inference\<close>

record PoolingNodeBase =
  m_windowWidth :: size_t
  m_windowHeight :: size_t
  p_horizontalSubsample :: size_t
  p_verticalSubsample :: size_t
  m_inputSizePerSample :: size_t
  m_outputSizePerSample :: size_t
  p_sampleLayout :: ImageLayout
  p_inputSampleLayout :: ImageLayout

text \<open>
  The fields \<open>m_horizontalSubsample\<close>, \<open>m_verticalSubsample\<close>, \<open>m_sampleLayout\<close> and
  \<open>m_inputSampleLayout\<close> of \<open>PoolingNodeBase\<close> are written with the prefix \<open>p_\<close>: a
  field name belongs to one record.  \<open>PoolingNodeBase::InferImageDimsFromInputs\<close>
  starts with \<open>InferImageDimsFromInput(0, false)\<close>, which stores the layout of the
  input.
\<close>

definition Pooling_InferImageDimsFromInputs ::
  "PoolingNodeBase \<Rightarrow> ImageLayout \<Rightarrow> error + PoolingNodeBase" where
  "Pooling_InferImageDimsFromInputs node0 inputLayout =
     (let node = node0\<lparr>p_inputSampleLayout := inputLayout\<rparr>;
          inL = p_inputSampleLayout node
      in if GetWidth inL < m_windowWidth node \<or> GetHeight inL < m_windowHeight node
         then Inl (InvalidArgument
                ''PoolingNodeBase: inputWidth must >= windowWidth and inputHeight must >= windowHeight.'')
         else if p_horizontalSubsample node = 0 \<or> p_verticalSubsample node = 0
         then Inl DivideByZero
         else
           Inr (node\<lparr>p_sampleLayout := ImageLayoutWHC
                 ((GetWidth inL - m_windowWidth node) div p_horizontalSubsample node + 1)
                 ((GetHeight inL - m_windowHeight node) div p_verticalSubsample node + 1)
                 (GetNumChannels inL)\<rparr>))"

section \<open>Validation\<close>




section \<open>Save and Load\<close>

text \<open>
  The \<open>File\<close> stream is a sequence of typed fields: \<open>fstream << x\<close> appends one,
  \<open>fstream >> x\<close> takes the first, and fails when there is none or it has another
  type.  \<open>Base::Save\<close> and \<open>Base::Load\<close> (the framework's part of a node's record) are
  not in this file; the functions below are what the two classes add after them.
\<close>

datatype field = SizeT size_t | Bool bool

datatype read_error = EndOfFile | WrongFieldType

definition read_size_t :: "field list \<Rightarrow> read_error + (size_t \<times> field list)" where
  "read_size_t f = (case f of [] \<Rightarrow> Inl EndOfFile
                    | SizeT x # rest \<Rightarrow> Inr (x, rest)
                    | Bool _ # _ \<Rightarrow> Inl WrongFieldType)"

definition read_bool :: "field list \<Rightarrow> read_error + (bool \<times> field list)" where
  "read_bool f = (case f of [] \<Rightarrow> Inl EndOfFile
                  | Bool x # rest \<Rightarrow> Inr (x, rest)
                  | SizeT _ # _ \<Rightarrow> Inl WrongFieldType)"

definition bind :: "'e + 'a \<Rightarrow> ('a \<Rightarrow> 'e + 'b) \<Rightarrow> 'e + 'b" where
  "bind m k = (case m of Inl e \<Rightarrow> Inl e | Inr x \<Rightarrow> k x)"

definition Save :: "ConvolutionNode \<Rightarrow> field list \<Rightarrow> field list" where
  "Save node fstream =
     (let fstream1 = fstream @ [SizeT (m_kernelWidth node), SizeT (m_kernelHeight node),
                                SizeT (m_horizontalSubsample node),
                                SizeT (m_verticalSubsample node)];
          fstream2 = fstream1 @ [SizeT (GetNumChannels (m_sampleLayout node))]
      in fstream2 @ [Bool (m_zeroPadding node), SizeT (m_maxTempMemSizeInSamples node)])"

definition Load ::
  "ConvolutionNode \<Rightarrow> field list \<Rightarrow> read_error + (ConvolutionNode \<times> field list)" where
  "Load node fstream =
     bind (read_size_t fstream) (\<lambda>(kernelWidth, f1).
     bind (read_size_t f1) (\<lambda>(kernelHeight, f2).
     bind (read_size_t f2) (\<lambda>(horizontalSubsample, f3).
     bind (read_size_t f3) (\<lambda>(verticalSubsample, f4).
     bind (read_size_t f4) (\<lambda>(outputChannels, f5).
     bind (read_bool f5) (\<lambda>(zeroPadding, f6).
     bind (read_size_t f6) (\<lambda>(maxTempMemSizeInSamples, f7).
       Inr (node\<lparr>m_kernelWidth := kernelWidth, m_kernelHeight := kernelHeight,
                 m_horizontalSubsample := horizontalSubsample,
                 m_verticalSubsample := verticalSubsample,
                 m_sampleLayout := ImageLayoutWHC 1 1 outputChannels,
                 m_zeroPadding := zeroPadding,
                 m_maxTempMemSizeInSamples := maxTempMemSizeInSamples\<rparr>, f7))))))))"

definition Pooling_Save :: "PoolingNodeBase \<Rightarrow> field list \<Rightarrow> field list" where
  "Pooling_Save node fstream =
     fstream @ [SizeT (m_windowWidth node), SizeT (m_windowHeight node),
                SizeT (p_horizontalSubsample node), SizeT (p_verticalSubsample node)]"

definition Pooling_Load ::
  "PoolingNodeBase \<Rightarrow> field list \<Rightarrow> read_error + (PoolingNodeBase \<times> field list)" where
  "Pooling_Load node fstream =
     bind (read_size_t fstream) (\<lambda>(windowWidth, f1).
     bind (read_size_t f1) (\<lambda>(windowHeight, f2).
     bind (read_size_t f2) (\<lambda>(horizontalSubsample, f3).
     bind (read_size_t f3) (\<lambda>(verticalSubsample, f4).
       Inr (node\<lparr>m_windowWidth := windowWidth, m_windowHeight := windowHeight,
                 p_horizontalSubsample := horizontalSubsample,
                 p_verticalSubsample := verticalSubsample\<rparr>, f4)))))"

section \<open>Matrices\<close>

text \<open>
  Modelled from the spec: the \<open>Matrix\<close> class is declared outside this file.  The spec
  describes it as a capability (section 6): a sample batch is a matrix whose columns are
  the samples, stored column by column; a column range is sliced as a view of the same
  storage; reshaping in place reinterprets the extents of the same storage.  A matrix
  is its two extents, its elements in column-major order, and its storage type, format
  and location.
\<close>

datatype MatrixType = UNDETERMINED | DENSE | SPARSE

datatype MatrixFormat = matrixFormatDense | matrixFormatSparse

datatype CurrentDataLocation = NONE | CPU | GPU | BOTH

record 'a Matrix =
  GetNumRows :: size_t
  GetNumCols :: size_t
  m_elems :: "'a list"
  GetMatrixType :: MatrixType
  GetFormat :: MatrixFormat
  GetCurrentMatrixLocation :: CurrentDataLocation

text \<open>
  Modelled from the spec: \<open>Reshape\<close> and \<open>Resize\<close> set the extents.  After \<open>Resize\<close>
  the elements are unspecified until the next primitive assigns them.
\<close>

definition Reshape :: "'a Matrix \<Rightarrow> size_t \<Rightarrow> size_t \<Rightarrow> 'a Matrix" where
  "Reshape M numRows numCols = M\<lparr>GetNumRows := numRows, GetNumCols := numCols\<rparr>"

definition Resize :: "'a Matrix \<Rightarrow> size_t \<Rightarrow> size_t \<Rightarrow> 'a Matrix" where
  "Resize M numRows numCols = M\<lparr>GetNumRows := numRows, GetNumCols := numCols\<rparr>"

text \<open>
  Modelled from the spec: \<open>ColumnSlice(startColumn, numCols)\<close> is a view of the columns
  \<open>startColumn, ..., startColumn + numCols - 1\<close>.  Reading the view gives those
  elements; \<open>WriteColumnSlice\<close> is what a primitive does to the sliced matrix when it
  writes \<open>S\<close> through the view: the elements of that column range are replaced, all
  others stay.
\<close>

definition ColumnSlice :: "'a Matrix \<Rightarrow> size_t \<Rightarrow> size_t \<Rightarrow> 'a Matrix" where
  "ColumnSlice M startColumn numCols =
     M\<lparr>GetNumCols := numCols,
       m_elems := take (unat numCols * unat (GetNumRows M))
                    (drop (unat startColumn * unat (GetNumRows M)) (m_elems M))\<rparr>"

definition WriteColumnSlice :: "'a Matrix \<Rightarrow> size_t \<Rightarrow> size_t \<Rightarrow> 'a Matrix \<Rightarrow> 'a Matrix" where
  "WriteColumnSlice M startColumn numCols S =
     (let first = unat startColumn * unat (GetNumRows M);
          len = unat numCols * unat (GetNumRows M)
      in M\<lparr>m_elems := map (\<lambda>k. if first \<le> k \<and> k < first + len \<and> k - first < length (m_elems S)
                                then m_elems S ! (k - first) else m_elems M ! k)
                          [0..<length (m_elems M)]\<rparr>)"

text \<open>
  Modelled from the spec: the elements of a matrix fill its extents (section 3; the
  precondition of the in-place reshape in section 9).
\<close>

definition wf_Matrix :: "'a Matrix \<Rightarrow> bool" where
  "wf_Matrix M \<longleftrightarrow> length (m_elems M) = unat (GetNumRows M) * unat (GetNumCols M)"

text \<open>
  Adding a contribution into a buffer, element by element, and the buffer with every
  element zero.
\<close>

definition AddInto :: "'a::plus Matrix \<Rightarrow> 'a Matrix \<Rightarrow> 'a Matrix" where
  "AddInto G D =
     G\<lparr>m_elems := map (\<lambda>k. if k < length (m_elems D) then m_elems G ! k + m_elems D ! k
                           else m_elems G ! k)
                      [0..<length (m_elems G)]\<rparr>"

definition ZeroLike :: "'a::zero Matrix \<Rightarrow> 'a Matrix" where
  "ZeroLike G = G\<lparr>m_elems := replicate (length (m_elems G)) 0\<rparr>"

text \<open>
  The numeric primitives of the matrix library are not in this file.  What they compute
  is a parameter of every pass: the record \<open>MatrixOps\<close> holds, for each primitive, the
  function from its arguments to the matrix it produces.  The geometry arguments of the
  packing and pooling primitives are passed as the list of \<open>size_t\<close> values of the call,
  in the order of the call.
\<close>

record 'a MatrixOps =
  SwitchToMatrixType :: "'a Matrix \<Rightarrow> MatrixType \<Rightarrow> MatrixFormat \<Rightarrow> bool \<Rightarrow> 'a Matrix"
  AssignPackedConvolutionInput :: "'a Matrix \<Rightarrow> 'a Matrix \<Rightarrow> size_t list \<Rightarrow> bool \<Rightarrow> 'a Matrix"
  MatrixProduct :: "'a Matrix \<Rightarrow> bool \<Rightarrow> 'a Matrix \<Rightarrow> bool \<Rightarrow> 'a Matrix"
  ConvolveAndWeightedAdd ::
    "int \<Rightarrow> 'a Matrix \<Rightarrow> bool \<Rightarrow> 'a Matrix \<Rightarrow> bool \<Rightarrow> int \<Rightarrow> 'a Matrix \<Rightarrow>
     size_t \<Rightarrow> size_t \<Rightarrow> bool \<Rightarrow> bool \<Rightarrow> 'a Matrix"
  UnpackedConvolutionInput :: "'a Matrix \<Rightarrow> size_t list \<Rightarrow> bool \<Rightarrow> 'a Matrix"
  MaxPoolingGradient :: "'a Matrix \<Rightarrow> 'a Matrix \<Rightarrow> 'a Matrix \<Rightarrow> size_t list \<Rightarrow> 'a Matrix"
  AveragePoolingGradient :: "'a Matrix \<Rightarrow> size_t list \<Rightarrow> 'a Matrix"

text \<open>
  Modelled from the spec: \<open>Multiply(a, transA, b, transB, c)\<close> assigns the product to
  \<open>c\<close>, and \<open>MultiplyAndAdd\<close> adds the same product into \<open>c\<close> (section 4.5:
  \<open>dW += dOutput_reshaped x packedInput^T\<close>).
\<close>

definition Multiply ::
  "'a MatrixOps \<Rightarrow> 'a Matrix \<Rightarrow> bool \<Rightarrow> 'a Matrix \<Rightarrow> bool \<Rightarrow> 'a Matrix \<Rightarrow> 'a Matrix" where
  "Multiply ops a transposeA b transposeB c = MatrixProduct ops a transposeA b transposeB"

definition MultiplyAndAdd ::
  "'a::plus MatrixOps \<Rightarrow> 'a Matrix \<Rightarrow> bool \<Rightarrow> 'a Matrix \<Rightarrow> bool \<Rightarrow> 'a Matrix \<Rightarrow> 'a Matrix" where
  "MultiplyAndAdd ops a transposeA b transposeB c =
     AddInto c (MatrixProduct ops a transposeA b transposeB)"

text \<open>
  Modelled from the spec: \<open>UnpackConvolutionInput\<close> scatter-adds the gradient of every
  patch of the packed matrix onto the input-gradient buffer (section 4.2): the sums
  scattered per position are \<open>UnpackedConvolutionInput\<close>, and they are added to what
  the buffer holds.
\<close>

definition UnpackConvolutionInput ::
  "'a::plus MatrixOps \<Rightarrow> 'a Matrix \<Rightarrow> 'a Matrix \<Rightarrow> size_t list \<Rightarrow> bool \<Rightarrow> 'a Matrix" where
  "UnpackConvolutionInput ops this inputSubBatch geometry zeroPadding =
     AddInto inputSubBatch (UnpackedConvolutionInput ops this geometry zeroPadding)"

text \<open>
  Modelled from the spec: the gradient of max pooling flows to the position that was
  the maximum of its window, and that of average pooling to every position of the
  window, divided by the number of its elements; both are add-accumulated (sections 4.7
  and 4.8).  The amounts routed to each position are \<open>MaxPoolingGradient\<close> and
  \<open>AveragePoolingGradient\<close>.
\<close>

definition AddMaxPoolingGradient ::
  "'a::plus MatrixOps \<Rightarrow> 'a Matrix \<Rightarrow> 'a Matrix \<Rightarrow> 'a Matrix \<Rightarrow> 'a Matrix \<Rightarrow> size_t list \<Rightarrow>
   'a Matrix" where
  "AddMaxPoolingGradient ops this outputGradientBatch inputBatch outputBatch geometry =
     AddInto this (MaxPoolingGradient ops outputGradientBatch inputBatch outputBatch geometry)"

definition AddAveragePoolingGradient ::
  "'a::plus MatrixOps \<Rightarrow> 'a Matrix \<Rightarrow> 'a Matrix \<Rightarrow> size_t list \<Rightarrow> 'a Matrix" where
  "AddAveragePoolingGradient ops this outputGradientBatch geometry =
     AddInto this (AveragePoolingGradient ops outputGradientBatch geometry)"

section \<open>The passes of the convolution node\<close>

text \<open>
  A \<open>for (size_t i = first; i < n; i++)\<close> loop whose body may throw.  The counter
  is a \<open>size_t\<close>; it cannot wrap, since it is below \<open>n\<close> when it is incremented.
\<close>

function for_loop ::
  "size_t \<Rightarrow> size_t \<Rightarrow> (size_t \<Rightarrow> 's \<Rightarrow> error + 's) \<Rightarrow> 's \<Rightarrow> error + 's" where
  "for_loop i n body s =
     (if i < n
      then (case body i s of Inl e \<Rightarrow> Inl e | Inr s' \<Rightarrow> for_loop (i + 1) n body s')
      else Inr s)"
  by pat_completeness auto
termination
proof (relation "measure (\<lambda>(i, n, body, s). unat n - unat i)")
  show "wf (measure (\<lambda>(i :: size_t, n :: size_t, body :: size_t \<Rightarrow> 's \<Rightarrow> error + 's, s :: 's).
              unat n - unat i))"
    by simp
next
  fix i n :: size_t and body :: "size_t \<Rightarrow> 's \<Rightarrow> error + 's" and s x2 :: 's
  assume "i < n"
  then have "unat i < unat n" by (simp add: word_less_nat_alt)
  moreover from \<open>i < n\<close> have "unat (i + 1) = unat i + 1"
    by (metis (no_types, lifting) add.commute add_0 inc_i inc_le
        unat_plus_simple unsigned_0 unsigned_1 word_gt_0)
  ultimately show "((i + 1, n, body, x2), (i, n, body, s))
        \<in> measure (\<lambda>(i, n, body, s). unat n - unat i)"
    by simp
qed

declare for_loop.simps [simp del]

text \<open>
  The tiling arithmetic, which \<open>ForwardPropS\<close>, \<open>BackpropToOverWeight\<close> and
  \<open>BackpropToOverInputFeature\<close> each spell out in the same lines:
  \<open>maxTempMemSizeInSamples\<close> and \<open>subBatchSize\<close>, then \<open>numSubBatches\<close> (a division by
  \<open>subBatchSize\<close>), and in the loop \<open>startSampleID\<close> and \<open>endSampleID\<close>.
\<close>

definition SubBatchSize :: "ConvolutionNode \<Rightarrow> size_t \<Rightarrow> size_t" where
  "SubBatchSize node batchSize =
     (let maxTempMemSizeInSamples =
            (if m_maxTempMemSizeInSamples node = 0 then batchSize
             else m_maxTempMemSizeInSamples node)
      in min batchSize maxTempMemSizeInSamples)"

definition NumSubBatches :: "size_t \<Rightarrow> size_t \<Rightarrow> error + size_t" where
  "NumSubBatches batchSize subBatchSize =
     (if subBatchSize = 0 then Inl DivideByZero
      else Inr ((batchSize + subBatchSize - 1) div subBatchSize))"

definition StartSampleID :: "size_t \<Rightarrow> size_t \<Rightarrow> size_t" where
  "StartSampleID i subBatchSize = i * subBatchSize"

definition EndSampleID :: "size_t \<Rightarrow> size_t \<Rightarrow> size_t \<Rightarrow> size_t" where
  "EndSampleID batchSize i subBatchSize =
     min batchSize (StartSampleID i subBatchSize + subBatchSize)"

text \<open>The geometry arguments of the two packing primitives, in the order of the calls.\<close>

definition PackingGeometry :: "ConvolutionNode \<Rightarrow> size_t list" where
  "PackingGeometry node =
     [GetWidth (m_inputSampleLayout node), GetHeight (m_inputSampleLayout node),
      GetNumChannels (m_inputSampleLayout node),
      GetWidth (m_sampleLayout node), GetHeight (m_sampleLayout node),
      GetNumChannels (m_sampleLayout node),
      m_kernelWidth node, m_kernelHeight node,
      m_horizontalSubsample node, m_verticalSubsample node]"

text \<open>
  The body of the loop of \<open>ForwardPropS\<close>, for the sub-batch \<open>i\<close>.  The state is the
  output matrix and the packed buffer.  \<open>assert\<close> and the \<open>NANCHECK\<close> blocks are
  compiled out of a release build and are not modelled.
\<close>

definition ForwardPropS_body ::
  "'a MatrixOps \<Rightarrow> ConvolutionNode \<Rightarrow> 'a Matrix \<Rightarrow> 'a Matrix \<Rightarrow> size_t \<Rightarrow> size_t \<Rightarrow>
   size_t \<Rightarrow> 'a Matrix \<times> 'a Matrix \<Rightarrow> error + 'a Matrix \<times> 'a Matrix" where
  "ForwardPropS_body ops node input0 input1 batchSize subBatchSize i st =
     (case st of (functionValues, tempMatrix) \<Rightarrow>
      let packedInputRows = m_kernelWidth node * m_kernelHeight node *
                            GetNumChannels (m_inputSampleLayout node);
          packedInputColsPerSample = GetWidth (m_sampleLayout node) *
                                     GetHeight (m_sampleLayout node);
          outputSizePerChannel = packedInputColsPerSample;
          weightMatrix = input0;
          startSampleID = StartSampleID i subBatchSize;
          endSampleID = EndSampleID batchSize i subBatchSize;
          smallBatchSize = endSampleID - startSampleID;
          inputSubBatch = ColumnSlice input1 startSampleID smallBatchSize
      in if m_1DConvolutionOnGPUSparse node
         then
           if m_kernelWidth node * GetNumChannels (m_inputSampleLayout node) \<noteq>
              GetNumCols weightMatrix
           then Inl (LogicError ''Kernel width and weight matrix dimensions don't match.'' [])
           else
             (let outputSubBatch = ColumnSlice functionValues startSampleID smallBatchSize;
                  outputSubBatch1 = ConvolveAndWeightedAdd ops 1 weightMatrix False
                     inputSubBatch False 0 outputSubBatch
                     (GetNumChannels (m_inputSampleLayout node))
                     (m_horizontalSubsample node) (m_zeroPadding node) True
              in Inr (WriteColumnSlice functionValues startSampleID smallBatchSize
                        outputSubBatch1,
                      tempMatrix))
         else
           (let inputSubBatch1 = SwitchToMatrixType ops inputSubBatch DENSE
                                   matrixFormatDense True;
                tempMatrix1 = Resize tempMatrix packedInputRows
                                (packedInputColsPerSample * smallBatchSize);
                tempMatrix2 = AssignPackedConvolutionInput ops tempMatrix1 inputSubBatch1
                                (PackingGeometry node) (m_zeroPadding node);
                outputSubBatch = ColumnSlice functionValues
                                   (startSampleID * outputSizePerChannel)
                                   (smallBatchSize * outputSizePerChannel);
                outputSubBatch1 = Multiply ops weightMatrix False tempMatrix2 False
                                    outputSubBatch
            in Inr (WriteColumnSlice functionValues (startSampleID * outputSizePerChannel)
                      (smallBatchSize * outputSizePerChannel) outputSubBatch1,
                    tempMatrix2)))"

text \<open>
  \<open>ForwardPropS\<close>.  The result is the output matrix, the packed buffer and the node,
  whose flag \<open>m_1DConvolutionOnGPUSparse\<close> the pass sets.
\<close>

definition ForwardPropS ::
  "'a MatrixOps \<Rightarrow> ConvolutionNode \<Rightarrow> 'a Matrix \<Rightarrow> 'a Matrix \<Rightarrow> 'a Matrix \<Rightarrow> 'a Matrix \<Rightarrow>
   error + 'a Matrix \<times> 'a Matrix \<times> ConvolutionNode" where
  "ForwardPropS ops node0 functionValues input0 input1 tempMatrix =
     (let packedInputColsPerSample = GetWidth (m_sampleLayout node0) *
                                     GetHeight (m_sampleLayout node0);
          outputSizePerChannel = packedInputColsPerSample;
          batchSize = GetNumCols input1;
          node = node0\<lparr>m_1DConvolutionOnGPUSparse :=
                   (GetHeight (m_inputSampleLayout node0) = 1
                    \<and> GetCurrentMatrixLocation input1 = GPU
                    \<and> GetMatrixType input1 = SPARSE)\<rparr>;
          functionValues1 = SwitchToMatrixType ops functionValues DENSE matrixFormatDense False;
          functionValues2 =
            (if \<not> m_1DConvolutionOnGPUSparse node
             then Reshape functionValues1 (GetNumChannels (m_sampleLayout node))
                    (batchSize * outputSizePerChannel)
             else functionValues1);
          subBatchSize = SubBatchSize node batchSize
      in case NumSubBatches batchSize subBatchSize of
           Inl e \<Rightarrow> Inl e
         | Inr numSubBatches \<Rightarrow>
           (case for_loop 0 numSubBatches
                      (ForwardPropS_body ops node input0 input1 batchSize subBatchSize)
                      (functionValues2, tempMatrix) of
                 Inl e \<Rightarrow> Inl e
               | Inr (functionValues3, tempMatrix1) \<Rightarrow>
                   Inr (Reshape functionValues3
                          (GetNumChannels (m_sampleLayout node) * outputSizePerChannel)
                          batchSize,
                        tempMatrix1, node)))"

text \<open>
  The body of the loop of \<open>BackpropToOverWeight\<close> (the branch that packs the input
  again).  The state is the gradient of the weights and the packed buffer.
\<close>

definition BackpropToOverWeight_body ::
  "'a::plus MatrixOps \<Rightarrow> ConvolutionNode \<Rightarrow> 'a Matrix \<Rightarrow> 'a Matrix \<Rightarrow> size_t \<Rightarrow> size_t \<Rightarrow>
   size_t \<Rightarrow> 'a Matrix \<times> 'a Matrix \<Rightarrow> error + 'a Matrix \<times> 'a Matrix" where
  "BackpropToOverWeight_body ops node gradientValues input1 batchSize subBatchSize i st =
     (case st of (inputGradientValues, tempMatrix) \<Rightarrow>
      let packedInputRows = m_kernelWidth node * m_kernelHeight node *
                            GetNumChannels (m_inputSampleLayout node);
          packedInputColsPerSample = GetWidth (m_sampleLayout node) *
                                     GetHeight (m_sampleLayout node);
          outputSizePerChannel = packedInputColsPerSample;
          startSampleID = StartSampleID i subBatchSize;
          endSampleID = EndSampleID batchSize i subBatchSize;
          smallBatchSize = endSampleID - startSampleID;
          outputGradientSubBatch = ColumnSlice gradientValues
                                     (startSampleID * outputSizePerChannel)
                                     (smallBatchSize * outputSizePerChannel);
          inputSubBatch = ColumnSlice input1 startSampleID smallBatchSize;
          inputSubBatch1 = SwitchToMatrixType ops inputSubBatch DENSE
                             (GetFormat inputSubBatch) True;
          tempMatrix1 = Resize tempMatrix packedInputRows
                          (packedInputColsPerSample * smallBatchSize);
          tempMatrix2 = AssignPackedConvolutionInput ops tempMatrix1 inputSubBatch1
                          (PackingGeometry node) (m_zeroPadding node)
      in Inr (MultiplyAndAdd ops outputGradientSubBatch False tempMatrix2 True
                inputGradientValues,
              tempMatrix2))"

text \<open>
  \<open>BackpropToOverWeight\<close>.  The third parameter of the source, the value of the
  weights, has no name there (\<open>/*input0*/\<close>).  The result is the gradient of the
  weights, the packed buffer, and the gradient of the output with its extents restored.
\<close>

definition BackpropToOverWeight ::
  "'a::plus MatrixOps \<Rightarrow> ConvolutionNode \<Rightarrow> 'a Matrix \<Rightarrow> 'a Matrix \<Rightarrow> 'a Matrix \<Rightarrow> 'a Matrix \<Rightarrow>
   'a Matrix \<Rightarrow> bool \<Rightarrow> error + 'a Matrix \<times> 'a Matrix \<times> 'a Matrix" where
  "BackpropToOverWeight ops node gradientValues0 inputGradientValues input0 input1
     tempMatrix inLoop =
     (let packedInputColsPerSample = GetWidth (m_sampleLayout node) *
                                     GetHeight (m_sampleLayout node);
          outputSizePerChannel = packedInputColsPerSample;
          batchSize = GetNumCols input1;
          gradientValues = Reshape gradientValues0 (GetNumChannels (m_sampleLayout node))
                             (batchSize * outputSizePerChannel);
          subBatchSize = SubBatchSize node batchSize
      in case NumSubBatches batchSize subBatchSize of
           Inl e \<Rightarrow> Inl e
         | Inr numSubBatches \<Rightarrow>
           (case
                 (if numSubBatches = 1 \<and> \<not> inLoop \<and> \<not> m_1DConvolutionOnGPUSparse node
                  then Inr (MultiplyAndAdd ops gradientValues False tempMatrix True
                              inputGradientValues,
                            tempMatrix)
                  else for_loop 0 numSubBatches
                         (BackpropToOverWeight_body ops node gradientValues input1
                            batchSize subBatchSize)
                         (inputGradientValues, tempMatrix)) of
                 Inl e \<Rightarrow> Inl e
               | Inr (inputGradientValues1, tempMatrix1) \<Rightarrow>
                   Inr (inputGradientValues1, tempMatrix1,
                        Reshape gradientValues
                          (GetNumChannels (m_sampleLayout node) * outputSizePerChannel)
                          batchSize)))"

text \<open>
  The body of the loop of \<open>BackpropToOverInputFeature\<close>.  The state is the gradient
  of the input and the packed buffer; the primitive writes through the column slice of
  the gradient.
\<close>

definition BackpropToOverInputFeature_body ::
  "'a::plus MatrixOps \<Rightarrow> ConvolutionNode \<Rightarrow> 'a Matrix \<Rightarrow> 'a Matrix \<Rightarrow> size_t \<Rightarrow> size_t \<Rightarrow>
   size_t \<Rightarrow> 'a Matrix \<times> 'a Matrix \<Rightarrow> error + 'a Matrix \<times> 'a Matrix" where
  "BackpropToOverInputFeature_body ops node gradientValues input0 batchSize subBatchSize i st =
     (case st of (inputGradientValues, tempMatrix) \<Rightarrow>
      let packedInputRows = m_kernelWidth node * m_kernelHeight node *
                            GetNumChannels (m_inputSampleLayout node);
          packedInputColsPerSample = GetWidth (m_sampleLayout node) *
                                     GetHeight (m_sampleLayout node);
          outputSizePerChannel = packedInputColsPerSample;
          weightMatrix = input0;
          startSampleID = StartSampleID i subBatchSize;
          endSampleID = EndSampleID batchSize i subBatchSize;
          smallBatchSize = endSampleID - startSampleID;
          tempMatrix1 = Resize tempMatrix packedInputRows
                          (packedInputColsPerSample * smallBatchSize);
          outputGradientSubBatch = ColumnSlice gradientValues
                                     (startSampleID * outputSizePerChannel)
                                     (smallBatchSize * outputSizePerChannel);
          tempMatrix2 = Multiply ops weightMatrix True outputGradientSubBatch False tempMatrix1;
          inputGradientSubBatch = ColumnSlice inputGradientValues startSampleID smallBatchSize;
          inputGradientSubBatch1 = UnpackConvolutionInput ops tempMatrix2 inputGradientSubBatch
                                     (PackingGeometry node) (m_zeroPadding node)
      in Inr (WriteColumnSlice inputGradientValues startSampleID smallBatchSize
                inputGradientSubBatch1,
              tempMatrix2))"

definition BackpropToOverInputFeature ::
  "'a::plus MatrixOps \<Rightarrow> ConvolutionNode \<Rightarrow> 'a Matrix \<Rightarrow> 'a Matrix \<Rightarrow> 'a Matrix \<Rightarrow> 'a Matrix \<Rightarrow>
   'a Matrix \<Rightarrow> error + 'a Matrix \<times> 'a Matrix \<times> 'a Matrix" where
  "BackpropToOverInputFeature ops node gradientValues0 inputGradientValues input0 input1
     tempMatrix =
     (let packedInputColsPerSample = GetWidth (m_sampleLayout node) *
                                     GetHeight (m_sampleLayout node);
          outputSizePerChannel = packedInputColsPerSample;
          batchSize = GetNumCols input1;
          gradientValues = Reshape gradientValues0 (GetNumChannels (m_sampleLayout node))
                             (outputSizePerChannel * batchSize);
          subBatchSize = SubBatchSize node batchSize
      in case NumSubBatches batchSize subBatchSize of
           Inl e \<Rightarrow> Inl e
         | Inr numSubBatches \<Rightarrow>
           (case for_loop 0 numSubBatches
                      (BackpropToOverInputFeature_body ops node gradientValues input0
                         batchSize subBatchSize)
                      (inputGradientValues, tempMatrix) of
                 Inl e \<Rightarrow> Inl e
               | Inr (inputGradientValues1, tempMatrix1) \<Rightarrow>
                   Inr (inputGradientValues1, tempMatrix1,
                        Reshape gradientValues
                          (GetNumChannels (m_sampleLayout node) * outputSizePerChannel)
                          batchSize)))"

text \<open>
  \<open>ConvolutionNode::BackpropTo\<close>: the gradient for the weights (input 0) or for the
  input features (input 1).  The slices \<open>GradientFor(fr)\<close> and \<open>ValueFor(fr)\<close> of the
  frame range are arguments, and \<open>IsAllFrames\<close> is \<open>fr.IsAllFrames()\<close>.  The result
  is the gradient of the weights, the gradient slice of the input, the packed buffer
  and the gradient slice of the output.
\<close>

definition BackpropTo ::
  "'a::plus MatrixOps \<Rightarrow> ConvolutionNode \<Rightarrow> nat \<Rightarrow> bool \<Rightarrow> 'a Matrix \<Rightarrow> 'a Matrix \<Rightarrow> 'a Matrix \<Rightarrow>
   'a Matrix \<Rightarrow> 'a Matrix \<Rightarrow> 'a Matrix \<Rightarrow>
   error + 'a Matrix \<times> 'a Matrix \<times> 'a Matrix \<times> 'a Matrix" where
  "BackpropTo ops node inputIndex IsAllFrames sliceOutputGrad input0Gradient input0Value
     sliceInput1Value sliceInput1Grad tempMatrix =
     (if inputIndex = 0
      then case BackpropToOverWeight ops node sliceOutputGrad input0Gradient input0Value
                  sliceInput1Value tempMatrix (\<not> IsAllFrames) of
             Inl e \<Rightarrow> Inl e
           | Inr (input0Gradient1, tempMatrix1, sliceOutputGrad1) \<Rightarrow>
               Inr (input0Gradient1, sliceInput1Grad, tempMatrix1, sliceOutputGrad1)
      else if inputIndex = 1
      then case BackpropToOverInputFeature ops node sliceOutputGrad sliceInput1Grad
                  input0Value sliceInput1Value tempMatrix of
             Inl e \<Rightarrow> Inl e
           | Inr (sliceInput1Grad1, tempMatrix1, sliceOutputGrad1) \<Rightarrow>
               Inr (input0Gradient, sliceInput1Grad1, tempMatrix1, sliceOutputGrad1)
      else Inr (input0Gradient, sliceInput1Grad, tempMatrix, sliceOutputGrad))"

section \<open>The backward passes of the pooling nodes\<close>

definition PoolingGeometry :: "PoolingNodeBase \<Rightarrow> size_t list" where
  "PoolingGeometry node =
     [GetNumChannels (p_inputSampleLayout node),
      GetWidth (p_inputSampleLayout node), GetHeight (p_inputSampleLayout node),
      m_inputSizePerSample node,
      GetWidth (p_sampleLayout node), GetHeight (p_sampleLayout node),
      m_outputSizePerSample node,
      m_windowWidth node, m_windowHeight node,
      p_horizontalSubsample node, p_verticalSubsample node]"

text \<open>\<open>MaxPoolingNode::BackpropToV\<close> and \<open>AveragePoolingNode::BackpropToV\<close>.\<close>

definition MaxPooling_BackpropToV ::
  "'a::plus MatrixOps \<Rightarrow> PoolingNodeBase \<Rightarrow> 'a Matrix \<Rightarrow> 'a Matrix \<Rightarrow> 'a Matrix \<Rightarrow> 'a Matrix \<Rightarrow>
   'a Matrix" where
  "MaxPooling_BackpropToV ops node gradientValues inputGradientValues input0 functionValues =
     AddMaxPoolingGradient ops inputGradientValues gradientValues input0 functionValues
       (PoolingGeometry node)"

definition AveragePooling_BackpropToV ::
  "'a::plus MatrixOps \<Rightarrow> PoolingNodeBase \<Rightarrow> 'a Matrix \<Rightarrow> 'a Matrix \<Rightarrow> 'a Matrix \<Rightarrow> 'a Matrix \<Rightarrow>
   'a Matrix" where
  "AveragePooling_BackpropToV ops node gradientValues inputGradientValues input0 functionValues =
     AddAveragePoolingGradient ops inputGradientValues gradientValues (PoolingGeometry node)"

section \<open>Relating two runs of a backward pass\<close>

text \<open>
  \<open>shaped G Z\<close>: the matrix \<open>Z\<close> differs from \<open>G\<close> in its elements only, and has as
  many.  \<open>accum G0\<close> relates the state of a loop started on the gradient buffer \<open>G0\<close>
  to the state of the same loop started on the zeroed buffer: the same packed buffer,
  and the gradient is \<open>G0\<close> plus what the other run has gathered.
\<close>

definition shaped :: "'a Matrix \<Rightarrow> 'a Matrix \<Rightarrow> bool" where
  "shaped G Z \<longleftrightarrow> length (m_elems Z) = length (m_elems G) \<and> Z = G\<lparr>m_elems := m_elems Z\<rparr>"

definition accum :: "'a::monoid_add Matrix \<Rightarrow> 'a Matrix \<times> 'a Matrix \<Rightarrow> 'a Matrix \<times> 'a Matrix \<Rightarrow> bool" where
  "accum G0 s z \<longleftrightarrow> snd s = snd z \<and> shaped G0 (fst z) \<and> fst s = AddInto G0 (fst z)"

section \<open>Example data\<close>

text \<open>
  The primitives of a 1 x 1 kernel (or window) with stride 1 over integers, for running
  the passes on small inputs: packing keeps the elements of the sub-batch, the
  unpacked gradient is the packed one, the pooling gradients are the output gradient,
  the product is the matrix product in column-major order, and the fused convolution
  multiplies the weights with the input read as channels by positions.
\<close>

definition example_product :: "int Matrix \<Rightarrow> bool \<Rightarrow> int Matrix \<Rightarrow> bool \<Rightarrow> int Matrix" where
  "example_product a transposeA b transposeB =
     (let m = unat (if transposeA then GetNumCols a else GetNumRows a);
          k = unat (if transposeA then GetNumRows a else GetNumCols a);
          n = unat (if transposeB then GetNumRows b else GetNumCols b);
          A = (\<lambda>i l. m_elems a ! (if transposeA then l + i * unat (GetNumRows a)
                                    else i + l * unat (GetNumRows a)));
          B = (\<lambda>l j. m_elems b ! (if transposeB then j + l * unat (GetNumRows b)
                                    else l + j * unat (GetNumRows b)))
      in \<lparr>GetNumRows = of_nat m, GetNumCols = of_nat n,
          m_elems = concat (map (\<lambda>j. map (\<lambda>i. sum_list (map (\<lambda>l. A i l * B l j) [0..<k]))
                                        [0..<m]) [0..<n]),
          GetMatrixType = DENSE, GetFormat = matrixFormatDense,
          GetCurrentMatrixLocation = GetCurrentMatrixLocation a\<rparr>)"

definition example_ops :: "int MatrixOps" where
  "example_ops =
     \<lparr>SwitchToMatrixType = (\<lambda>M newType newFormat keepValues.
          M\<lparr>GetMatrixType := newType, GetFormat := newFormat\<rparr>),
      AssignPackedConvolutionInput = (\<lambda>this inputSubBatch geometry zeroPadding.
          this\<lparr>m_elems := m_elems inputSubBatch\<rparr>),
      MatrixProduct = example_product,
      ConvolveAndWeightedAdd = (\<lambda>alpha a transposeA b transposeB beta c
          numChannels horizontalSubsample padding channelwise.
          c\<lparr>m_elems := m_elems (example_product a transposeA
                         (b\<lparr>GetNumRows := numChannels,
                            GetNumCols := of_nat (length (m_elems b) div unat numChannels)\<rparr>)
                         transposeB)\<rparr>),
      UnpackedConvolutionInput = (\<lambda>this geometry zeroPadding. this),
      MaxPoolingGradient = (\<lambda>outputGradientBatch inputBatch outputBatch geometry.
          outputGradientBatch),
      AveragePoolingGradient = (\<lambda>outputGradientBatch geometry. outputGradientBatch)\<rparr>"

definition example_node :: ConvolutionNode where
  "example_node =
     \<lparr>m_kernelWidth = 1, m_kernelHeight = 1, m_horizontalSubsample = 1,
      m_verticalSubsample = 1, m_zeroPadding = False, m_1DConvolutionOnGPUSparse = False,
      m_maxTempMemSizeInSamples = 0, m_sampleLayout = ImageLayoutWHC 2 1 1,
      m_inputSampleLayout = ImageLayoutWHC 2 1 1\<rparr>"

definition example_matrix :: "size_t \<Rightarrow> size_t \<Rightarrow> int list \<Rightarrow> int Matrix" where
  "example_matrix numRows numCols elems =
     \<lparr>GetNumRows = numRows, GetNumCols = numCols, m_elems = elems,
      GetMatrixType = DENSE, GetFormat = matrixFormatDense, GetCurrentMatrixLocation = CPU\<rparr>"




definition example_window :: "size_t \<Rightarrow> size_t \<Rightarrow> size_t \<Rightarrow> size_t \<Rightarrow> PoolingNodeBase" where
  "example_window windowWidth windowHeight horizontalSubsample verticalSubsample =
     \<lparr>m_windowWidth = windowWidth, m_windowHeight = windowHeight,
      p_horizontalSubsample = horizontalSubsample, p_verticalSubsample = verticalSubsample,
      m_inputSizePerSample = 0, m_outputSizePerSample = 0,
      p_sampleLayout = ImageLayoutWHC 1 1 0, p_inputSampleLayout = ImageLayoutWHC 1 1 0\<rparr>"

section \<open>Word arithmetic and loops\<close>

lemma scast_centre: "(scast (ucast (k mod 2 :: size_t) :: 32 word) :: size_t) = k mod 2"
proof -
  have "k mod 2 = 0 \<or> k mod 2 = 1"
    by (metis (no_types) even_iff_mod_2_eq_zero odd_iff_mod_2_eq_one)
  then show ?thesis
  proof
    assume "k mod 2 = 0" then show ?thesis by simp
  next
    assume "k mod 2 = 1" then show ?thesis by simp
  qed
qed

lemma unat_centre: "unat (k mod 2 :: size_t) = unat k mod 2"
  by (simp add: unat_mod)

lemma centre_le: "(k::size_t) \<le> w \<Longrightarrow> k mod 2 \<le> w"
proof -
  assume "k \<le> w"
  then have "unat k \<le> unat w" by (simp add: word_le_nat_alt)
  moreover have "unat k mod 2 \<le> unat k" by simp
  ultimately show ?thesis by (simp add: word_le_nat_alt unat_centre)
qed

lemma unat_padded_quotient:
  "(k::size_t) \<le> w \<Longrightarrow> unat ((w - k mod 2) div s) = (unat w - unat k mod 2) div unat s"
  by (simp add: unat_div unat_sub centre_le unat_centre)

lemma unat_plain_quotient:
  "(k::size_t) \<le> w \<Longrightarrow> unat ((w - k) div s) = (unat w - unat k) div unat s"
  by (simp add: unat_div unat_sub)

lemma unat_min: "unat (min (a::size_t) b) = min (unat a) (unat b)"
  by (simp add: min_def word_le_nat_alt)

lemma SubBatchSize_unat:
  "unat (SubBatchSize node B) =
     min (unat B) (if m_maxTempMemSizeInSamples node = 0 then unat B
                   else unat (m_maxTempMemSizeInSamples node))"
  by (simp add: SubBatchSize_def Let_def unat_min)

lemma SubBatchSize_zero_iff: "SubBatchSize node B = 0 \<longleftrightarrow> B = 0"
  by (auto simp: SubBatchSize_def Let_def min_def)

lemma SubBatchSize_le: "SubBatchSize node B \<le> B"
  by (simp add: SubBatchSize_def Let_def)

text \<open>A loop fails only where its body fails, and keeps what every round keeps.\<close>

lemma for_loop_Inl:
  "for_loop i n body s = Inl e \<Longrightarrow> \<exists>j t. body j t = Inl e"
proof (induction i n body s rule: for_loop.induct)
  case (1 i n body s)
  show ?case
  proof (cases "i < n")
    case False
    with "1.prems" show ?thesis by (simp add: for_loop.simps)
  next
    case True
    show ?thesis
    proof (cases "body i s")
      case (Inl e')
      with True "1.prems" have "e' = e" by (simp add: for_loop.simps)
      with Inl show ?thesis by blast
    next
      case (Inr s')
      with True "1.prems" have "for_loop (i + 1) n body s' = Inl e"
        by (simp add: for_loop.simps)
      with "1.IH" True Inr show ?thesis by blast
    qed
  qed
qed


lemma for_loop_once: "for_loop 0 1 body s = body 0 s"
  by (cases "body 0 s") (simp_all add: for_loop.simps)

text \<open>The tiling arithmetic on the natural numbers.\<close>

lemma unat_add_fit:
  "unat a + unat b < 2 ^ 64 \<Longrightarrow> unat (a + b :: size_t) = unat a + unat b"
  using unat_add_lem [of a b] by simp

lemma unat_mult_fit:
  "unat a * unat b < 2 ^ 64 \<Longrightarrow> unat (a * b :: size_t) = unat a * unat b"
  using unat_mult_lem [of a b] by simp

lemma unat_round_up:
  assumes "s \<noteq> (0::size_t)" and "unat B + unat s \<le> 2 ^ 64"
  shows "unat (B + s - 1) = unat B + unat s - 1"
proof -
  have s1: "unat (s - 1) = unat s - 1" using assms(1) by (simp add: unat_minus_one)
  have spos: "0 < unat s" using assms(1) by (simp add: unat_gt_0)
  have "unat B + unat (s - 1) < 2 ^ 64" using s1 spos assms(2) by linarith
  then have "unat (B + (s - 1)) = unat B + unat (s - 1)" by (rule unat_add_fit)
  also have "\<dots> = unat B + unat s - 1" using s1 spos by linarith
  finally have a: "unat (B + (s - 1)) = unat B + unat s - 1" .
  have b: "unat (B + s - 1) = unat (B + (s - 1))"
    by (rule arg_cong [where f = unat]) simp
  show ?thesis by (rule trans [OF b a])
qed

lemma NumSubBatches_unat:
  assumes "s \<noteq> (0::size_t)" and "unat B + unat s \<le> 2 ^ 64"
  shows "\<exists>n. NumSubBatches B s = Inr n \<and> unat n = (unat B + unat s - 1) div unat s"
  using assms by (simp add: NumSubBatches_def unat_div unat_round_up)

lemma ceiling_covers:
  fixes b s :: nat
  assumes "0 < s"
  shows "b \<le> ((b + s - 1) div s) * s"
proof -
  have "b + s - 1 < ((b + s - 1) div s) * s + s"
    using assms by (metis add.commute dividend_less_div_times mult.commute)
  then show ?thesis using assms by linarith
qed

lemma ceiling_least:
  fixes b s :: nat
  assumes "0 < s" and "0 < b"
  shows "((b + s - 1) div s - 1) * s < b"
proof -
  have "((b + s - 1) div s) * s \<le> b + s - 1" by simp
  then have "((b + s - 1) div s) * s - s < b" using assms by linarith
  then show ?thesis by (simp add: diff_mult_distrib)
qed

lemma ceiling_pos:
  fixes b s :: nat
  assumes "0 < s" and "0 < b"
  shows "1 \<le> (b + s - 1) div s"
proof -
  have "s \<le> b + s - 1" using assms by linarith
  then show ?thesis using assms by (simp add: Suc_le_eq div_greater_zero_iff)
qed

lemma sub_batch_start_below:
  fixes b s i :: nat
  assumes "0 < s" and "0 < b" and "i < (b + s - 1) div s"
  shows "i * s < b"
proof -
  have "i \<le> (b + s - 1) div s - 1" using assms(3) by linarith
  then have "i * s \<le> ((b + s - 1) div s - 1) * s" by (rule mult_le_mono1)
  then show ?thesis using ceiling_least [OF assms(1,2)] by linarith
qed

text \<open>Indices of sub-batch i, as natural numbers.\<close>

lemma sample_range_unat:
  assumes s0: "s \<noteq> (0::size_t)" and sB: "s \<le> B" and fit: "unat B + unat s \<le> 2 ^ 64"
    and n: "unat n = (unat B + unat s - 1) div unat s" and i: "i < n"
  shows "unat (StartSampleID i s) = unat i * unat s"
    and "unat (EndSampleID B i s) = min (unat B) ((unat i + 1) * unat s)"
    and "StartSampleID i s < EndSampleID B i s"
proof -
  have spos: "0 < unat s" using s0 by (simp add: unat_gt_0)
  have "unat s \<le> unat B" using sB by (simp add: word_le_nat_alt)
  with spos have bpos: "0 < unat B" by linarith
  have "unat i < (unat B + unat s - 1) div unat s"
    using i n by (simp add: word_less_nat_alt)
  then have below: "unat i * unat s < unat B"
    by (rule sub_batch_start_below [OF spos bpos])
  have blt: "unat B < 2 ^ 64" using unsigned_less [of B] by simp
  have "unat i * unat s < 2 ^ 64" using below blt by linarith
  then show st: "unat (StartSampleID i s) = unat i * unat s"
    by (simp add: StartSampleID_def unat_mult_fit)
  have "unat (StartSampleID i s) + unat s < 2 ^ 64"
    using st below fit by linarith
  then have nx: "unat (StartSampleID i s + s) = unat i * unat s + unat s"
    using st by (simp add: unat_add_fit)
  then show en: "unat (EndSampleID B i s) = min (unat B) ((unat i + 1) * unat s)"
    by (simp add: EndSampleID_def unat_min)
  show "StartSampleID i s < EndSampleID B i s"
    using st en below spos by (simp add: word_less_nat_alt)
qed

text \<open>
  The loop as a fold over the indices \<open>first, ..., n - 1\<close>, which stops at the first
  round that throws.
\<close>

lemma foldl_Inl:
  "foldl (\<lambda>st j. case st of Inl e \<Rightarrow> Inl e | Inr x \<Rightarrow> f j x) (Inl e) js = Inl e"
  by (induction js) simp_all

lemma for_loop_foldl:
  "for_loop i n body s =
     foldl (\<lambda>st j. case st of Inl e \<Rightarrow> Inl e | Inr x \<Rightarrow> body (of_nat j) x) (Inr s)
       [unat i..<unat n]"
proof (induction i n body s rule: for_loop.induct)
  case (1 i n body s)
  show ?case
  proof (cases "i < n")
    case False
    then have "\<not> unat i < unat n" by (simp add: word_less_nat_alt)
    then show ?thesis using False by (simp add: for_loop.simps [of i n])
  next
    case True
    then have u: "unat i < unat n" by (simp add: word_less_nat_alt)
    have "unat n < 2 ^ 64" using unsigned_less [of n] by simp
    then have "unat i + unat (1::size_t) < 2 ^ 64" using u by simp
    then have su: "unat (i + 1) = Suc (unat i)" by (simp add: unat_add_fit)
    have l: "[unat i..<unat n] = unat i # [unat (i + 1)..<unat n]"
      using u su by (simp add: upt_conv_Cons)
    show ?thesis
    proof (cases "body i s")
      case (Inl e)
      then show ?thesis using True by (simp add: for_loop.simps [of i n] l foldl_Inl)
    next
      case (Inr s')
      then show ?thesis
        using True "1.IH" [OF True Inr] by (simp add: for_loop.simps [of i n] l)
    qed
  qed
qed

lemma for_loop_total:
  assumes "\<And>j x. body j x = Inr (f j x)"
  shows "for_loop i n body s = Inr (foldl (\<lambda>x j. f (of_nat j) x) s [unat i..<unat n])"
proof -
  have "foldl (\<lambda>st j. case st of Inl e \<Rightarrow> Inl e | Inr x \<Rightarrow> body (of_nat j) x) (Inr x) js =
        Inr (foldl (\<lambda>x j. f (of_nat j) x) x js)" for x js
    by (induction js arbitrary: x) (simp_all add: assms)
  then show ?thesis by (simp add: for_loop_foldl)
qed

text \<open>The column offsets of sub-batch i, where the batch times the output size per
  channel fits \<open>size_t\<close>.\<close>

lemma sub_batch_columns:
  assumes s0: "s \<noteq> (0::size_t)" and sB: "s \<le> B" and fit: "unat B + unat s \<le> 2 ^ 64"
    and n: "unat n = (unat B + unat s - 1) div unat s" and i: "i < n"
    and fit2: "unat B * unat q < 2 ^ 64"
  shows "unat (StartSampleID i s * q) = unat (StartSampleID i s) * unat q"
    and "unat (EndSampleID B i s - StartSampleID i s) =
         unat (EndSampleID B i s) - unat (StartSampleID i s)"
    and "unat ((EndSampleID B i s - StartSampleID i s) * q) =
         (unat (EndSampleID B i s) - unat (StartSampleID i s)) * unat q"
    and "unat (EndSampleID B i s) \<le> unat B"
proof -
  note r = sample_range_unat [OF s0 sB fit n i]
  have lt: "StartSampleID i s < EndSampleID B i s" by (rule r(3))
  then have ult: "unat (StartSampleID i s) < unat (EndSampleID B i s)"
    by (simp add: word_less_nat_alt)
  show eB: "unat (EndSampleID B i s) \<le> unat B" using r(2) by simp
  have "unat (StartSampleID i s) * unat q \<le> unat B * unat q"
    using ult eB by (intro mult_le_mono1) linarith
  then have "unat (StartSampleID i s) * unat q < 2 ^ 64" using fit2 by linarith
  then show "unat (StartSampleID i s * q) = unat (StartSampleID i s) * unat q"
    by (rule unat_mult_fit)
  show d: "unat (EndSampleID B i s - StartSampleID i s) =
         unat (EndSampleID B i s) - unat (StartSampleID i s)"
    using lt by (simp add: unat_sub)
  have "unat (EndSampleID B i s - StartSampleID i s) * unat q \<le> unat B * unat q"
    using d eB by (intro mult_le_mono1) linarith
  then have "unat (EndSampleID B i s - StartSampleID i s) * unat q < 2 ^ 64"
    using fit2 by linarith
  then have "unat ((EndSampleID B i s - StartSampleID i s) * q) =
        unat (EndSampleID B i s - StartSampleID i s) * unat q"
    by (rule unat_mult_fit)
  then show "unat ((EndSampleID B i s - StartSampleID i s) * q) =
         (unat (EndSampleID B i s) - unat (StartSampleID i s)) * unat q"
    using d by simp
qed

text \<open>How the three passes unfold, and where they can fail.\<close>

lemma ForwardPropS_body_no_div:
  "ForwardPropS_body ops node input0 input1 B s i st \<noteq> Inl DivideByZero"
  by (simp add: ForwardPropS_body_def Let_def split: prod.splits)

lemma BackpropToOverWeight_body_Inr:
  "\<exists>r. BackpropToOverWeight_body ops node gv input1 B s i st = Inr r"
  by (simp add: BackpropToOverWeight_body_def Let_def split: prod.splits)

lemma BackpropToOverInputFeature_body_Inr:
  "\<exists>r. BackpropToOverInputFeature_body ops node gv input0 B s i st = Inr r"
  by (simp add: BackpropToOverInputFeature_body_def Let_def split: prod.splits)

lemma NumSubBatches_Inl_iff:
  "NumSubBatches B (SubBatchSize node B) = Inl e \<longleftrightarrow> B = 0 \<and> e = DivideByZero"
  by (auto simp: NumSubBatches_def SubBatchSize_zero_iff)

lemma SubBatchSize_flag:
  "SubBatchSize (node\<lparr>m_1DConvolutionOnGPUSparse := c\<rparr>) B = SubBatchSize node B"
  by (simp add: SubBatchSize_def)

lemma ForwardPropS_unfold:
  "ForwardPropS ops node functionValues input0 input1 tempMatrix =
     (case NumSubBatches (GetNumCols input1) (SubBatchSize node (GetNumCols input1)) of
        Inl e \<Rightarrow> Inl e
      | Inr n \<Rightarrow>
         (case for_loop 0 n
                 (ForwardPropS_body ops
                    (node\<lparr>m_1DConvolutionOnGPUSparse :=
                       (GetHeight (m_inputSampleLayout node) = 1
                        \<and> GetCurrentMatrixLocation input1 = GPU
                        \<and> GetMatrixType input1 = SPARSE)\<rparr>)
                    input0 input1 (GetNumCols input1)
                    (SubBatchSize node (GetNumCols input1)))
                 (if GetHeight (m_inputSampleLayout node) = 1
                     \<and> GetCurrentMatrixLocation input1 = GPU
                     \<and> GetMatrixType input1 = SPARSE
                  then SwitchToMatrixType ops functionValues DENSE matrixFormatDense False
                  else Reshape
                         (SwitchToMatrixType ops functionValues DENSE matrixFormatDense False)
                         (GetNumChannels (m_sampleLayout node))
                         (GetNumCols input1 *
                          (GetWidth (m_sampleLayout node) * GetHeight (m_sampleLayout node))),
                  tempMatrix) of
            Inl e \<Rightarrow> Inl e
          | Inr (functionValues3, tempMatrix1) \<Rightarrow>
              Inr (Reshape functionValues3
                     (GetNumChannels (m_sampleLayout node) *
                      (GetWidth (m_sampleLayout node) * GetHeight (m_sampleLayout node)))
                     (GetNumCols input1),
                   tempMatrix1,
                   node\<lparr>m_1DConvolutionOnGPUSparse :=
                       (GetHeight (m_inputSampleLayout node) = 1
                        \<and> GetCurrentMatrixLocation input1 = GPU
                        \<and> GetMatrixType input1 = SPARSE)\<rparr>)))"
proof -
  define c where "c = (GetHeight (m_inputSampleLayout node) = 1
                        \<and> GetCurrentMatrixLocation input1 = GPU
                        \<and> GetMatrixType input1 = SPARSE)"
  show ?thesis
    unfolding ForwardPropS_def Let_def c_def [symmetric]
    by (cases c) (simp_all add: SubBatchSize_flag cong: sum.case_cong prod.case_cong)
qed

lemma loop_then_Inl:
  assumes "(case for_loop i n body s of Inl e \<Rightarrow> Inl e | Inr r \<Rightarrow> k r) = Inl e"
    and "\<forall>r. k r \<noteq> Inl e"
  shows "\<exists>j t. body j t = Inl e"
proof (cases "for_loop i n body s")
  case (Inl e')
  with assms(1) have "for_loop i n body s = Inl e" by simp
  then show ?thesis by (rule for_loop_Inl)
next
  case (Inr r)
  with assms show ?thesis by simp
qed

lemma ForwardPropS_div_iff:
  "ForwardPropS ops node functionValues input0 input1 tempMatrix = Inl DivideByZero
   \<longleftrightarrow> GetNumCols input1 = 0"
proof (cases "NumSubBatches (GetNumCols input1) (SubBatchSize node (GetNumCols input1))")
  case (Inl e)
  then show ?thesis
    using NumSubBatches_Inl_iff [of "GetNumCols input1" node e]
    by (simp add: ForwardPropS_unfold)
next
  case (Inr n)
  then have nz: "GetNumCols input1 \<noteq> 0"
    using NumSubBatches_Inl_iff [of "GetNumCols input1" node DivideByZero] by auto
  have "ForwardPropS ops node functionValues input0 input1 tempMatrix \<noteq> Inl DivideByZero"
  proof
    assume a: "ForwardPropS ops node functionValues input0 input1 tempMatrix = Inl DivideByZero"
    have "\<exists>j t. ForwardPropS_body ops
                    (node\<lparr>m_1DConvolutionOnGPUSparse :=
                       (GetHeight (m_inputSampleLayout node) = 1
                        \<and> GetCurrentMatrixLocation input1 = GPU
                        \<and> GetMatrixType input1 = SPARSE)\<rparr>)
                    input0 input1 (GetNumCols input1)
                    (SubBatchSize node (GetNumCols input1)) j t = Inl DivideByZero"
      by (rule loop_then_Inl [OF a [unfolded ForwardPropS_unfold Inr sum.case]])
         (simp split: prod.splits)
    then show False by (simp add: ForwardPropS_body_no_div)
  qed
  with nz show ?thesis by simp
qed

lemma BackpropToOverWeight_unfold:
  assumes "NumSubBatches (GetNumCols input1) (SubBatchSize node (GetNumCols input1)) = Inr n"
  shows "BackpropToOverWeight ops node gradientValues inputGradientValues input0 input1
           tempMatrix inLoop =
         (if n = 1 \<and> \<not> inLoop \<and> \<not> m_1DConvolutionOnGPUSparse node
          then Inr (MultiplyAndAdd ops
                      (Reshape gradientValues (GetNumChannels (m_sampleLayout node))
                         (GetNumCols input1 *
                          (GetWidth (m_sampleLayout node) * GetHeight (m_sampleLayout node))))
                      False tempMatrix True inputGradientValues,
                    tempMatrix,
                    Reshape
                      (Reshape gradientValues (GetNumChannels (m_sampleLayout node))
                         (GetNumCols input1 *
                          (GetWidth (m_sampleLayout node) * GetHeight (m_sampleLayout node))))
                      (GetNumChannels (m_sampleLayout node) *
                       (GetWidth (m_sampleLayout node) * GetHeight (m_sampleLayout node)))
                      (GetNumCols input1))
          else
            (case for_loop 0 n
                    (BackpropToOverWeight_body ops node
                       (Reshape gradientValues (GetNumChannels (m_sampleLayout node))
                          (GetNumCols input1 *
                           (GetWidth (m_sampleLayout node) * GetHeight (m_sampleLayout node))))
                       input1 (GetNumCols input1) (SubBatchSize node (GetNumCols input1)))
                    (inputGradientValues, tempMatrix) of
               Inl e \<Rightarrow> Inl e
             | Inr (inputGradientValues1, tempMatrix1) \<Rightarrow>
                 Inr (inputGradientValues1, tempMatrix1,
                      Reshape
                        (Reshape gradientValues (GetNumChannels (m_sampleLayout node))
                           (GetNumCols input1 *
                            (GetWidth (m_sampleLayout node) * GetHeight (m_sampleLayout node))))
                        (GetNumChannels (m_sampleLayout node) *
                         (GetWidth (m_sampleLayout node) * GetHeight (m_sampleLayout node)))
                        (GetNumCols input1))))"
  using assms unfolding BackpropToOverWeight_def Let_def by simp

lemma BackpropToOverInputFeature_unfold:
  assumes "NumSubBatches (GetNumCols input1) (SubBatchSize node (GetNumCols input1)) = Inr n"
  shows "BackpropToOverInputFeature ops node gradientValues inputGradientValues input0 input1
           tempMatrix =
         (case for_loop 0 n
                 (BackpropToOverInputFeature_body ops node
                    (Reshape gradientValues (GetNumChannels (m_sampleLayout node))
                       (GetWidth (m_sampleLayout node) * GetHeight (m_sampleLayout node) *
                        GetNumCols input1))
                    input0 (GetNumCols input1) (SubBatchSize node (GetNumCols input1)))
                 (inputGradientValues, tempMatrix) of
            Inl e \<Rightarrow> Inl e
          | Inr (inputGradientValues1, tempMatrix1) \<Rightarrow>
              Inr (inputGradientValues1, tempMatrix1,
                   Reshape
                     (Reshape gradientValues (GetNumChannels (m_sampleLayout node))
                        (GetWidth (m_sampleLayout node) * GetHeight (m_sampleLayout node) *
                         GetNumCols input1))
                     (GetNumChannels (m_sampleLayout node) *
                      (GetWidth (m_sampleLayout node) * GetHeight (m_sampleLayout node)))
                     (GetNumCols input1)))"
  using assms unfolding BackpropToOverInputFeature_def Let_def by simp

lemma BackpropToOverWeight_div_iff:
  "BackpropToOverWeight ops node gradientValues inputGradientValues input0 input1
     tempMatrix inLoop = Inl DivideByZero
   \<longleftrightarrow> GetNumCols input1 = 0"
proof (cases "NumSubBatches (GetNumCols input1) (SubBatchSize node (GetNumCols input1))")
  case (Inl e)
  then show ?thesis
    using NumSubBatches_Inl_iff [of "GetNumCols input1" node e]
    by (simp add: BackpropToOverWeight_def Let_def)
next
  case (Inr n)
  then have nz: "GetNumCols input1 \<noteq> 0"
    using NumSubBatches_Inl_iff [of "GetNumCols input1" node DivideByZero] by auto
  have "BackpropToOverWeight ops node gradientValues inputGradientValues input0 input1
     tempMatrix inLoop \<noteq> Inl DivideByZero"
  proof
    assume a: "BackpropToOverWeight ops node gradientValues inputGradientValues input0 input1
     tempMatrix inLoop = Inl DivideByZero"
    show False
    proof (cases "n = 1 \<and> \<not> inLoop \<and> \<not> m_1DConvolutionOnGPUSparse node")
      case True
      with a show False by (simp add: BackpropToOverWeight_unfold [OF Inr])
    next
      case False
      have "\<exists>j t. BackpropToOverWeight_body ops node
                       (Reshape gradientValues (GetNumChannels (m_sampleLayout node))
                          (GetNumCols input1 *
                           (GetWidth (m_sampleLayout node) * GetHeight (m_sampleLayout node))))
                       input1 (GetNumCols input1) (SubBatchSize node (GetNumCols input1)) j t
                   = Inl DivideByZero"
        by (rule loop_then_Inl [OF a [unfolded BackpropToOverWeight_unfold [OF Inr]
                if_not_P [OF False]]])
           (simp split: prod.splits)
      then show False using BackpropToOverWeight_body_Inr by (metis sum.distinct(1))
    qed
  qed
  with nz show ?thesis by simp
qed

lemma BackpropToOverInputFeature_div_iff:
  "BackpropToOverInputFeature ops node gradientValues inputGradientValues input0 input1
     tempMatrix = Inl DivideByZero
   \<longleftrightarrow> GetNumCols input1 = 0"
proof (cases "NumSubBatches (GetNumCols input1) (SubBatchSize node (GetNumCols input1))")
  case (Inl e)
  then show ?thesis
    using NumSubBatches_Inl_iff [of "GetNumCols input1" node e]
    by (simp add: BackpropToOverInputFeature_def Let_def)
next
  case (Inr n)
  then have nz: "GetNumCols input1 \<noteq> 0"
    using NumSubBatches_Inl_iff [of "GetNumCols input1" node DivideByZero] by auto
  have "BackpropToOverInputFeature ops node gradientValues inputGradientValues input0 input1
     tempMatrix \<noteq> Inl DivideByZero"
  proof
    assume a: "BackpropToOverInputFeature ops node gradientValues inputGradientValues input0
     input1 tempMatrix = Inl DivideByZero"
    have "\<exists>j t. BackpropToOverInputFeature_body ops node
                    (Reshape gradientValues (GetNumChannels (m_sampleLayout node))
                       (GetWidth (m_sampleLayout node) * GetHeight (m_sampleLayout node) *
                        GetNumCols input1))
                    input0 (GetNumCols input1) (SubBatchSize node (GetNumCols input1)) j t
                 = Inl DivideByZero"
      by (rule loop_then_Inl [OF a [unfolded BackpropToOverInputFeature_unfold [OF Inr]]])
         (simp split: prod.splits)
    then show False using BackpropToOverInputFeature_body_Inr by (metis sum.distinct(1))
  qed
  with nz show ?thesis by simp
qed

lemma NumSubBatches_pos:
  assumes "B \<noteq> 0" and "unat B + unat (SubBatchSize node B) \<le> 2 ^ 64"
  shows "\<exists>n. NumSubBatches B (SubBatchSize node B) = Inr n \<and> 1 \<le> n"
proof -
  have s0: "SubBatchSize node B \<noteq> 0" using assms(1) by (simp add: SubBatchSize_zero_iff)
  then obtain n where n: "NumSubBatches B (SubBatchSize node B) = Inr n"
    and un: "unat n = (unat B + unat (SubBatchSize node B) - 1) div unat (SubBatchSize node B)"
    using NumSubBatches_unat [OF s0 assms(2)] by blast
  have "0 < unat B" using assms(1) by (simp add: unat_gt_0)
  moreover have "0 < unat (SubBatchSize node B)" using s0 by (simp add: unat_gt_0)
  ultimately have "1 \<le> unat n" using un ceiling_pos by simp
  then have "1 \<le> n" by (simp add: word_le_nat_alt)
  with n show ?thesis by blast
qed


lemma ForwardPropS_body_sparse:
  "m_1DConvolutionOnGPUSparse node \<Longrightarrow>
   ForwardPropS_body ops node input0 input1 B s i (functionValues, tempMatrix) =
     (if m_kernelWidth node * GetNumChannels (m_inputSampleLayout node) \<noteq> GetNumCols input0
      then Inl (LogicError ''Kernel width and weight matrix dimensions don't match.'' [])
      else Inr (WriteColumnSlice functionValues (StartSampleID i s)
                  (EndSampleID B i s - StartSampleID i s)
                  (ConvolveAndWeightedAdd ops 1 input0 False
                     (ColumnSlice input1 (StartSampleID i s)
                        (EndSampleID B i s - StartSampleID i s))
                     False 0
                     (ColumnSlice functionValues (StartSampleID i s)
                        (EndSampleID B i s - StartSampleID i s))
                     (GetNumChannels (m_inputSampleLayout node))
                     (m_horizontalSubsample node) (m_zeroPadding node) True),
                tempMatrix))"
  by (simp add: ForwardPropS_body_def Let_def)

lemma ForwardPropS_body_generic:
  "\<not> m_1DConvolutionOnGPUSparse node \<Longrightarrow>
   ForwardPropS_body ops node input0 input1 B s i (functionValues, tempMatrix) =
     Inr (WriteColumnSlice functionValues
            (StartSampleID i s *
             (GetWidth (m_sampleLayout node) * GetHeight (m_sampleLayout node)))
            ((EndSampleID B i s - StartSampleID i s) *
             (GetWidth (m_sampleLayout node) * GetHeight (m_sampleLayout node)))
            (Multiply ops input0 False
               (AssignPackedConvolutionInput ops
                  (Resize tempMatrix
                     (m_kernelWidth node * m_kernelHeight node *
                      GetNumChannels (m_inputSampleLayout node))
                     (GetWidth (m_sampleLayout node) * GetHeight (m_sampleLayout node) *
                      (EndSampleID B i s - StartSampleID i s)))
                  (SwitchToMatrixType ops
                     (ColumnSlice input1 (StartSampleID i s)
                        (EndSampleID B i s - StartSampleID i s))
                     DENSE matrixFormatDense True)
                  (PackingGeometry node) (m_zeroPadding node))
               False
               (ColumnSlice functionValues
                  (StartSampleID i s *
                   (GetWidth (m_sampleLayout node) * GetHeight (m_sampleLayout node)))
                  ((EndSampleID B i s - StartSampleID i s) *
                   (GetWidth (m_sampleLayout node) * GetHeight (m_sampleLayout node))))),
          AssignPackedConvolutionInput ops
            (Resize tempMatrix
               (m_kernelWidth node * m_kernelHeight node *
                GetNumChannels (m_inputSampleLayout node))
               (GetWidth (m_sampleLayout node) * GetHeight (m_sampleLayout node) *
                (EndSampleID B i s - StartSampleID i s)))
            (SwitchToMatrixType ops
               (ColumnSlice input1 (StartSampleID i s)
                  (EndSampleID B i s - StartSampleID i s))
               DENSE matrixFormatDense True)
            (PackingGeometry node) (m_zeroPadding node))"
  by (simp add: ForwardPropS_body_def Let_def)




text \<open>A single sub-batch is the whole batch.\<close>

lemma ColumnSlice_all:
  "wf_Matrix M \<Longrightarrow> ColumnSlice M 0 (GetNumCols M) = M"
  by (simp add: ColumnSlice_def wf_Matrix_def mult.commute)

lemma one_sub_batch:
  assumes "NumSubBatches B (SubBatchSize node B) = Inr 1"
  shows "SubBatchSize node B = B"
proof -
  let ?s = "SubBatchSize node B"
  have s0: "?s \<noteq> 0" and q: "(B + ?s - 1) div ?s = 1"
    using assms by (auto simp: NumSubBatches_def split: if_splits)
  have spos: "0 < unat ?s" using s0 by (simp add: unat_gt_0)
  have sle: "unat ?s \<le> unat B" using SubBatchSize_le [of node B] by (simp add: word_le_nat_alt)
  have blt: "unat B < 2 ^ 64" using unsigned_less [of B] by simp
  have uq: "unat (B + ?s - 1) div unat ?s = 1"
    using q by (metis unat_div unat_1)
  have fit: "unat B + unat ?s \<le> 2 ^ 64"
  proof (rule ccontr)
    assume "\<not> unat B + unat ?s \<le> 2 ^ 64"
    then have over: "2 ^ 64 < unat B + unat ?s" by simp
    have s1: "unat (?s - 1) = unat ?s - 1" using s0 by (simp add: unat_minus_one)
    have "unat (B + (?s - 1)) = (unat B + unat (?s - 1)) mod 2 ^ 64"
      using unat_word_ariths(1) [of B "?s - 1"] by simp
    also have "\<dots> = unat B + unat ?s - 1 - 2 ^ 64"
    proof -
      have "2 ^ 64 \<le> unat B + unat (?s - 1)" using over s1 by linarith
      moreover have "unat B + unat (?s - 1) < 2 * 2 ^ 64"
        using blt sle s1 spos by linarith
      ultimately have "(unat B + unat (?s - 1)) mod 2 ^ 64 = unat B + unat (?s - 1) - 2 ^ 64"
        by (simp add: le_mod_geq)
      then show ?thesis using s1 spos by simp
    qed
    finally have "unat (B + (?s - 1)) < unat ?s" using blt spos by linarith
    moreover have "unat (B + ?s - 1) = unat (B + (?s - 1))"
      by (rule arg_cong [where f = unat]) simp
    ultimately have "unat (B + ?s - 1) div unat ?s = 0" by simp
    with uq show False by simp
  qed
  have "unat (B + ?s - 1) = unat B + unat ?s - 1" by (rule unat_round_up [OF s0 fit])
  with uq have "(unat B + unat ?s - 1) div unat ?s = 1" by simp
  then have "(unat B + unat ?s - 1) div unat ?s < 2" by simp
  then have "unat B + unat ?s - 1 < 2 * unat ?s"
    using spos by (simp add: div_less_iff_less_mult mult.commute)
  then have "unat B \<le> unat ?s" using spos by linarith
  with sle have "unat ?s = unat B" by simp
  then show ?thesis by (simp add: word_unat_eq_iff)
qed

lemma repack_single_sub_batch:
  assumes one: "NumSubBatches (GetNumCols input1) (SubBatchSize node (GetNumCols input1)) = Inr 1"
    and wf1: "wf_Matrix input1" and wfg: "wf_Matrix gradientValues"
    and cols: "GetNumCols gradientValues =
                 GetNumCols input1 *
                 (GetWidth (m_sampleLayout node) * GetHeight (m_sampleLayout node))"
    and packed: "AssignPackedConvolutionInput ops
                   (Resize tempMatrix
                      (m_kernelWidth node * m_kernelHeight node *
                       GetNumChannels (m_inputSampleLayout node))
                      (GetWidth (m_sampleLayout node) * GetHeight (m_sampleLayout node) *
                       GetNumCols input1))
                   (SwitchToMatrixType ops input1 DENSE (GetFormat input1) True)
                   (PackingGeometry node) (m_zeroPadding node) = tempMatrix"
  shows "for_loop 0 1
           (BackpropToOverWeight_body ops node gradientValues input1 (GetNumCols input1)
              (SubBatchSize node (GetNumCols input1)))
           (inputGradientValues, tempMatrix) =
         Inr (MultiplyAndAdd ops gradientValues False tempMatrix True inputGradientValues,
              tempMatrix)"
proof -
  have s: "SubBatchSize node (GetNumCols input1) = GetNumCols input1"
    by (rule one_sub_batch [OF one])
  have st: "StartSampleID 0 (GetNumCols input1) = 0" by (simp add: StartSampleID_def)
  have en: "EndSampleID (GetNumCols input1) 0 (GetNumCols input1) = GetNumCols input1"
    by (simp add: EndSampleID_def StartSampleID_def)
  have g: "ColumnSlice gradientValues 0
             (GetNumCols input1 *
              (GetWidth (m_sampleLayout node) * GetHeight (m_sampleLayout node))) =
           gradientValues"
    using ColumnSlice_all [OF wfg] cols by simp
  have x: "ColumnSlice input1 0 (GetNumCols input1) = input1"
    by (rule ColumnSlice_all [OF wf1])
  show ?thesis
    unfolding for_loop_once s
    by (simp add: BackpropToOverWeight_body_def Let_def st en g x packed)
qed


text \<open>Adding into a buffer: the algebra of \<open>AddInto\<close>, and two loops in step.\<close>

lemma length_AddInto [simp]: "length (m_elems (AddInto G D)) = length (m_elems G)"
  by (simp add: AddInto_def)

lemma nth_AddInto:
  "k < length (m_elems G) \<Longrightarrow>
   m_elems (AddInto G D) ! k =
     (if k < length (m_elems D) then m_elems G ! k + m_elems D ! k else m_elems G ! k)"
  by (simp add: AddInto_def)

lemma AddInto_fields:
  "AddInto G D = G\<lparr>m_elems := m_elems (AddInto G D)\<rparr>"
  by (simp add: AddInto_def)

lemma Matrix_eq_elems:
  "G\<lparr>m_elems := xs\<rparr> = G\<lparr>m_elems := ys\<rparr> \<longleftrightarrow> xs = ys"
proof
  assume "G\<lparr>m_elems := xs\<rparr> = G\<lparr>m_elems := ys\<rparr>"
  then have "m_elems (G\<lparr>m_elems := xs\<rparr>) = m_elems (G\<lparr>m_elems := ys\<rparr>)"
    by (rule arg_cong)
  then show "xs = ys" by simp
qed simp

lemma AddInto_assoc:
  fixes G :: "'a::monoid_add Matrix"
  assumes "length (m_elems H) = length (m_elems G)"
  shows "AddInto (AddInto G H) D = AddInto G (AddInto H D)"
proof -
  have "m_elems (AddInto (AddInto G H) D) = m_elems (AddInto G (AddInto H D))"
  proof (rule nth_equalityI)
    show "length (m_elems (AddInto (AddInto G H) D)) = length (m_elems (AddInto G (AddInto H D)))"
      by simp
  next
    fix k assume "k < length (m_elems (AddInto (AddInto G H) D))"
    then have k: "k < length (m_elems G)" by simp
    then show "m_elems (AddInto (AddInto G H) D) ! k = m_elems (AddInto G (AddInto H D)) ! k"
      using assms by (simp add: nth_AddInto add.assoc)
  qed
  then show ?thesis by (simp add: AddInto_def)
qed

lemma AddInto_ZeroLike [simp]:
  fixes G :: "'a::monoid_add Matrix"
  shows "AddInto G (ZeroLike H) = G"
proof -
  have "m_elems (AddInto G (ZeroLike H)) = m_elems G"
    by (rule nth_equalityI) (simp_all add: nth_AddInto ZeroLike_def)
  then show ?thesis by (simp add: AddInto_def)
qed

lemma length_ZeroLike [simp]: "length (m_elems (ZeroLike G)) = length (m_elems G)"
  by (simp add: ZeroLike_def)

lemma AddInto_from_zero:
  fixes G :: "'a::monoid_add Matrix"
  shows "AddInto G (AddInto (ZeroLike G) D) = AddInto G D"
  using AddInto_assoc [of "ZeroLike G" G D] by simp

lemma shaped_ZeroLike: "shaped G (ZeroLike G)"
  by (simp add: shaped_def ZeroLike_def)

lemma shaped_AddInto:
  assumes "shaped G Z"
  shows "shaped G (AddInto Z D)"
proof -
  from assms have l: "length (m_elems Z) = length (m_elems G)"
    and z: "Z = G\<lparr>m_elems := m_elems Z\<rparr>"
    by (simp_all add: shaped_def)
  have "AddInto Z D = Z\<lparr>m_elems := m_elems (AddInto Z D)\<rparr>" by (rule AddInto_fields)
  also have "\<dots> = G\<lparr>m_elems := m_elems Z\<rparr>\<lparr>m_elems := m_elems (AddInto Z D)\<rparr>"
    using z by (rule arg_cong [where f = "\<lambda>M. M\<lparr>m_elems := m_elems (AddInto Z D)\<rparr>"])
  also have "\<dots> = G\<lparr>m_elems := m_elems (AddInto Z D)\<rparr>" by simp
  finally show ?thesis using l by (simp add: shaped_def)
qed

lemma for_loop_rel:
  "\<forall>j s t. R s t \<longrightarrow> rel_sum (=) R (body1 j s) (body2 j t) \<Longrightarrow> R s t \<Longrightarrow>
   rel_sum (=) R (for_loop i n body1 s) (for_loop i n body2 t)"
proof (induction i n body1 s arbitrary: t rule: for_loop.induct)
  case (1 i n body1 s)
  show ?case
  proof (cases "i < n")
    case False
    then show ?thesis using "1.prems"(2) by (simp add: for_loop.simps)
  next
    case True
    have step: "rel_sum (=) R (body1 i s) (body2 i t)" using "1.prems" by blast
    show ?thesis
    proof (cases "body1 i s")
      case (Inl e)
      with step have "body2 i t = Inl e" by (cases "body2 i t") simp_all
      with Inl True show ?thesis by (simp add: for_loop.simps)
    next
      case (Inr s')
      with step obtain t' where t': "body2 i t = Inr t'" and r: "R s' t'"
        by (cases "body2 i t") simp_all
      have "rel_sum (=) R (for_loop (i + 1) n body1 s') (for_loop (i + 1) n body2 t')"
        by (rule "1.IH" [OF True Inr "1.prems"(1) r])
      then show ?thesis using True Inr t' by (simp add: for_loop.simps)
    qed
  qed
qed

lemma accum_start: "accum G0 (G0, t) (ZeroLike G0, t)"
  by (simp add: accum_def shaped_ZeroLike)

lemma weight_body_accum:
  fixes G0 :: "'a::monoid_add Matrix"
  assumes "accum G0 s z"
  shows "rel_sum (=) (accum G0)
           (BackpropToOverWeight_body ops node gv input1 B sb j s)
           (BackpropToOverWeight_body ops node gv input1 B sb j z)"
proof -
  obtain G t where s: "s = (G, t)" by (cases s)
  obtain Z t' where z: "z = (Z, t')" by (cases z)
  from assms s z have tt: "t' = t" and sh: "shaped G0 Z" and g: "G = AddInto G0 Z"
    by (simp_all add: accum_def)
  have len: "length (m_elems Z) = length (m_elems G0)" using sh by (simp add: shaped_def)
  show ?thesis
    unfolding s z tt g
    by (simp add: BackpropToOverWeight_body_def Let_def MultiplyAndAdd_def accum_def
          shaped_AddInto [OF sh] AddInto_assoc [OF len])
qed

lemma weight_loop_accum:
  fixes G0 :: "'a::monoid_add Matrix"
  shows "rel_sum (=) (accum G0)
           (for_loop i n (BackpropToOverWeight_body ops node gv input1 B sb) (G0, t))
           (for_loop i n (BackpropToOverWeight_body ops node gv input1 B sb) (ZeroLike G0, t))"
  by (rule for_loop_rel) (simp_all add: weight_body_accum accum_start)

lemma BackpropToOverWeight_repack:
  assumes "NumSubBatches (GetNumCols input1) (SubBatchSize node (GetNumCols input1)) = Inr n"
    and "\<not> (n = 1 \<and> \<not> inLoop \<and> \<not> m_1DConvolutionOnGPUSparse node)"
  shows "BackpropToOverWeight ops node gradientValues inputGradientValues input0 input1
           tempMatrix inLoop =
         (case for_loop 0 n
                 (BackpropToOverWeight_body ops node
                    (Reshape gradientValues (GetNumChannels (m_sampleLayout node))
                       (GetNumCols input1 *
                        (GetWidth (m_sampleLayout node) * GetHeight (m_sampleLayout node))))
                    input1 (GetNumCols input1) (SubBatchSize node (GetNumCols input1)))
                 (inputGradientValues, tempMatrix) of
            Inl e \<Rightarrow> Inl e
          | Inr (inputGradientValues1, tempMatrix1) \<Rightarrow>
              Inr (inputGradientValues1, tempMatrix1,
                   Reshape
                     (Reshape gradientValues (GetNumChannels (m_sampleLayout node))
                        (GetNumCols input1 *
                         (GetWidth (m_sampleLayout node) * GetHeight (m_sampleLayout node))))
                     (GetNumChannels (m_sampleLayout node) *
                      (GetWidth (m_sampleLayout node) * GetHeight (m_sampleLayout node)))
                     (GetNumCols input1)))"
  unfolding BackpropToOverWeight_unfold [OF assms(1)] using assms(2) by (rule if_not_P)

lemma BackpropToOverWeight_accumulates:
  fixes G :: "'a::monoid_add Matrix"
  shows "map_sum id fst
           (BackpropToOverWeight ops node gradientValues G input0 input1 tempMatrix inLoop) =
         map_sum id (\<lambda>r. AddInto G (fst r))
           (BackpropToOverWeight ops node gradientValues (ZeroLike G) input0 input1
              tempMatrix inLoop)"
proof (cases "NumSubBatches (GetNumCols input1) (SubBatchSize node (GetNumCols input1))")
  case (Inl e)
  then show ?thesis by (simp add: BackpropToOverWeight_def Let_def)
next
  case (Inr n)
  show ?thesis
  proof (cases "n = 1 \<and> \<not> inLoop \<and> \<not> m_1DConvolutionOnGPUSparse node")
    case True
    then show ?thesis
      by (simp add: BackpropToOverWeight_unfold [OF Inr] MultiplyAndAdd_def AddInto_from_zero)
  next
    case False
    let ?body = "BackpropToOverWeight_body ops node
                   (Reshape gradientValues (GetNumChannels (m_sampleLayout node))
                      (GetNumCols input1 *
                       (GetWidth (m_sampleLayout node) * GetHeight (m_sampleLayout node))))
                   input1 (GetNumCols input1) (SubBatchSize node (GetNumCols input1))"
    note u = BackpropToOverWeight_repack [OF Inr False]
    have rel: "rel_sum (=) (accum G) (for_loop 0 n ?body (G, tempMatrix))
                 (for_loop 0 n ?body (ZeroLike G, tempMatrix))"
      by (rule weight_loop_accum)
    show ?thesis
    proof (cases "for_loop 0 n ?body (G, tempMatrix)")
      case (Inl e)
      with rel have "for_loop 0 n ?body (ZeroLike G, tempMatrix) = Inl e"
        by (cases "for_loop 0 n ?body (ZeroLike G, tempMatrix)") simp_all
      with Inl show ?thesis by (simp add: u)
    next
      case r: (Inr s)
      with rel obtain z where z: "for_loop 0 n ?body (ZeroLike G, tempMatrix) = Inr z"
        and a: "accum G s z"
        by (cases "for_loop 0 n ?body (ZeroLike G, tempMatrix)") simp_all
      from a have "fst s = AddInto G (fst z)" by (simp add: accum_def)
      with r z show ?thesis
        by (auto simp: u split: prod.splits)
    qed
  qed
qed

lemma slice_accumulate_elems:
  fixes M :: "'a::plus Matrix"
  shows "WriteColumnSlice M st sm (AddInto (ColumnSlice M st sm) U) =
     M\<lparr>m_elems := map (\<lambda>k. if unat st * unat (GetNumRows M) \<le> k
                              \<and> k < unat st * unat (GetNumRows M) + unat sm * unat (GetNumRows M)
                              \<and> k - unat st * unat (GetNumRows M) < length (m_elems U)
                           then m_elems M ! k + m_elems U ! (k - unat st * unat (GetNumRows M))
                           else m_elems M ! k)
                      [0..<length (m_elems M)]\<rparr>"
proof -
  define first where "first = unat st * unat (GetNumRows M)"
  define len where "len = unat sm * unat (GetNumRows M)"
  define N where "N = length (m_elems M)"
  let ?A = "m_elems (AddInto (ColumnSlice M st sm) U)"
  have S: "m_elems (ColumnSlice M st sm) = take len (drop first (m_elems M))"
    by (simp add: ColumnSlice_def first_def len_def)
  have lenA: "length ?A = min len (N - first)"
    by (simp add: S N_def min.commute)
  have nthA: "?A ! j = (if j < length (m_elems U) then m_elems M ! (first + j) + m_elems U ! j
                        else m_elems M ! (first + j))"
    if "j < len" "first + j < N" for j
  proof -
    have "j < length (m_elems (ColumnSlice M st sm))"
      using that by (simp add: S N_def)
    then have "?A ! j = (if j < length (m_elems U)
                         then m_elems (ColumnSlice M st sm) ! j + m_elems U ! j
                         else m_elems (ColumnSlice M st sm) ! j)"
      by (rule nth_AddInto)
    moreover have "m_elems (ColumnSlice M st sm) ! j = m_elems M ! (first + j)"
      using that by (simp add: S N_def)
    ultimately show ?thesis by simp
  qed
  have "map (\<lambda>k. if first \<le> k \<and> k < first + len \<and> k - first < length ?A
                  then ?A ! (k - first) else m_elems M ! k) [0..<N] =
        map (\<lambda>k. if first \<le> k \<and> k < first + len \<and> k - first < length (m_elems U)
                  then m_elems M ! k + m_elems U ! (k - first) else m_elems M ! k)
            [0..<N]"
  proof (rule map_cong [OF refl])
    fix k assume "k \<in> set [0..<N]"
    then have k: "k < N" by simp
    show "(if first \<le> k \<and> k < first + len \<and> k - first < length ?A
           then ?A ! (k - first) else m_elems M ! k) =
          (if first \<le> k \<and> k < first + len \<and> k - first < length (m_elems U)
           then m_elems M ! k + m_elems U ! (k - first) else m_elems M ! k)"
    proof (cases "first \<le> k \<and> k < first + len")
      case False
      then show ?thesis by auto
    next
      case True
      then have j: "k - first < len" "first + (k - first) < N"
        using k by auto
      have inA: "k - first < length ?A" unfolding lenA using j k True by linarith
      have again: "first + (k - first) = k" using True by simp
      show ?thesis using True inA nthA [OF j] unfolding again by simp
    qed
  qed
  then show ?thesis
    unfolding WriteColumnSlice_def Let_def first_def len_def N_def by simp
qed

lemma slice_accumulate_shaped:
  fixes G0 :: "'a::monoid_add Matrix"
  assumes "shaped G0 Z"
  shows "shaped G0 (WriteColumnSlice Z st sm (AddInto (ColumnSlice Z st sm) U))"
proof -
  from assms have l: "length (m_elems Z) = length (m_elems G0)"
    and z: "Z = G0\<lparr>m_elems := m_elems Z\<rparr>"
    by (simp_all add: shaped_def)
  let ?W = "WriteColumnSlice Z st sm (AddInto (ColumnSlice Z st sm) U)"
  have w: "?W = Z\<lparr>m_elems := m_elems ?W\<rparr>" by (simp add: WriteColumnSlice_def Let_def)
  also have "\<dots> = G0\<lparr>m_elems := m_elems Z\<rparr>\<lparr>m_elems := m_elems ?W\<rparr>"
    using z by (rule arg_cong [where f = "\<lambda>M. M\<lparr>m_elems := m_elems ?W\<rparr>"])
  also have "\<dots> = G0\<lparr>m_elems := m_elems ?W\<rparr>" by simp
  finally have "?W = G0\<lparr>m_elems := m_elems ?W\<rparr>" .
  moreover have "length (m_elems ?W) = length (m_elems G0)"
    using l by (simp add: WriteColumnSlice_def Let_def)
  ultimately show ?thesis by (simp add: shaped_def)
qed

lemma shaped_rows: "shaped G0 Z \<Longrightarrow> GetNumRows Z = GetNumRows G0"
  by (metis (no_types) shaped_def Matrix.select_convs(1) Matrix.surjective Matrix.update_convs(3))

lemma GetNumRows_AddInto [simp]: "GetNumRows (AddInto G D) = GetNumRows G"
  by (simp add: AddInto_def)

lemma AddInto_same_length:
  assumes "length (m_elems D) = length (m_elems G)"
  shows "AddInto G D =
         G\<lparr>m_elems := map (\<lambda>k. m_elems G ! k + m_elems D ! k) [0..<length (m_elems G)]\<rparr>"
proof -
  have "map (\<lambda>k. if k < length (m_elems D) then m_elems G ! k + m_elems D ! k
                  else m_elems G ! k) [0..<length (m_elems G)] =
        map (\<lambda>k. m_elems G ! k + m_elems D ! k) [0..<length (m_elems G)]"
    using assms by (intro map_cong [OF refl]) simp
  then show ?thesis by (simp add: AddInto_def)
qed

lemma slice_accumulate_AddInto:
  fixes G0 :: "'a::monoid_add Matrix"
  assumes sh: "shaped G0 Z"
  shows "WriteColumnSlice (AddInto G0 Z) st sm (AddInto (ColumnSlice (AddInto G0 Z) st sm) U) =
         AddInto G0 (WriteColumnSlice Z st sm (AddInto (ColumnSlice Z st sm) U))"
proof -
  define first where "first = unat st * unat (GetNumRows G0)"
  define len where "len = unat sm * unat (GetNumRows G0)"
  define N where "N = length (m_elems G0)"
  have lz: "length (m_elems Z) = N" using sh by (simp add: shaped_def N_def)
  have rz: "GetNumRows Z = GetNumRows G0" by (rule shaped_rows [OF sh])
  let ?W = "WriteColumnSlice Z st sm (AddInto (ColumnSlice Z st sm) U)"
  have W: "m_elems ?W =
      map (\<lambda>k. if first \<le> k \<and> k < first + len \<and> k - first < length (m_elems U)
                then m_elems Z ! k + m_elems U ! (k - first) else m_elems Z ! k) [0..<N]"
    by (simp add: slice_accumulate_elems rz lz first_def len_def cong: if_cong)
  have L: "WriteColumnSlice (AddInto G0 Z) st sm
             (AddInto (ColumnSlice (AddInto G0 Z) st sm) U) =
      G0\<lparr>m_elems :=
        map (\<lambda>k. if first \<le> k \<and> k < first + len \<and> k - first < length (m_elems U)
                then m_elems (AddInto G0 Z) ! k + m_elems U ! (k - first)
                else m_elems (AddInto G0 Z) ! k) [0..<N]\<rparr>"
    by (simp add: slice_accumulate_elems first_def len_def N_def cong: if_cong)
       (simp add: AddInto_def)
  have R: "AddInto G0 ?W =
      G0\<lparr>m_elems := map (\<lambda>k. m_elems G0 ! k + m_elems ?W ! k) [0..<N]\<rparr>"
  proof -
    have "length (m_elems ?W) = length (m_elems G0)" by (simp add: W N_def)
    then show ?thesis unfolding N_def by (rule AddInto_same_length)
  qed
  have "map (\<lambda>k. if first \<le> k \<and> k < first + len \<and> k - first < length (m_elems U)
                then m_elems (AddInto G0 Z) ! k + m_elems U ! (k - first)
                else m_elems (AddInto G0 Z) ! k) [0..<N] =
        map (\<lambda>k. m_elems G0 ! k + m_elems ?W ! k) [0..<N]"
  proof (rule map_cong [OF refl])
    fix k assume "k \<in> set [0..<N]"
    then have k: "k < N" by simp
    have g: "m_elems (AddInto G0 Z) ! k = m_elems G0 ! k + m_elems Z ! k"
      using k lz by (simp add: nth_AddInto N_def)
    have w: "m_elems ?W ! k =
        (if first \<le> k \<and> k < first + len \<and> k - first < length (m_elems U)
         then m_elems Z ! k + m_elems U ! (k - first) else m_elems Z ! k)"
      using k by (simp add: W)
    show "(if first \<le> k \<and> k < first + len \<and> k - first < length (m_elems U)
                then m_elems (AddInto G0 Z) ! k + m_elems U ! (k - first)
                else m_elems (AddInto G0 Z) ! k) = m_elems G0 ! k + m_elems ?W ! k"
      unfolding g w by (simp add: add.assoc)
  qed
  with L R show ?thesis by simp
qed

lemma input_body_accum:
  fixes G0 :: "'a::monoid_add Matrix"
  assumes "accum G0 s z"
  shows "rel_sum (=) (accum G0)
           (BackpropToOverInputFeature_body ops node gv input0 B sb j s)
           (BackpropToOverInputFeature_body ops node gv input0 B sb j z)"
proof -
  obtain G t where s: "s = (G, t)" by (cases s)
  obtain Z t' where z: "z = (Z, t')" by (cases z)
  from assms s z have tt: "t' = t" and sh: "shaped G0 Z" and g: "G = AddInto G0 Z"
    by (simp_all add: accum_def)
  show ?thesis
    unfolding s z tt g
    by (simp add: BackpropToOverInputFeature_body_def Let_def UnpackConvolutionInput_def
          Multiply_def accum_def slice_accumulate_shaped [OF sh]
          slice_accumulate_AddInto [OF sh])
qed

lemma BackpropToOverInputFeature_accumulates:
  fixes G :: "'a::monoid_add Matrix"
  shows "map_sum id fst
           (BackpropToOverInputFeature ops node gradientValues G input0 input1 tempMatrix) =
         map_sum id (\<lambda>r. AddInto G (fst r))
           (BackpropToOverInputFeature ops node gradientValues (ZeroLike G) input0 input1
              tempMatrix)"
proof (cases "NumSubBatches (GetNumCols input1) (SubBatchSize node (GetNumCols input1))")
  case (Inl e)
  then show ?thesis by (simp add: BackpropToOverInputFeature_def Let_def)
next
  case (Inr n)
  let ?body = "BackpropToOverInputFeature_body ops node
                 (Reshape gradientValues (GetNumChannels (m_sampleLayout node))
                    (GetWidth (m_sampleLayout node) * GetHeight (m_sampleLayout node) *
                     GetNumCols input1))
                 input0 (GetNumCols input1) (SubBatchSize node (GetNumCols input1))"
  note u = BackpropToOverInputFeature_unfold [OF Inr]
  have rel: "rel_sum (=) (accum G) (for_loop 0 n ?body (G, tempMatrix))
               (for_loop 0 n ?body (ZeroLike G, tempMatrix))"
    by (rule for_loop_rel) (simp_all add: input_body_accum accum_start)
  show ?thesis
  proof (cases "for_loop 0 n ?body (G, tempMatrix)")
    case (Inl e)
    with rel have "for_loop 0 n ?body (ZeroLike G, tempMatrix) = Inl e"
      by (cases "for_loop 0 n ?body (ZeroLike G, tempMatrix)") simp_all
    with Inl show ?thesis by (simp add: u)
  next
    case r: (Inr s)
    with rel obtain z where z: "for_loop 0 n ?body (ZeroLike G, tempMatrix) = Inr z"
      and a: "accum G s z"
      by (cases "for_loop 0 n ?body (ZeroLike G, tempMatrix)") simp_all
    from a have "fst s = AddInto G (fst z)" by (simp add: accum_def)
    with r z show ?thesis
      by (auto simp: u split: prod.splits)
  qed
qed


text \<open>Rounds that add into a buffer, element by element.\<close>

lemma AddInto_rounds:
  fixes G :: "'a::plus Matrix"
  shows "length (m_elems (foldl (\<lambda>G' j. AddInto G' (D j)) G js)) = length (m_elems G)"
    and "foldl (\<lambda>G' j. AddInto G' (D j)) G js =
         G\<lparr>m_elems := m_elems (foldl (\<lambda>G' j. AddInto G' (D j)) G js)\<rparr>"
    and "k < length (m_elems G) \<Longrightarrow>
         m_elems (foldl (\<lambda>G' j. AddInto G' (D j)) G js) ! k =
           foldl (\<lambda>x j. if k < length (m_elems (D j)) then x + m_elems (D j) ! k else x)
             (m_elems G ! k) js"
proof -
  let ?R = "\<lambda>js. foldl (\<lambda>G' j. AddInto G' (D j)) G js"
  show l: "length (m_elems (?R js)) = length (m_elems G)" for js
    by (induction js rule: rev_induct) simp_all
  show "?R js = G\<lparr>m_elems := m_elems (?R js)\<rparr>"
  proof (induction js rule: rev_induct)
    case Nil
    show ?case by simp
  next
    case (snoc j js)
    have "?R (js @ [j]) = AddInto (?R js) (D j)" by simp
    also have "\<dots> = (?R js)\<lparr>m_elems := m_elems (AddInto (?R js) (D j))\<rparr>"
      by (rule AddInto_fields)
    also have "\<dots> = (G\<lparr>m_elems := m_elems (?R js)\<rparr>)
                       \<lparr>m_elems := m_elems (AddInto (?R js) (D j))\<rparr>"
      using snoc.IH
      by (rule arg_cong [where f = "\<lambda>M. M\<lparr>m_elems := m_elems (AddInto (?R js) (D j))\<rparr>"])
    also have "\<dots> = G\<lparr>m_elems := m_elems (AddInto (?R js) (D j))\<rparr>" by simp
    finally show ?case by simp
  qed
  show "m_elems (?R js) ! k =
           foldl (\<lambda>x j. if k < length (m_elems (D j)) then x + m_elems (D j) ! k else x)
             (m_elems G ! k) js" if k: "k < length (m_elems G)"
  proof (induction js rule: rev_induct)
    case Nil
    show ?case by simp
  next
    case (snoc j js)
    have "k < length (m_elems (?R js))" using k l by simp
    then have "m_elems (AddInto (?R js) (D j)) ! k =
       (if k < length (m_elems (D j)) then m_elems (?R js) ! k + m_elems (D j) ! k
        else m_elems (?R js) ! k)"
      by (rule nth_AddInto)
    then show ?case using snoc.IH by simp
  qed
qed

text \<open>Rounds that add into a column slice of a buffer.\<close>

lemma slice_rounds:
  fixes G :: "'a::plus Matrix"
  shows "length (m_elems (foldl (\<lambda>G' j. WriteColumnSlice G' (st j) (sm j)
                   (AddInto (ColumnSlice G' (st j) (sm j)) (U j))) G js)) = length (m_elems G)"
    and "foldl (\<lambda>G' j. WriteColumnSlice G' (st j) (sm j)
                   (AddInto (ColumnSlice G' (st j) (sm j)) (U j))) G js =
         G\<lparr>m_elems := m_elems (foldl (\<lambda>G' j. WriteColumnSlice G' (st j) (sm j)
                   (AddInto (ColumnSlice G' (st j) (sm j)) (U j))) G js)\<rparr>"
    and "k < length (m_elems G) \<Longrightarrow>
         m_elems (foldl (\<lambda>G' j. WriteColumnSlice G' (st j) (sm j)
                   (AddInto (ColumnSlice G' (st j) (sm j)) (U j))) G js) ! k =
           foldl (\<lambda>x j. if unat (st j) * unat (GetNumRows G) \<le> k
                            \<and> k < unat (st j) * unat (GetNumRows G) +
                                  unat (sm j) * unat (GetNumRows G)
                            \<and> k - unat (st j) * unat (GetNumRows G) < length (m_elems (U j))
                         then x + m_elems (U j) ! (k - unat (st j) * unat (GetNumRows G))
                         else x)
             (m_elems G ! k) js"
proof -
  let ?g = "\<lambda>G' j. WriteColumnSlice G' (st j) (sm j)
                   (AddInto (ColumnSlice G' (st j) (sm j)) (U j))"
  let ?R = "\<lambda>js. foldl ?g G js"
  have step: "?R (js @ [j]) = (?R js)\<lparr>m_elems :=
       map (\<lambda>k. if unat (st j) * unat (GetNumRows (?R js)) \<le> k
                    \<and> k < unat (st j) * unat (GetNumRows (?R js)) +
                          unat (sm j) * unat (GetNumRows (?R js))
                    \<and> k - unat (st j) * unat (GetNumRows (?R js)) < length (m_elems (U j))
                 then m_elems (?R js) ! k +
                      m_elems (U j) ! (k - unat (st j) * unat (GetNumRows (?R js)))
                 else m_elems (?R js) ! k)
           [0..<length (m_elems (?R js))]\<rparr>" for js j
  proof -
    have "?R (js @ [j]) = ?g (?R js) j" by simp
    then show ?thesis unfolding slice_accumulate_elems .
  qed
  show l: "length (m_elems (?R js)) = length (m_elems G)" for js
  proof (induction js rule: rev_induct)
    case Nil
    show ?case by simp
  next
    case (snoc j js)
    show ?case unfolding step using snoc.IH by simp
  qed
  show f: "?R js = G\<lparr>m_elems := m_elems (?R js)\<rparr>" for js
  proof (induction js rule: rev_induct)
    case Nil
    show ?case by simp
  next
    case (snoc j js)
    have "?R (js @ [j]) = (?R js)\<lparr>m_elems := m_elems (?R (js @ [j]))\<rparr>"
      unfolding step by simp
    also have "\<dots> = (G\<lparr>m_elems := m_elems (?R js)\<rparr>)\<lparr>m_elems := m_elems (?R (js @ [j]))\<rparr>"
      using snoc.IH
      by (rule arg_cong [where f = "\<lambda>M. M\<lparr>m_elems := m_elems (?R (js @ [j]))\<rparr>"])
    also have "\<dots> = G\<lparr>m_elems := m_elems (?R (js @ [j]))\<rparr>" by simp
    finally show ?case .
  qed
  have rows: "GetNumRows (?R js) = GetNumRows G" for js
  proof -
    have "GetNumRows (?R js) = GetNumRows (G\<lparr>m_elems := m_elems (?R js)\<rparr>)"
      using f [of js] by (rule arg_cong)
    then show ?thesis by simp
  qed
  show "m_elems (?R js) ! k =
           foldl (\<lambda>x j. if unat (st j) * unat (GetNumRows G) \<le> k
                            \<and> k < unat (st j) * unat (GetNumRows G) +
                                  unat (sm j) * unat (GetNumRows G)
                            \<and> k - unat (st j) * unat (GetNumRows G) < length (m_elems (U j))
                         then x + m_elems (U j) ! (k - unat (st j) * unat (GetNumRows G))
                         else x)
             (m_elems G ! k) js" if k: "k < length (m_elems G)"
  proof (induction js rule: rev_induct)
    case Nil
    show ?case by simp
  next
    case (snoc j js)
    have kl: "k < length (m_elems (?R js))" using k l by simp
    show ?case
      unfolding step rows using kl snoc.IH by simp
  qed
qed

text \<open>A loop over a pair, the second component of which does not read the first.\<close>

lemma foldl_pair_chain:
  "foldl (\<lambda>st j. case st of (a', b') \<Rightarrow> (g a' j (p b' j), p b' j)) (a, b) [0..<m] =
     (foldl (\<lambda>a' j. g a' j (foldl p b [0..<Suc j])) a [0..<m], foldl p b [0..<m])"
  by (induction m) simp_all

lemma foldl_pair_apart:
  "foldl (\<lambda>st j. case st of (a', b') \<Rightarrow> (g a' j, p j)) (a, b) js =
     (foldl g a js, foldl (\<lambda>b' j. p j) b js)"
  by (induction js arbitrary: a b) simp_all

text \<open>
  A loop over a pair whose rounds do not throw, for a second component that does not
  read the first: rounds that hand the new second component to the first, and rounds
  that keep the two apart.
\<close>

lemma pair_loop_chain:
  fixes a0 :: 'a and b0 :: 'b
  assumes body: "\<And>j a b. body j (a, b) = Inr (g a (unat j) (p b (unat j)), p b (unat j))"
  shows "for_loop 0 n body (a0, b0) =
    Inr (foldl (\<lambda>a j. g a j (foldl p b0 [0..<Suc j])) a0 [0..<unat n],
         foldl p b0 [0..<unat n])"
proof -
  define f where "f = (\<lambda>(j :: size_t) (st :: 'a \<times> 'b).
       case st of (a, b) \<Rightarrow> (g a (unat j) (p b (unat j)), p b (unat j)))"
  have total: "body j x = Inr (f j x)" for j x
    by (cases x) (simp add: f_def body)
  have "for_loop 0 n body (a0, b0) =
        Inr (foldl (\<lambda>x j. f (of_nat j) x) (a0, b0) [unat (0::size_t)..<unat n])"
    by (rule for_loop_total [of _ f]) (rule total)
  also have "foldl (\<lambda>x j. f (of_nat j) x) (a0, b0) [unat (0::size_t)..<unat n] =
        foldl (\<lambda>st j. case st of (a, b) \<Rightarrow> (g a j (p b j), p b j)) (a0, b0) [0..<unat n]"
  proof -
    have "f (of_nat j) x = (case x of (a, b) \<Rightarrow> (g a j (p b j), p b j))"
      if "j \<in> set [0..<unat n]" for j x
    proof -
      have "unat n < 2 ^ 64" using unsigned_less [of n] by simp
      then have "j < 2 ^ 64" using that by simp
      then have "unat (of_nat j :: size_t) = j" by (simp add: unat_of_nat)
      then show ?thesis by (simp add: f_def)
    qed
    then show ?thesis by (intro foldl_cong) simp_all
  qed
  also have "\<dots> = (foldl (\<lambda>a j. g a j (foldl p b0 [0..<Suc j])) a0 [0..<unat n],
                   foldl p b0 [0..<unat n])"
    by (rule foldl_pair_chain)
  finally show ?thesis .
qed

lemma pair_loop_apart:
  fixes a0 :: 'a and b0 :: 'b
  assumes body: "\<And>j a b. body j (a, b) = Inr (g a (unat j), p (unat j))"
  shows "for_loop 0 n body (a0, b0) =
    Inr (foldl g a0 [0..<unat n], foldl (\<lambda>b j. p j) b0 [0..<unat n])"
proof -
  define f where "f = (\<lambda>(j :: size_t) (st :: 'a \<times> 'b).
       case st of (a, b) \<Rightarrow> (g a (unat j), p (unat j) :: 'b))"
  have total: "body j x = Inr (f j x)" for j x
    by (cases x) (simp add: f_def body)
  have "for_loop 0 n body (a0, b0) =
        Inr (foldl (\<lambda>x j. f (of_nat j) x) (a0, b0) [unat (0::size_t)..<unat n])"
    by (rule for_loop_total [of _ f]) (rule total)
  also have "foldl (\<lambda>x j. f (of_nat j) x) (a0, b0) [unat (0::size_t)..<unat n] =
        foldl (\<lambda>st j. case st of (a, b) \<Rightarrow> (g a j, p j)) (a0, b0) [0..<unat n]"
  proof -
    have "f (of_nat j) x = (case x of (a, b) \<Rightarrow> (g a j, p j))"
      if "j \<in> set [0..<unat n]" for j x
    proof -
      have "unat n < 2 ^ 64" using unsigned_less [of n] by simp
      then have "j < 2 ^ 64" using that by simp
      then have "unat (of_nat j :: size_t) = j" by (simp add: unat_of_nat)
      then show ?thesis by (simp add: f_def)
    qed
    then show ?thesis by (intro foldl_cong) simp_all
  qed
  also have "\<dots> = (foldl g a0 [0..<unat n], foldl (\<lambda>b j. p j) b0 [0..<unat n])"
    by (rule foldl_pair_apart)
  finally show ?thesis .
qed




section \<open>Shape inference\<close>

text \<open>
  Claim C3.  With \<open>m_zeroPadding\<close> set, an input layout that passes the size check,
  and strides that are not zero, \<open>InferImageDimsFromInputs\<close> stores the output layout
  \<open>outW = (inW - kernelW mod 2) / strideH + 1\<close> and
  \<open>outH = (inH - kernelH mod 2) / strideV + 1\<close>, for odd and even kernel sizes alike,
  and keeps the configured number of output channels.  The arithmetic is that of
  \<open>size_t\<close>; the subtraction does not wrap and the division is the integer division
  of the values, which the last two conjuncts say on the natural numbers.
\<close>

theorem zero_padding_shape:
  assumes "m_zeroPadding node"
    and "m_kernelWidth node \<le> GetWidth inL" and "m_kernelHeight node \<le> GetHeight inL"
    and "m_horizontalSubsample node \<noteq> 0" and "m_verticalSubsample node \<noteq> 0"
  shows "InferImageDimsFromInputs node inL =
           Inr (node\<lparr>m_inputSampleLayout := inL,
                     m_sampleLayout := ImageLayoutWHC
                       ((GetWidth inL - m_kernelWidth node mod 2) div m_horizontalSubsample node + 1)
                       ((GetHeight inL - m_kernelHeight node mod 2) div m_verticalSubsample node + 1)
                       (GetNumChannels (m_sampleLayout node))\<rparr>)
         \<and> unat ((GetWidth inL - m_kernelWidth node mod 2) div m_horizontalSubsample node) =
             (unat (GetWidth inL) - unat (m_kernelWidth node) mod 2) div
             unat (m_horizontalSubsample node)
         \<and> unat ((GetHeight inL - m_kernelHeight node mod 2) div m_verticalSubsample node) =
             (unat (GetHeight inL) - unat (m_kernelHeight node) mod 2) div
             unat (m_verticalSubsample node)"
proof -
  have "\<not> GetWidth inL < m_kernelWidth node" "\<not> GetHeight inL < m_kernelHeight node"
    using assms(2,3) by (simp_all add: not_less)
  then have "InferImageDimsFromInputs node inL =
           Inr (node\<lparr>m_inputSampleLayout := inL,
                     m_sampleLayout := ImageLayoutWHC
                       ((GetWidth inL - m_kernelWidth node mod 2) div m_horizontalSubsample node + 1)
                       ((GetHeight inL - m_kernelHeight node mod 2) div m_verticalSubsample node + 1)
                       (GetNumChannels (m_sampleLayout node))\<rparr>)"
    using assms(1,4,5)
    by (simp add: InferImageDimsFromInputs_def InferImageDimsFromInput_def Let_def scast_centre)
  then show ?thesis
    using assms(2,3) by (simp add: unat_padded_quotient)
qed

text \<open>
  A 7 x 5 x 3 input, a 2 x 3 kernel (even width, odd height) and strides 2 and 1 give
  a 4 x 5 output with the 4 configured channels.
\<close>

theorem zero_padding_shape_witness:
  "InferImageDimsFromInputs
     \<lparr>m_kernelWidth = 2, m_kernelHeight = 3, m_horizontalSubsample = 2,
      m_verticalSubsample = 1, m_zeroPadding = True, m_1DConvolutionOnGPUSparse = False,
      m_maxTempMemSizeInSamples = 0, m_sampleLayout = ImageLayoutWHC 1 1 4,
      m_inputSampleLayout = ImageLayoutWHC 1 1 0\<rparr> (ImageLayoutWHC 7 5 3)
   = Inr \<lparr>m_kernelWidth = 2, m_kernelHeight = 3, m_horizontalSubsample = 2,
      m_verticalSubsample = 1, m_zeroPadding = True, m_1DConvolutionOnGPUSparse = False,
      m_maxTempMemSizeInSamples = 0, m_sampleLayout = ImageLayoutWHC 4 5 4,
      m_inputSampleLayout = ImageLayoutWHC 7 5 3\<rparr>"
  using zero_padding_shape [of "\<lparr>m_kernelWidth = 2, m_kernelHeight = 3, m_horizontalSubsample = 2,
      m_verticalSubsample = 1, m_zeroPadding = True, m_1DConvolutionOnGPUSparse = False,
      m_maxTempMemSizeInSamples = 0, m_sampleLayout = ImageLayoutWHC 1 1 4,
      m_inputSampleLayout = ImageLayoutWHC 1 1 0\<rparr>" "ImageLayoutWHC 7 5 3"]
  by (simp add: ImageLayoutWHC_def)

text \<open>
  Claim C4.  Without padding, for an input layout with \<open>inW >= kernelW\<close> and
  \<open>inH >= kernelH\<close> and strides that are not zero, the convolution node stores
  \<open>outW = (inW - kernelW) / strideH + 1\<close>, \<open>outH = (inH - kernelH) / strideV + 1\<close> and
  the configured number of output channels; the pooling nodes store the same formula
  over their window and the number of channels of the input.  Again the subtraction
  does not wrap and the division is the integer division of the values.
\<close>

theorem unpadded_shape:
  "(\<not> m_zeroPadding node \<and>
    m_kernelWidth node \<le> GetWidth inL \<and> m_kernelHeight node \<le> GetHeight inL \<and>
    m_horizontalSubsample node \<noteq> 0 \<and> m_verticalSubsample node \<noteq> 0 \<longrightarrow>
    InferImageDimsFromInputs node inL =
      Inr (node\<lparr>m_inputSampleLayout := inL,
                m_sampleLayout := ImageLayoutWHC
                  ((GetWidth inL - m_kernelWidth node) div m_horizontalSubsample node + 1)
                  ((GetHeight inL - m_kernelHeight node) div m_verticalSubsample node + 1)
                  (GetNumChannels (m_sampleLayout node))\<rparr>)
    \<and> unat ((GetWidth inL - m_kernelWidth node) div m_horizontalSubsample node) =
        (unat (GetWidth inL) - unat (m_kernelWidth node)) div unat (m_horizontalSubsample node)
    \<and> unat ((GetHeight inL - m_kernelHeight node) div m_verticalSubsample node) =
        (unat (GetHeight inL) - unat (m_kernelHeight node)) div unat (m_verticalSubsample node))
   \<and>
   (m_windowWidth pnode \<le> GetWidth inL \<and> m_windowHeight pnode \<le> GetHeight inL \<and>
    p_horizontalSubsample pnode \<noteq> 0 \<and> p_verticalSubsample pnode \<noteq> 0 \<longrightarrow>
    Pooling_InferImageDimsFromInputs pnode inL =
      Inr (pnode\<lparr>p_inputSampleLayout := inL,
                 p_sampleLayout := ImageLayoutWHC
                  ((GetWidth inL - m_windowWidth pnode) div p_horizontalSubsample pnode + 1)
                  ((GetHeight inL - m_windowHeight pnode) div p_verticalSubsample pnode + 1)
                  (GetNumChannels inL)\<rparr>)
    \<and> unat ((GetWidth inL - m_windowWidth pnode) div p_horizontalSubsample pnode) =
        (unat (GetWidth inL) - unat (m_windowWidth pnode)) div unat (p_horizontalSubsample pnode)
    \<and> unat ((GetHeight inL - m_windowHeight pnode) div p_verticalSubsample pnode) =
        (unat (GetHeight inL) - unat (m_windowHeight pnode)) div unat (p_verticalSubsample pnode))"
proof (intro conjI impI)
  assume a: "\<not> m_zeroPadding node \<and>
    m_kernelWidth node \<le> GetWidth inL \<and> m_kernelHeight node \<le> GetHeight inL \<and>
    m_horizontalSubsample node \<noteq> 0 \<and> m_verticalSubsample node \<noteq> 0"
  then have "\<not> GetWidth inL < m_kernelWidth node" "\<not> GetHeight inL < m_kernelHeight node"
    by (simp_all add: not_less)
  with a show "InferImageDimsFromInputs node inL =
      Inr (node\<lparr>m_inputSampleLayout := inL,
                m_sampleLayout := ImageLayoutWHC
                  ((GetWidth inL - m_kernelWidth node) div m_horizontalSubsample node + 1)
                  ((GetHeight inL - m_kernelHeight node) div m_verticalSubsample node + 1)
                  (GetNumChannels (m_sampleLayout node))\<rparr>)"
    by (simp add: InferImageDimsFromInputs_def InferImageDimsFromInput_def Let_def)
  from a show "unat ((GetWidth inL - m_kernelWidth node) div m_horizontalSubsample node) =
        (unat (GetWidth inL) - unat (m_kernelWidth node)) div unat (m_horizontalSubsample node)"
    by (simp add: unat_plain_quotient)
  from a show "unat ((GetHeight inL - m_kernelHeight node) div m_verticalSubsample node) =
        (unat (GetHeight inL) - unat (m_kernelHeight node)) div unat (m_verticalSubsample node)"
    by (simp add: unat_plain_quotient)
next
  assume a: "m_windowWidth pnode \<le> GetWidth inL \<and> m_windowHeight pnode \<le> GetHeight inL \<and>
    p_horizontalSubsample pnode \<noteq> 0 \<and> p_verticalSubsample pnode \<noteq> 0"
  then have "\<not> GetWidth inL < m_windowWidth pnode" "\<not> GetHeight inL < m_windowHeight pnode"
    by (simp_all add: not_less)
  with a show "Pooling_InferImageDimsFromInputs pnode inL =
      Inr (pnode\<lparr>p_inputSampleLayout := inL,
                 p_sampleLayout := ImageLayoutWHC
                  ((GetWidth inL - m_windowWidth pnode) div p_horizontalSubsample pnode + 1)
                  ((GetHeight inL - m_windowHeight pnode) div p_verticalSubsample pnode + 1)
                  (GetNumChannels inL)\<rparr>)"
    by (simp add: Pooling_InferImageDimsFromInputs_def Let_def)
  from a show "unat ((GetWidth inL - m_windowWidth pnode) div p_horizontalSubsample pnode) =
        (unat (GetWidth inL) - unat (m_windowWidth pnode)) div unat (p_horizontalSubsample pnode)"
    by (simp add: unat_plain_quotient)
  from a show "unat ((GetHeight inL - m_windowHeight pnode) div p_verticalSubsample pnode) =
        (unat (GetHeight inL) - unat (m_windowHeight pnode)) div unat (p_verticalSubsample pnode)"
    by (simp add: unat_plain_quotient)
qed

text \<open>
  A 7 x 5 x 3 input: a 3 x 3 convolution with strides 2 and 1 and 4 output channels
  gives 3 x 3 x 4, and a 2 x 2 pooling window with stride 2 gives 3 x 2 x 3.
\<close>

theorem unpadded_shape_witness:
  "InferImageDimsFromInputs
     \<lparr>m_kernelWidth = 3, m_kernelHeight = 3, m_horizontalSubsample = 2,
      m_verticalSubsample = 1, m_zeroPadding = False, m_1DConvolutionOnGPUSparse = False,
      m_maxTempMemSizeInSamples = 0, m_sampleLayout = ImageLayoutWHC 1 1 4,
      m_inputSampleLayout = ImageLayoutWHC 1 1 0\<rparr> (ImageLayoutWHC 7 5 3)
   = Inr \<lparr>m_kernelWidth = 3, m_kernelHeight = 3, m_horizontalSubsample = 2,
      m_verticalSubsample = 1, m_zeroPadding = False, m_1DConvolutionOnGPUSparse = False,
      m_maxTempMemSizeInSamples = 0, m_sampleLayout = ImageLayoutWHC 3 3 4,
      m_inputSampleLayout = ImageLayoutWHC 7 5 3\<rparr>
   \<and> Pooling_InferImageDimsFromInputs
     \<lparr>m_windowWidth = 2, m_windowHeight = 2, p_horizontalSubsample = 2,
      p_verticalSubsample = 2, m_inputSizePerSample = 0, m_outputSizePerSample = 0,
      p_sampleLayout = ImageLayoutWHC 1 1 0,
      p_inputSampleLayout = ImageLayoutWHC 1 1 0\<rparr> (ImageLayoutWHC 7 5 3)
   = Inr \<lparr>m_windowWidth = 2, m_windowHeight = 2, p_horizontalSubsample = 2,
      p_verticalSubsample = 2, m_inputSizePerSample = 0, m_outputSizePerSample = 0,
      p_sampleLayout = ImageLayoutWHC 3 2 3,
      p_inputSampleLayout = ImageLayoutWHC 7 5 3\<rparr>"
  using unpadded_shape [of "\<lparr>m_kernelWidth = 3, m_kernelHeight = 3, m_horizontalSubsample = 2,
      m_verticalSubsample = 1, m_zeroPadding = False, m_1DConvolutionOnGPUSparse = False,
      m_maxTempMemSizeInSamples = 0, m_sampleLayout = ImageLayoutWHC 1 1 4,
      m_inputSampleLayout = ImageLayoutWHC 1 1 0\<rparr>" "ImageLayoutWHC 7 5 3"
      "\<lparr>m_windowWidth = 2, m_windowHeight = 2, p_horizontalSubsample = 2,
      p_verticalSubsample = 2, m_inputSizePerSample = 0, m_outputSizePerSample = 0,
      p_sampleLayout = ImageLayoutWHC 1 1 0,
      p_inputSampleLayout = ImageLayoutWHC 1 1 0\<rparr>"]
  by (simp add: ImageLayoutWHC_def)

section \<open>Save and Load\<close>

text \<open>
  Claim C8.  \<open>Save\<close> appends the kernel (window) width and height, the horizontal and
  the vertical subsample, and for the convolution node the number of output channels,
  the zero-padding flag and the maximal temporary memory size, in this order.  \<open>Load\<close>
  reads them in the same order: loading what \<open>Save\<close> wrote gives every parameter its
  saved value (the convolution node's layout is rebuilt as 1 x 1 x output channels),
  and leaves the rest of the stream.
\<close>

theorem save_load_roundtrip:
  "Save node fstream =
     fstream @ [SizeT (m_kernelWidth node), SizeT (m_kernelHeight node),
                SizeT (m_horizontalSubsample node), SizeT (m_verticalSubsample node),
                SizeT (GetNumChannels (m_sampleLayout node)),
                Bool (m_zeroPadding node), SizeT (m_maxTempMemSizeInSamples node)]
   \<and> Load node' (Save node [] @ rest) =
       Inr (node'\<lparr>m_kernelWidth := m_kernelWidth node, m_kernelHeight := m_kernelHeight node,
                 m_horizontalSubsample := m_horizontalSubsample node,
                 m_verticalSubsample := m_verticalSubsample node,
                 m_sampleLayout := ImageLayoutWHC 1 1 (GetNumChannels (m_sampleLayout node)),
                 m_zeroPadding := m_zeroPadding node,
                 m_maxTempMemSizeInSamples := m_maxTempMemSizeInSamples node\<rparr>, rest)
   \<and> Pooling_Save pnode fstream =
     fstream @ [SizeT (m_windowWidth pnode), SizeT (m_windowHeight pnode),
                SizeT (p_horizontalSubsample pnode), SizeT (p_verticalSubsample pnode)]
   \<and> Pooling_Load pnode' (Pooling_Save pnode [] @ rest) =
       Inr (pnode'\<lparr>m_windowWidth := m_windowWidth pnode, m_windowHeight := m_windowHeight pnode,
                 p_horizontalSubsample := p_horizontalSubsample pnode,
                 p_verticalSubsample := p_verticalSubsample pnode\<rparr>, rest)"
  by (simp add: Save_def Load_def Pooling_Save_def Pooling_Load_def bind_def
      read_size_t_def read_bool_def)

section \<open>The gradient of the weights does not read the weights\<close>

text \<open>
  Claim C10.  Two runs of \<open>BackpropToOverWeight\<close> that differ only in the value of the
  weights (the parameter the source leaves unnamed) give the same result: the same
  gradient of the weights, the same packed buffer, the same error.  The same holds
  for \<open>BackpropTo\<close> with input index 0, which passes the weights' value on.
\<close>

theorem weight_gradient_ignores_weights:
  "BackpropToOverWeight ops node gradientValues inputGradientValues input0 input1
     tempMatrix inLoop =
   BackpropToOverWeight ops node gradientValues inputGradientValues input0' input1
     tempMatrix inLoop
   \<and> BackpropTo ops node 0 IsAllFrames sliceOutputGrad input0Gradient input0Value
        sliceInput1Value sliceInput1Grad tempMatrix =
     BackpropTo ops node 0 IsAllFrames sliceOutputGrad input0Gradient input0Value'
        sliceInput1Value sliceInput1Grad tempMatrix"
  by (simp add: BackpropToOverWeight_def BackpropTo_def)

section \<open>The division by the sub-batch size\<close>

text \<open>
  Claim C9, amended.  Each of the three passes ends in the division by zero exactly
  when the batch is empty (\<open>GetNumCols input1 = 0\<close>, where \<open>subBatchSize\<close> is
  \<open>min(0, M) = 0\<close>); no other step of a pass divides.  For a batch size \<open>B >= 1\<close> the
  division is defined, and \<open>numSubBatches >= 1\<close> whenever \<open>B + subBatchSize\<close> does not
  exceed \<open>2^64\<close>, so that the sum \<open>B + subBatchSize - 1\<close> does not wrap in \<open>size_t\<close>.
\<close>

theorem division_by_zero_iff_empty_batch:
  "(ForwardPropS ops node functionValues input0 input1 tempMatrix = Inl DivideByZero
      \<longleftrightarrow> GetNumCols input1 = 0)
   \<and> (BackpropToOverWeight ops node gradientValues inputGradientValues input0 input1
        tempMatrix inLoop = Inl DivideByZero
      \<longleftrightarrow> GetNumCols input1 = 0)
   \<and> (BackpropToOverInputFeature ops node gradientValues inputGradientValues input0 input1
        tempMatrix = Inl DivideByZero
      \<longleftrightarrow> GetNumCols input1 = 0)
   \<and> (NumSubBatches B (SubBatchSize node B) = Inl DivideByZero \<longleftrightarrow> B = 0)
   \<and> (B \<noteq> 0 \<and> unat B + unat (SubBatchSize node B) \<le> 2 ^ 64 \<longrightarrow>
       (\<exists>n. NumSubBatches B (SubBatchSize node B) = Inr n \<and> 1 \<le> n))"
proof (intro conjI impI)
  show "NumSubBatches B (SubBatchSize node B) = Inl DivideByZero \<longleftrightarrow> B = 0"
    by (simp add: NumSubBatches_Inl_iff)
next
  assume "B \<noteq> 0 \<and> unat B + unat (SubBatchSize node B) \<le> 2 ^ 64"
  then show "\<exists>n. NumSubBatches B (SubBatchSize node B) = Inr n \<and> 1 \<le> n"
    using NumSubBatches_pos [of B node] by blast
qed (rule ForwardPropS_div_iff BackpropToOverWeight_div_iff
       BackpropToOverInputFeature_div_iff)+


text \<open>
  A batch of 5 samples under a budget of 2 has sub-batches; an empty batch divides by
  zero in the forward pass.
\<close>

theorem division_by_zero_iff_empty_batch_witness:
  "(\<exists>n. NumSubBatches 5 (SubBatchSize (example_node\<lparr>m_maxTempMemSizeInSamples := 2\<rparr>) 5)
          = Inr n \<and> 1 \<le> n)
   \<and> ForwardPropS example_ops (example_node\<lparr>m_maxTempMemSizeInSamples := 2\<rparr>)
        (example_matrix 2 0 []) (example_matrix 1 1 [3])
        (example_matrix 2 0 []) (example_matrix 0 0 []) = Inl DivideByZero"
  using division_by_zero_iff_empty_batch [where ops = example_ops
      and node = "example_node\<lparr>m_maxTempMemSizeInSamples := 2\<rparr>"
      and functionValues = "example_matrix 2 0 []" and ?input0.0 = "example_matrix 1 1 [3]"
      and ?input1.0 = "example_matrix 2 0 []" and tempMatrix = "example_matrix 0 0 []"
      and gradientValues = "example_matrix 2 0 []"
      and inputGradientValues = "example_matrix 1 1 [0]" and inLoop = False and B = 5]
  by (simp add: example_matrix_def SubBatchSize_def example_node_def)

text \<open>
  The claim as stated fails where the sum wraps: for \<open>B = 2^63 + 1\<close> and no budget,
  \<open>subBatchSize = B\<close>, the sum \<open>B + B - 1\<close> wraps to 1, and \<open>numSubBatches\<close> is 0.
\<close>

theorem empty_sub_batch_count_counterexample:
  "NumSubBatches 9223372036854775809
     (SubBatchSize \<lparr>m_kernelWidth = 1, m_kernelHeight = 1, m_horizontalSubsample = 1,
        m_verticalSubsample = 1, m_zeroPadding = False, m_1DConvolutionOnGPUSparse = False,
        m_maxTempMemSizeInSamples = 0, m_sampleLayout = ImageLayoutWHC 1 1 1,
        m_inputSampleLayout = ImageLayoutWHC 1 1 1\<rparr> 9223372036854775809) = Inr 0"
  by (simp add: NumSubBatches_def SubBatchSize_def)

section \<open>The path of the forward pass\<close>




section \<open>Reusing the packed input\<close>

text \<open>
  Claim C2.  Once \<open>numSubBatches\<close> is computed, \<open>BackpropToOverWeight\<close> multiplies the
  reshaped output gradient against the packed buffer as it stands, and returns the
  buffer untouched, exactly when \<open>numSubBatches = 1\<close>, the call is not in a loop, and
  \<open>m_1DConvolutionOnGPUSparse\<close> is not set; otherwise it runs the loop that packs each
  sub-batch again.  When \<open>numSubBatches = 1\<close>, the matrices fill their extents, and
  the buffer holds the packing of the input (packing the dense input into the buffer
  gives the buffer back), the loop that packs again ends with the same gradient of the
  weights and the same buffer as the multiplication against the retained buffer.
\<close>

theorem weight_gradient_reuses_packed_input:
  assumes n: "NumSubBatches (GetNumCols input1) (SubBatchSize node (GetNumCols input1)) = Inr n"
  shows
    "(n = 1 \<and> \<not> inLoop \<and> \<not> m_1DConvolutionOnGPUSparse node \<longrightarrow>
        BackpropToOverWeight ops node gradientValues inputGradientValues input0 input1
          tempMatrix inLoop =
        Inr (MultiplyAndAdd ops
               (Reshape gradientValues (GetNumChannels (m_sampleLayout node))
                  (GetNumCols input1 *
                   (GetWidth (m_sampleLayout node) * GetHeight (m_sampleLayout node))))
               False tempMatrix True inputGradientValues,
             tempMatrix,
             Reshape
               (Reshape gradientValues (GetNumChannels (m_sampleLayout node))
                  (GetNumCols input1 *
                   (GetWidth (m_sampleLayout node) * GetHeight (m_sampleLayout node))))
               (GetNumChannels (m_sampleLayout node) *
                (GetWidth (m_sampleLayout node) * GetHeight (m_sampleLayout node)))
               (GetNumCols input1)))
     \<and> (\<not> (n = 1 \<and> \<not> inLoop \<and> \<not> m_1DConvolutionOnGPUSparse node) \<longrightarrow>
        BackpropToOverWeight ops node gradientValues inputGradientValues input0 input1
          tempMatrix inLoop =
        (case for_loop 0 n
                (BackpropToOverWeight_body ops node
                   (Reshape gradientValues (GetNumChannels (m_sampleLayout node))
                      (GetNumCols input1 *
                       (GetWidth (m_sampleLayout node) * GetHeight (m_sampleLayout node))))
                   input1 (GetNumCols input1) (SubBatchSize node (GetNumCols input1)))
                (inputGradientValues, tempMatrix) of
           Inl e \<Rightarrow> Inl e
         | Inr (inputGradientValues1, tempMatrix1) \<Rightarrow>
             Inr (inputGradientValues1, tempMatrix1,
                  Reshape
                    (Reshape gradientValues (GetNumChannels (m_sampleLayout node))
                       (GetNumCols input1 *
                        (GetWidth (m_sampleLayout node) * GetHeight (m_sampleLayout node))))
                    (GetNumChannels (m_sampleLayout node) *
                     (GetWidth (m_sampleLayout node) * GetHeight (m_sampleLayout node)))
                    (GetNumCols input1))))
     \<and> (n = 1 \<and> wf_Matrix input1
         \<and> wf_Matrix (Reshape gradientValues (GetNumChannels (m_sampleLayout node))
                        (GetNumCols input1 *
                         (GetWidth (m_sampleLayout node) * GetHeight (m_sampleLayout node))))
         \<and> AssignPackedConvolutionInput ops
              (Resize tempMatrix
                 (m_kernelWidth node * m_kernelHeight node *
                  GetNumChannels (m_inputSampleLayout node))
                 (GetWidth (m_sampleLayout node) * GetHeight (m_sampleLayout node) *
                  GetNumCols input1))
              (SwitchToMatrixType ops input1 DENSE (GetFormat input1) True)
              (PackingGeometry node) (m_zeroPadding node) = tempMatrix \<longrightarrow>
        for_loop 0 n
          (BackpropToOverWeight_body ops node
             (Reshape gradientValues (GetNumChannels (m_sampleLayout node))
                (GetNumCols input1 *
                 (GetWidth (m_sampleLayout node) * GetHeight (m_sampleLayout node))))
             input1 (GetNumCols input1) (SubBatchSize node (GetNumCols input1)))
          (inputGradientValues, tempMatrix) =
        Inr (MultiplyAndAdd ops
               (Reshape gradientValues (GetNumChannels (m_sampleLayout node))
                  (GetNumCols input1 *
                   (GetWidth (m_sampleLayout node) * GetHeight (m_sampleLayout node))))
               False tempMatrix True inputGradientValues,
             tempMatrix))"
proof (intro conjI impI)
  assume "n = 1 \<and> \<not> inLoop \<and> \<not> m_1DConvolutionOnGPUSparse node"
  then show "BackpropToOverWeight ops node gradientValues inputGradientValues input0 input1
          tempMatrix inLoop =
        Inr (MultiplyAndAdd ops
               (Reshape gradientValues (GetNumChannels (m_sampleLayout node))
                  (GetNumCols input1 *
                   (GetWidth (m_sampleLayout node) * GetHeight (m_sampleLayout node))))
               False tempMatrix True inputGradientValues,
             tempMatrix,
             Reshape
               (Reshape gradientValues (GetNumChannels (m_sampleLayout node))
                  (GetNumCols input1 *
                   (GetWidth (m_sampleLayout node) * GetHeight (m_sampleLayout node))))
               (GetNumChannels (m_sampleLayout node) *
                (GetWidth (m_sampleLayout node) * GetHeight (m_sampleLayout node)))
               (GetNumCols input1))"
    by (simp add: BackpropToOverWeight_unfold [OF n])
next
  assume "\<not> (n = 1 \<and> \<not> inLoop \<and> \<not> m_1DConvolutionOnGPUSparse node)"
  then show "BackpropToOverWeight ops node gradientValues inputGradientValues input0 input1
          tempMatrix inLoop =
        (case for_loop 0 n
                (BackpropToOverWeight_body ops node
                   (Reshape gradientValues (GetNumChannels (m_sampleLayout node))
                      (GetNumCols input1 *
                       (GetWidth (m_sampleLayout node) * GetHeight (m_sampleLayout node))))
                   input1 (GetNumCols input1) (SubBatchSize node (GetNumCols input1)))
                (inputGradientValues, tempMatrix) of
           Inl e \<Rightarrow> Inl e
         | Inr (inputGradientValues1, tempMatrix1) \<Rightarrow>
             Inr (inputGradientValues1, tempMatrix1,
                  Reshape
                    (Reshape gradientValues (GetNumChannels (m_sampleLayout node))
                       (GetNumCols input1 *
                        (GetWidth (m_sampleLayout node) * GetHeight (m_sampleLayout node))))
                    (GetNumChannels (m_sampleLayout node) *
                     (GetWidth (m_sampleLayout node) * GetHeight (m_sampleLayout node)))
                    (GetNumCols input1)))"
    unfolding BackpropToOverWeight_unfold [OF n] by (rule if_not_P)
next
  assume a: "n = 1 \<and> wf_Matrix input1
         \<and> wf_Matrix (Reshape gradientValues (GetNumChannels (m_sampleLayout node))
                        (GetNumCols input1 *
                         (GetWidth (m_sampleLayout node) * GetHeight (m_sampleLayout node))))
         \<and> AssignPackedConvolutionInput ops
              (Resize tempMatrix
                 (m_kernelWidth node * m_kernelHeight node *
                  GetNumChannels (m_inputSampleLayout node))
                 (GetWidth (m_sampleLayout node) * GetHeight (m_sampleLayout node) *
                  GetNumCols input1))
              (SwitchToMatrixType ops input1 DENSE (GetFormat input1) True)
              (PackingGeometry node) (m_zeroPadding node) = tempMatrix"
  then have one: "NumSubBatches (GetNumCols input1) (SubBatchSize node (GetNumCols input1))
                  = Inr 1"
    using n by simp
  show "for_loop 0 n
          (BackpropToOverWeight_body ops node
             (Reshape gradientValues (GetNumChannels (m_sampleLayout node))
                (GetNumCols input1 *
                 (GetWidth (m_sampleLayout node) * GetHeight (m_sampleLayout node))))
             input1 (GetNumCols input1) (SubBatchSize node (GetNumCols input1)))
          (inputGradientValues, tempMatrix) =
        Inr (MultiplyAndAdd ops
               (Reshape gradientValues (GetNumChannels (m_sampleLayout node))
                  (GetNumCols input1 *
                   (GetWidth (m_sampleLayout node) * GetHeight (m_sampleLayout node))))
               False tempMatrix True inputGradientValues,
             tempMatrix)"
    using a repack_single_sub_batch [OF one, of
        "Reshape gradientValues (GetNumChannels (m_sampleLayout node))
                (GetNumCols input1 *
                 (GetWidth (m_sampleLayout node) * GetHeight (m_sampleLayout node)))"
        ops tempMatrix inputGradientValues]
    by (simp add: Reshape_def)
qed

text \<open>
  A batch of two samples, a 1 x 1 kernel, no budget: the retained buffer holds the
  packed input, and the gradient 100 becomes 170 on the fast path (\<open>inLoop\<close> false) and
  on the path that packs again (\<open>inLoop\<close> true).
\<close>

theorem weight_gradient_reuses_packed_input_witness:
  "BackpropToOverWeight example_ops example_node (example_matrix 2 2 [5, 6, 7, 8])
     (example_matrix 1 1 [100]) (example_matrix 1 1 [3]) (example_matrix 2 2 [1, 2, 3, 4])
     (example_matrix 1 4 [1, 2, 3, 4]) False
   = Inr (example_matrix 1 1 [170], example_matrix 1 4 [1, 2, 3, 4],
          example_matrix 2 2 [5, 6, 7, 8])
   \<and> BackpropToOverWeight example_ops example_node (example_matrix 2 2 [5, 6, 7, 8])
     (example_matrix 1 1 [100]) (example_matrix 1 1 [3]) (example_matrix 2 2 [1, 2, 3, 4])
     (example_matrix 1 4 [1, 2, 3, 4]) True
   = Inr (example_matrix 1 1 [170], example_matrix 1 4 [1, 2, 3, 4],
          example_matrix 2 2 [5, 6, 7, 8])"
proof -
  have n: "NumSubBatches (GetNumCols (example_matrix 2 2 [1, 2, 3, 4]))
             (SubBatchSize example_node (GetNumCols (example_matrix 2 2 [1, 2, 3, 4]))) = Inr 1"
    by (simp add: NumSubBatches_def SubBatchSize_def example_node_def example_matrix_def)
  show ?thesis
    using weight_gradient_reuses_packed_input [OF n, of False example_ops
        "example_matrix 2 2 [5, 6, 7, 8]" "example_matrix 1 1 [100]" "example_matrix 1 1 [3]"
        "example_matrix 1 4 [1, 2, 3, 4]"]
      weight_gradient_reuses_packed_input [OF n, of True example_ops
        "example_matrix 2 2 [5, 6, 7, 8]" "example_matrix 1 1 [100]" "example_matrix 1 1 [3]"
        "example_matrix 1 4 [1, 2, 3, 4]"]
    by (simp add: example_node_def example_matrix_def example_ops_def wf_Matrix_def
         Let_def Reshape_def Resize_def MultiplyAndAdd_def AddInto_def
         example_product_def ImageLayoutWHC_def upt_rec PackingGeometry_def)
qed

section \<open>Gradients are added into the buffers\<close>

text \<open>
  Claim C5.  Every backward pass adds into the gradient buffer \<open>G\<close> it is given and never
  overwrites it: the buffer keeps its extents and its number of elements, and every
  element after the pass is the element before it plus the contributions of the pass,
  added one after the other, none of which reads the buffer.  For the gradient of the
  weights the contributions are the products that \<open>MultiplyAndAdd\<close> adds: the reshaped
  output gradient times the transposed retained buffer when the packed input is
  reused, and otherwise, for every sub-batch in turn, the columns of the output
  gradient of that sub-batch times the transposed packing of its input (packed into
  the buffer as the rounds before left it).  For the gradient of the input, the
  elements of the columns of sub-batch \<open>j\<close> receive the unpacked product of the
  transposed weights with the columns of the output gradient of that sub-batch.  For
  the max- and average-pooling passes the contribution is the
  gradient the pooling primitive routes to each position, computed from the arguments
  and the geometry of the node.  Where a contribution has no element at a position, the
  element of the buffer stays.  The elements are of any type with an addition; no law
  of the addition is used.
\<close>

theorem backward_passes_accumulate:
  fixes G :: "'a::plus Matrix"
  assumes B: "GetNumCols input1 = B" and s: "SubBatchSize node B = s"
    and q: "GetWidth (m_sampleLayout node) * GetHeight (m_sampleLayout node) = q"
    and n: "NumSubBatches B s = Inr n"
    and gW: "Reshape gradientValues (GetNumChannels (m_sampleLayout node)) (B * q) = gW"
    and gI: "Reshape gradientValues (GetNumChannels (m_sampleLayout node)) (q * B) = gI"
  shows
   "(\<exists>G1 T1.
        BackpropToOverWeight ops node gradientValues G input0 input1 tempMatrix inLoop =
         Inr (G1, T1, Reshape gW (GetNumChannels (m_sampleLayout node) * q) B)
      \<and> G1 = G\<lparr>m_elems := m_elems G1\<rparr>
      \<and> length (m_elems G1) = length (m_elems G)
      \<and> (\<forall>k<length (m_elems G).
          m_elems G1 ! k =
            (if n = 1 \<and> \<not> inLoop \<and> \<not> m_1DConvolutionOnGPUSparse node
             then if k < length (m_elems (MatrixProduct ops gW False tempMatrix True))
                  then m_elems G ! k + m_elems (MatrixProduct ops gW False tempMatrix True) ! k
                  else m_elems G ! k
             else foldl
                    (\<lambda>x j.
                        if k < length (m_elems
               (MatrixProduct ops
               (ColumnSlice gW (StartSampleID (of_nat j) s * q)
                  ((EndSampleID B (of_nat j) s - StartSampleID (of_nat j) s) * q))
               False
               (foldl
                  (\<lambda>T' i.
                  AssignPackedConvolutionInput ops
                    (Resize T'
                       (m_kernelWidth node * m_kernelHeight node *
                        GetNumChannels (m_inputSampleLayout node))
                       (q * (EndSampleID B (of_nat i) s - StartSampleID (of_nat i) s)))
                    (SwitchToMatrixType ops
                       (ColumnSlice input1 (StartSampleID (of_nat i) s)
                          (EndSampleID B (of_nat i) s - StartSampleID (of_nat i) s))
                       DENSE
                       (GetFormat
                          (ColumnSlice input1 (StartSampleID (of_nat i) s)
                             (EndSampleID B (of_nat i) s - StartSampleID (of_nat i) s)))
                       True)
                    (PackingGeometry node) (m_zeroPadding node))
                  tempMatrix [0..<Suc j])
               True))
                        then x + m_elems
               (MatrixProduct ops
               (ColumnSlice gW (StartSampleID (of_nat j) s * q)
                  ((EndSampleID B (of_nat j) s - StartSampleID (of_nat j) s) * q))
               False
               (foldl
                  (\<lambda>T' i.
                  AssignPackedConvolutionInput ops
                    (Resize T'
                       (m_kernelWidth node * m_kernelHeight node *
                        GetNumChannels (m_inputSampleLayout node))
                       (q * (EndSampleID B (of_nat i) s - StartSampleID (of_nat i) s)))
                    (SwitchToMatrixType ops
                       (ColumnSlice input1 (StartSampleID (of_nat i) s)
                          (EndSampleID B (of_nat i) s - StartSampleID (of_nat i) s))
                       DENSE
                       (GetFormat
                          (ColumnSlice input1 (StartSampleID (of_nat i) s)
                             (EndSampleID B (of_nat i) s - StartSampleID (of_nat i) s)))
                       True)
                    (PackingGeometry node) (m_zeroPadding node))
                  tempMatrix [0..<Suc j])
               True) ! k
                        else x)
                    (m_elems G ! k) [0..<unat n])))
    \<and> (\<exists>G1 T1.
        BackpropToOverInputFeature ops node gradientValues G input0 input1 tempMatrix =
         Inr (G1, T1, Reshape gI (GetNumChannels (m_sampleLayout node) * q) B)
      \<and> G1 = G\<lparr>m_elems := m_elems G1\<rparr>
      \<and> length (m_elems G1) = length (m_elems G)
      \<and> (\<forall>k<length (m_elems G).
          m_elems G1 ! k =
            foldl
              (\<lambda>x j.
                  if unat (StartSampleID (of_nat j) s) * unat (GetNumRows G) \<le> k
                     \<and> k < unat (StartSampleID (of_nat j) s) * unat (GetNumRows G) +
                           unat (EndSampleID B (of_nat j) s - StartSampleID (of_nat j) s) * unat (GetNumRows G)
                     \<and> k - unat (StartSampleID (of_nat j) s) * unat (GetNumRows G) <
                         length (m_elems
               (UnpackedConvolutionInput ops
               (MatrixProduct ops input0 True
                  (ColumnSlice gI (StartSampleID (of_nat j) s * q)
                     ((EndSampleID B (of_nat j) s - StartSampleID (of_nat j) s) * q))
                  False)
               (PackingGeometry node) (m_zeroPadding node)))
                  then x + m_elems
               (UnpackedConvolutionInput ops
               (MatrixProduct ops input0 True
                  (ColumnSlice gI (StartSampleID (of_nat j) s * q)
                     ((EndSampleID B (of_nat j) s - StartSampleID (of_nat j) s) * q))
                  False)
               (PackingGeometry node) (m_zeroPadding node)) !
                         (k - unat (StartSampleID (of_nat j) s) * unat (GetNumRows G))
                  else x)
              (m_elems G ! k) [0..<unat n]))
    \<and> (MaxPooling_BackpropToV ops pnode gradientValues G input0 functionValues =
        G\<lparr>m_elems :=
            m_elems (MaxPooling_BackpropToV ops pnode gradientValues G input0 functionValues)\<rparr>
    \<and> length (m_elems
          (MaxPooling_BackpropToV ops pnode gradientValues G input0 functionValues)) =
        length (m_elems G)
    \<and> (\<forall>k<length (m_elems G).
          m_elems (MaxPooling_BackpropToV ops pnode gradientValues G input0 functionValues) ! k =
            (if k < length (m_elems
            (MaxPoolingGradient ops gradientValues input0 functionValues
             [GetNumChannels (p_inputSampleLayout pnode),
              GetWidth (p_inputSampleLayout pnode), GetHeight (p_inputSampleLayout pnode),
              m_inputSizePerSample pnode,
              GetWidth (p_sampleLayout pnode), GetHeight (p_sampleLayout pnode),
              m_outputSizePerSample pnode,
              m_windowWidth pnode, m_windowHeight pnode,
              p_horizontalSubsample pnode, p_verticalSubsample pnode]))
             then m_elems G ! k + m_elems
            (MaxPoolingGradient ops gradientValues input0 functionValues
             [GetNumChannels (p_inputSampleLayout pnode),
              GetWidth (p_inputSampleLayout pnode), GetHeight (p_inputSampleLayout pnode),
              m_inputSizePerSample pnode,
              GetWidth (p_sampleLayout pnode), GetHeight (p_sampleLayout pnode),
              m_outputSizePerSample pnode,
              m_windowWidth pnode, m_windowHeight pnode,
              p_horizontalSubsample pnode, p_verticalSubsample pnode]) ! k
             else m_elems G ! k)))
    \<and> (AveragePooling_BackpropToV ops pnode gradientValues G input0 functionValues =
        G\<lparr>m_elems :=
            m_elems (AveragePooling_BackpropToV ops pnode gradientValues G input0 functionValues)\<rparr>
    \<and> length (m_elems
          (AveragePooling_BackpropToV ops pnode gradientValues G input0 functionValues)) =
        length (m_elems G)
    \<and> (\<forall>k<length (m_elems G).
          m_elems (AveragePooling_BackpropToV ops pnode gradientValues G input0 functionValues) ! k =
            (if k < length (m_elems
            (AveragePoolingGradient ops gradientValues
             [GetNumChannels (p_inputSampleLayout pnode),
              GetWidth (p_inputSampleLayout pnode), GetHeight (p_inputSampleLayout pnode),
              m_inputSizePerSample pnode,
              GetWidth (p_sampleLayout pnode), GetHeight (p_sampleLayout pnode),
              m_outputSizePerSample pnode,
              m_windowWidth pnode, m_windowHeight pnode,
              p_horizontalSubsample pnode, p_verticalSubsample pnode]))
             then m_elems G ! k + m_elems
            (AveragePoolingGradient ops gradientValues
             [GetNumChannels (p_inputSampleLayout pnode),
              GetWidth (p_inputSampleLayout pnode), GetHeight (p_inputSampleLayout pnode),
              m_inputSizePerSample pnode,
              GetWidth (p_sampleLayout pnode), GetHeight (p_sampleLayout pnode),
              m_outputSizePerSample pnode,
              m_windowWidth pnode, m_windowHeight pnode,
              p_horizontalSubsample pnode, p_verticalSubsample pnode]) ! k
             else m_elems G ! k)))"
proof -
  have W: "(\<exists>G1 T1.
        BackpropToOverWeight ops node gradientValues G input0 input1 tempMatrix inLoop =
         Inr (G1, T1, Reshape gW (GetNumChannels (m_sampleLayout node) * q) B)
      \<and> G1 = G\<lparr>m_elems := m_elems G1\<rparr>
      \<and> length (m_elems G1) = length (m_elems G)
      \<and> (\<forall>k<length (m_elems G).
          m_elems G1 ! k =
            (if n = 1 \<and> \<not> inLoop \<and> \<not> m_1DConvolutionOnGPUSparse node
             then if k < length (m_elems (MatrixProduct ops gW False tempMatrix True))
                  then m_elems G ! k + m_elems (MatrixProduct ops gW False tempMatrix True) ! k
                  else m_elems G ! k
             else foldl
                    (\<lambda>x j.
                        if k < length (m_elems
               (MatrixProduct ops
               (ColumnSlice gW (StartSampleID (of_nat j) s * q)
                  ((EndSampleID B (of_nat j) s - StartSampleID (of_nat j) s) * q))
               False
               (foldl
                  (\<lambda>T' i.
                  AssignPackedConvolutionInput ops
                    (Resize T'
                       (m_kernelWidth node * m_kernelHeight node *
                        GetNumChannels (m_inputSampleLayout node))
                       (q * (EndSampleID B (of_nat i) s - StartSampleID (of_nat i) s)))
                    (SwitchToMatrixType ops
                       (ColumnSlice input1 (StartSampleID (of_nat i) s)
                          (EndSampleID B (of_nat i) s - StartSampleID (of_nat i) s))
                       DENSE
                       (GetFormat
                          (ColumnSlice input1 (StartSampleID (of_nat i) s)
                             (EndSampleID B (of_nat i) s - StartSampleID (of_nat i) s)))
                       True)
                    (PackingGeometry node) (m_zeroPadding node))
                  tempMatrix [0..<Suc j])
               True))
                        then x + m_elems
               (MatrixProduct ops
               (ColumnSlice gW (StartSampleID (of_nat j) s * q)
                  ((EndSampleID B (of_nat j) s - StartSampleID (of_nat j) s) * q))
               False
               (foldl
                  (\<lambda>T' i.
                  AssignPackedConvolutionInput ops
                    (Resize T'
                       (m_kernelWidth node * m_kernelHeight node *
                        GetNumChannels (m_inputSampleLayout node))
                       (q * (EndSampleID B (of_nat i) s - StartSampleID (of_nat i) s)))
                    (SwitchToMatrixType ops
                       (ColumnSlice input1 (StartSampleID (of_nat i) s)
                          (EndSampleID B (of_nat i) s - StartSampleID (of_nat i) s))
                       DENSE
                       (GetFormat
                          (ColumnSlice input1 (StartSampleID (of_nat i) s)
                             (EndSampleID B (of_nat i) s - StartSampleID (of_nat i) s)))
                       True)
                    (PackingGeometry node) (m_zeroPadding node))
                  tempMatrix [0..<Suc j])
               True) ! k
                        else x)
                    (m_elems G ! k) [0..<unat n])))"
  proof (cases "n = 1 \<and> \<not> inLoop \<and> \<not> m_1DConvolutionOnGPUSparse node")
    case True
    let ?R = "AddInto G (MatrixProduct ops gW False tempMatrix True)"
    have run: "BackpropToOverWeight ops node gradientValues G input0 input1 tempMatrix inLoop =
         Inr (?R, tempMatrix, Reshape gW (GetNumChannels (m_sampleLayout node) * q) B)"
      unfolding BackpropToOverWeight_def Let_def B s q gW n sum.case if_P [OF True]
      by (simp add: MultiplyAndAdd_def)
    have a: "?R = G\<lparr>m_elems := m_elems ?R\<rparr>" by (rule AddInto_fields)
    have b: "length (m_elems ?R) = length (m_elems G)" by (rule length_AddInto)
    have c: "\<forall>k<length (m_elems G).
          m_elems ?R ! k =
            (if n = 1 \<and> \<not> inLoop \<and> \<not> m_1DConvolutionOnGPUSparse node
             then if k < length (m_elems (MatrixProduct ops gW False tempMatrix True))
                  then m_elems G ! k + m_elems (MatrixProduct ops gW False tempMatrix True) ! k
                  else m_elems G ! k
             else foldl
                    (\<lambda>x j.
                        if k < length (m_elems
               (MatrixProduct ops
               (ColumnSlice gW (StartSampleID (of_nat j) s * q)
                  ((EndSampleID B (of_nat j) s - StartSampleID (of_nat j) s) * q))
               False
               (foldl
                  (\<lambda>T' i.
                  AssignPackedConvolutionInput ops
                    (Resize T'
                       (m_kernelWidth node * m_kernelHeight node *
                        GetNumChannels (m_inputSampleLayout node))
                       (q * (EndSampleID B (of_nat i) s - StartSampleID (of_nat i) s)))
                    (SwitchToMatrixType ops
                       (ColumnSlice input1 (StartSampleID (of_nat i) s)
                          (EndSampleID B (of_nat i) s - StartSampleID (of_nat i) s))
                       DENSE
                       (GetFormat
                          (ColumnSlice input1 (StartSampleID (of_nat i) s)
                             (EndSampleID B (of_nat i) s - StartSampleID (of_nat i) s)))
                       True)
                    (PackingGeometry node) (m_zeroPadding node))
                  tempMatrix [0..<Suc j])
               True))
                        then x + m_elems
               (MatrixProduct ops
               (ColumnSlice gW (StartSampleID (of_nat j) s * q)
                  ((EndSampleID B (of_nat j) s - StartSampleID (of_nat j) s) * q))
               False
               (foldl
                  (\<lambda>T' i.
                  AssignPackedConvolutionInput ops
                    (Resize T'
                       (m_kernelWidth node * m_kernelHeight node *
                        GetNumChannels (m_inputSampleLayout node))
                       (q * (EndSampleID B (of_nat i) s - StartSampleID (of_nat i) s)))
                    (SwitchToMatrixType ops
                       (ColumnSlice input1 (StartSampleID (of_nat i) s)
                          (EndSampleID B (of_nat i) s - StartSampleID (of_nat i) s))
                       DENSE
                       (GetFormat
                          (ColumnSlice input1 (StartSampleID (of_nat i) s)
                             (EndSampleID B (of_nat i) s - StartSampleID (of_nat i) s)))
                       True)
                    (PackingGeometry node) (m_zeroPadding node))
                  tempMatrix [0..<Suc j])
               True) ! k
                        else x)
                    (m_elems G ! k) [0..<unat n])"
      unfolding if_P [OF True] by (intro allI impI) (rule nth_AddInto)
    show ?thesis
      by (rule exI [of _ ?R], rule exI [of _ tempMatrix]) (intro conjI run a b c)
  next
    case False
    let ?R = "(foldl (\<lambda>G' j. AddInto G' (MatrixProduct ops
               (ColumnSlice gW (StartSampleID (of_nat j) s * q)
                  ((EndSampleID B (of_nat j) s - StartSampleID (of_nat j) s) * q))
               False
               (foldl
                  (\<lambda>T' i.
                  AssignPackedConvolutionInput ops
                    (Resize T'
                       (m_kernelWidth node * m_kernelHeight node *
                        GetNumChannels (m_inputSampleLayout node))
                       (q * (EndSampleID B (of_nat i) s - StartSampleID (of_nat i) s)))
                    (SwitchToMatrixType ops
                       (ColumnSlice input1 (StartSampleID (of_nat i) s)
                          (EndSampleID B (of_nat i) s - StartSampleID (of_nat i) s))
                       DENSE
                       (GetFormat
                          (ColumnSlice input1 (StartSampleID (of_nat i) s)
                             (EndSampleID B (of_nat i) s - StartSampleID (of_nat i) s)))
                       True)
                    (PackingGeometry node) (m_zeroPadding node))
                  tempMatrix [0..<Suc j])
               True))
            G [0..<unat n])"
    let ?T = "(foldl (\<lambda>T' i.
                  AssignPackedConvolutionInput ops
                    (Resize T'
                       (m_kernelWidth node * m_kernelHeight node *
                        GetNumChannels (m_inputSampleLayout node))
                       (q * (EndSampleID B (of_nat i) s - StartSampleID (of_nat i) s)))
                    (SwitchToMatrixType ops
                       (ColumnSlice input1 (StartSampleID (of_nat i) s)
                          (EndSampleID B (of_nat i) s - StartSampleID (of_nat i) s))
                       DENSE
                       (GetFormat
                          (ColumnSlice input1 (StartSampleID (of_nat i) s)
                             (EndSampleID B (of_nat i) s - StartSampleID (of_nat i) s)))
                       True)
                    (PackingGeometry node) (m_zeroPadding node))
            tempMatrix [0..<unat n])"
    have loop: "for_loop 0 n (BackpropToOverWeight_body ops node gW input1 B s)
                  (G, tempMatrix) = Inr (?R, ?T)"
      by (rule pair_loop_chain
            [where g = "\<lambda>G' j D. AddInto G'
                     (MatrixProduct ops
                        (ColumnSlice gW (StartSampleID (of_nat j) s * q)
                           ((EndSampleID B (of_nat j) s - StartSampleID (of_nat j) s) * q))
                        False D True)"
               and p = "(\<lambda>T' i.
                  AssignPackedConvolutionInput ops
                    (Resize T'
                       (m_kernelWidth node * m_kernelHeight node *
                        GetNumChannels (m_inputSampleLayout node))
                       (q * (EndSampleID B (of_nat i) s - StartSampleID (of_nat i) s)))
                    (SwitchToMatrixType ops
                       (ColumnSlice input1 (StartSampleID (of_nat i) s)
                          (EndSampleID B (of_nat i) s - StartSampleID (of_nat i) s))
                       DENSE
                       (GetFormat
                          (ColumnSlice input1 (StartSampleID (of_nat i) s)
                             (EndSampleID B (of_nat i) s - StartSampleID (of_nat i) s)))
                       True)
                    (PackingGeometry node) (m_zeroPadding node))"])
         (simp add: BackpropToOverWeight_body_def Let_def MultiplyAndAdd_def q)
    have run: "BackpropToOverWeight ops node gradientValues G input0 input1 tempMatrix inLoop =
         Inr (?R, ?T, Reshape gW (GetNumChannels (m_sampleLayout node) * q) B)"
      unfolding BackpropToOverWeight_def Let_def B s q gW n sum.case if_not_P [OF False] loop
      by simp
    have a: "?R = G\<lparr>m_elems := m_elems ?R\<rparr>" by (rule AddInto_rounds(2))
    have b: "length (m_elems ?R) = length (m_elems G)" by (rule AddInto_rounds(1))
    have c: "\<forall>k<length (m_elems G).
          m_elems ?R ! k =
            (if n = 1 \<and> \<not> inLoop \<and> \<not> m_1DConvolutionOnGPUSparse node
             then if k < length (m_elems (MatrixProduct ops gW False tempMatrix True))
                  then m_elems G ! k + m_elems (MatrixProduct ops gW False tempMatrix True) ! k
                  else m_elems G ! k
             else foldl
                    (\<lambda>x j.
                        if k < length (m_elems
               (MatrixProduct ops
               (ColumnSlice gW (StartSampleID (of_nat j) s * q)
                  ((EndSampleID B (of_nat j) s - StartSampleID (of_nat j) s) * q))
               False
               (foldl
                  (\<lambda>T' i.
                  AssignPackedConvolutionInput ops
                    (Resize T'
                       (m_kernelWidth node * m_kernelHeight node *
                        GetNumChannels (m_inputSampleLayout node))
                       (q * (EndSampleID B (of_nat i) s - StartSampleID (of_nat i) s)))
                    (SwitchToMatrixType ops
                       (ColumnSlice input1 (StartSampleID (of_nat i) s)
                          (EndSampleID B (of_nat i) s - StartSampleID (of_nat i) s))
                       DENSE
                       (GetFormat
                          (ColumnSlice input1 (StartSampleID (of_nat i) s)
                             (EndSampleID B (of_nat i) s - StartSampleID (of_nat i) s)))
                       True)
                    (PackingGeometry node) (m_zeroPadding node))
                  tempMatrix [0..<Suc j])
               True))
                        then x + m_elems
               (MatrixProduct ops
               (ColumnSlice gW (StartSampleID (of_nat j) s * q)
                  ((EndSampleID B (of_nat j) s - StartSampleID (of_nat j) s) * q))
               False
               (foldl
                  (\<lambda>T' i.
                  AssignPackedConvolutionInput ops
                    (Resize T'
                       (m_kernelWidth node * m_kernelHeight node *
                        GetNumChannels (m_inputSampleLayout node))
                       (q * (EndSampleID B (of_nat i) s - StartSampleID (of_nat i) s)))
                    (SwitchToMatrixType ops
                       (ColumnSlice input1 (StartSampleID (of_nat i) s)
                          (EndSampleID B (of_nat i) s - StartSampleID (of_nat i) s))
                       DENSE
                       (GetFormat
                          (ColumnSlice input1 (StartSampleID (of_nat i) s)
                             (EndSampleID B (of_nat i) s - StartSampleID (of_nat i) s)))
                       True)
                    (PackingGeometry node) (m_zeroPadding node))
                  tempMatrix [0..<Suc j])
               True) ! k
                        else x)
                    (m_elems G ! k) [0..<unat n])"
      unfolding if_not_P [OF False] by (intro allI impI) (rule AddInto_rounds(3))
    show ?thesis
      by (rule exI [of _ ?R], rule exI [of _ ?T]) (intro conjI run a b c)
  qed
  have I: "(\<exists>G1 T1.
        BackpropToOverInputFeature ops node gradientValues G input0 input1 tempMatrix =
         Inr (G1, T1, Reshape gI (GetNumChannels (m_sampleLayout node) * q) B)
      \<and> G1 = G\<lparr>m_elems := m_elems G1\<rparr>
      \<and> length (m_elems G1) = length (m_elems G)
      \<and> (\<forall>k<length (m_elems G).
          m_elems G1 ! k =
            foldl
              (\<lambda>x j.
                  if unat (StartSampleID (of_nat j) s) * unat (GetNumRows G) \<le> k
                     \<and> k < unat (StartSampleID (of_nat j) s) * unat (GetNumRows G) +
                           unat (EndSampleID B (of_nat j) s - StartSampleID (of_nat j) s) * unat (GetNumRows G)
                     \<and> k - unat (StartSampleID (of_nat j) s) * unat (GetNumRows G) <
                         length (m_elems
               (UnpackedConvolutionInput ops
               (MatrixProduct ops input0 True
                  (ColumnSlice gI (StartSampleID (of_nat j) s * q)
                     ((EndSampleID B (of_nat j) s - StartSampleID (of_nat j) s) * q))
                  False)
               (PackingGeometry node) (m_zeroPadding node)))
                  then x + m_elems
               (UnpackedConvolutionInput ops
               (MatrixProduct ops input0 True
                  (ColumnSlice gI (StartSampleID (of_nat j) s * q)
                     ((EndSampleID B (of_nat j) s - StartSampleID (of_nat j) s) * q))
                  False)
               (PackingGeometry node) (m_zeroPadding node)) !
                         (k - unat (StartSampleID (of_nat j) s) * unat (GetNumRows G))
                  else x)
              (m_elems G ! k) [0..<unat n]))"
  proof -
    let ?R = "(foldl (\<lambda>G' j. WriteColumnSlice G' (StartSampleID (of_nat j) s) (EndSampleID B (of_nat j) s - StartSampleID (of_nat j) s)
                   (AddInto (ColumnSlice G' (StartSampleID (of_nat j) s) (EndSampleID B (of_nat j) s - StartSampleID (of_nat j) s))
                      (UnpackedConvolutionInput ops
               (MatrixProduct ops input0 True
                  (ColumnSlice gI (StartSampleID (of_nat j) s * q)
                     ((EndSampleID B (of_nat j) s - StartSampleID (of_nat j) s) * q))
                  False)
               (PackingGeometry node) (m_zeroPadding node))))
            G [0..<unat n])"
    let ?T = "(foldl (\<lambda>T' j. MatrixProduct ops input0 True
                          (ColumnSlice gI (StartSampleID (of_nat j) s * q) ((EndSampleID B (of_nat j) s - StartSampleID (of_nat j) s) * q)) False)
            tempMatrix [0..<unat n])"
    have loop: "for_loop 0 n (BackpropToOverInputFeature_body ops node gI input0 B s)
                  (G, tempMatrix) = Inr (?R, ?T)"
      by (rule pair_loop_apart
            [where g = "\<lambda>G' j. WriteColumnSlice G' (StartSampleID (of_nat j) s) (EndSampleID B (of_nat j) s - StartSampleID (of_nat j) s)
                     (AddInto (ColumnSlice G' (StartSampleID (of_nat j) s) (EndSampleID B (of_nat j) s - StartSampleID (of_nat j) s))
                        (UnpackedConvolutionInput ops
               (MatrixProduct ops input0 True
                  (ColumnSlice gI (StartSampleID (of_nat j) s * q)
                     ((EndSampleID B (of_nat j) s - StartSampleID (of_nat j) s) * q))
                  False)
               (PackingGeometry node) (m_zeroPadding node)))"
               and p = "\<lambda>j. MatrixProduct ops input0 True
                          (ColumnSlice gI (StartSampleID (of_nat j) s * q) ((EndSampleID B (of_nat j) s - StartSampleID (of_nat j) s) * q)) False"])
         (simp add: BackpropToOverInputFeature_body_def Let_def UnpackConvolutionInput_def
            Multiply_def q)
    have run: "BackpropToOverInputFeature ops node gradientValues G input0 input1 tempMatrix =
         Inr (?R, ?T, Reshape gI (GetNumChannels (m_sampleLayout node) * q) B)"
      unfolding BackpropToOverInputFeature_def Let_def B s q gI n sum.case loop
      by simp
    have a: "?R = G\<lparr>m_elems := m_elems ?R\<rparr>" by (rule slice_rounds(2))
    have b: "length (m_elems ?R) = length (m_elems G)" by (rule slice_rounds(1))
    have c: "\<forall>k<length (m_elems G).
          m_elems ?R ! k =
            foldl
              (\<lambda>x j.
                  if unat (StartSampleID (of_nat j) s) * unat (GetNumRows G) \<le> k
                     \<and> k < unat (StartSampleID (of_nat j) s) * unat (GetNumRows G) +
                           unat (EndSampleID B (of_nat j) s - StartSampleID (of_nat j) s) * unat (GetNumRows G)
                     \<and> k - unat (StartSampleID (of_nat j) s) * unat (GetNumRows G) <
                         length (m_elems
               (UnpackedConvolutionInput ops
               (MatrixProduct ops input0 True
                  (ColumnSlice gI (StartSampleID (of_nat j) s * q)
                     ((EndSampleID B (of_nat j) s - StartSampleID (of_nat j) s) * q))
                  False)
               (PackingGeometry node) (m_zeroPadding node)))
                  then x + m_elems
               (UnpackedConvolutionInput ops
               (MatrixProduct ops input0 True
                  (ColumnSlice gI (StartSampleID (of_nat j) s * q)
                     ((EndSampleID B (of_nat j) s - StartSampleID (of_nat j) s) * q))
                  False)
               (PackingGeometry node) (m_zeroPadding node)) !
                         (k - unat (StartSampleID (of_nat j) s) * unat (GetNumRows G))
                  else x)
              (m_elems G ! k) [0..<unat n]"
      by (intro allI impI) (rule slice_rounds(3))
    show ?thesis
      by (rule exI [of _ ?R], rule exI [of _ ?T]) (intro conjI run a b c)
  qed
  have M: "MaxPooling_BackpropToV ops pnode gradientValues G input0 functionValues =
           AddInto G (MaxPoolingGradient ops gradientValues input0 functionValues
             [GetNumChannels (p_inputSampleLayout pnode),
              GetWidth (p_inputSampleLayout pnode), GetHeight (p_inputSampleLayout pnode),
              m_inputSizePerSample pnode,
              GetWidth (p_sampleLayout pnode), GetHeight (p_sampleLayout pnode),
              m_outputSizePerSample pnode,
              m_windowWidth pnode, m_windowHeight pnode,
              p_horizontalSubsample pnode, p_verticalSubsample pnode])"
    by (simp add: MaxPooling_BackpropToV_def AddMaxPoolingGradient_def PoolingGeometry_def)
  have A: "AveragePooling_BackpropToV ops pnode gradientValues G input0 functionValues =
           AddInto G (AveragePoolingGradient ops gradientValues
             [GetNumChannels (p_inputSampleLayout pnode),
              GetWidth (p_inputSampleLayout pnode), GetHeight (p_inputSampleLayout pnode),
              m_inputSizePerSample pnode,
              GetWidth (p_sampleLayout pnode), GetHeight (p_sampleLayout pnode),
              m_outputSizePerSample pnode,
              m_windowWidth pnode, m_windowHeight pnode,
              p_horizontalSubsample pnode, p_verticalSubsample pnode])"
    by (simp add: AveragePooling_BackpropToV_def AddAveragePoolingGradient_def
          PoolingGeometry_def)
  have PM: "MaxPooling_BackpropToV ops pnode gradientValues G input0 functionValues =
        G\<lparr>m_elems :=
            m_elems (MaxPooling_BackpropToV ops pnode gradientValues G input0 functionValues)\<rparr>
    \<and> length (m_elems
          (MaxPooling_BackpropToV ops pnode gradientValues G input0 functionValues)) =
        length (m_elems G)
    \<and> (\<forall>k<length (m_elems G).
          m_elems (MaxPooling_BackpropToV ops pnode gradientValues G input0 functionValues) ! k =
            (if k < length (m_elems
            (MaxPoolingGradient ops gradientValues input0 functionValues
             [GetNumChannels (p_inputSampleLayout pnode),
              GetWidth (p_inputSampleLayout pnode), GetHeight (p_inputSampleLayout pnode),
              m_inputSizePerSample pnode,
              GetWidth (p_sampleLayout pnode), GetHeight (p_sampleLayout pnode),
              m_outputSizePerSample pnode,
              m_windowWidth pnode, m_windowHeight pnode,
              p_horizontalSubsample pnode, p_verticalSubsample pnode]))
             then m_elems G ! k + m_elems
            (MaxPoolingGradient ops gradientValues input0 functionValues
             [GetNumChannels (p_inputSampleLayout pnode),
              GetWidth (p_inputSampleLayout pnode), GetHeight (p_inputSampleLayout pnode),
              m_inputSizePerSample pnode,
              GetWidth (p_sampleLayout pnode), GetHeight (p_sampleLayout pnode),
              m_outputSizePerSample pnode,
              m_windowWidth pnode, m_windowHeight pnode,
              p_horizontalSubsample pnode, p_verticalSubsample pnode]) ! k
             else m_elems G ! k))"
    unfolding M
    by (intro conjI allI impI) (rule AddInto_fields, rule length_AddInto, rule nth_AddInto)
  have PA: "AveragePooling_BackpropToV ops pnode gradientValues G input0 functionValues =
        G\<lparr>m_elems :=
            m_elems (AveragePooling_BackpropToV ops pnode gradientValues G input0 functionValues)\<rparr>
    \<and> length (m_elems
          (AveragePooling_BackpropToV ops pnode gradientValues G input0 functionValues)) =
        length (m_elems G)
    \<and> (\<forall>k<length (m_elems G).
          m_elems (AveragePooling_BackpropToV ops pnode gradientValues G input0 functionValues) ! k =
            (if k < length (m_elems
            (AveragePoolingGradient ops gradientValues
             [GetNumChannels (p_inputSampleLayout pnode),
              GetWidth (p_inputSampleLayout pnode), GetHeight (p_inputSampleLayout pnode),
              m_inputSizePerSample pnode,
              GetWidth (p_sampleLayout pnode), GetHeight (p_sampleLayout pnode),
              m_outputSizePerSample pnode,
              m_windowWidth pnode, m_windowHeight pnode,
              p_horizontalSubsample pnode, p_verticalSubsample pnode]))
             then m_elems G ! k + m_elems
            (AveragePoolingGradient ops gradientValues
             [GetNumChannels (p_inputSampleLayout pnode),
              GetWidth (p_inputSampleLayout pnode), GetHeight (p_inputSampleLayout pnode),
              m_inputSizePerSample pnode,
              GetWidth (p_sampleLayout pnode), GetHeight (p_sampleLayout pnode),
              m_outputSizePerSample pnode,
              m_windowWidth pnode, m_windowHeight pnode,
              p_horizontalSubsample pnode, p_verticalSubsample pnode]) ! k
             else m_elems G ! k))"
    unfolding A
    by (intro conjI allI impI) (rule AddInto_fields, rule length_AddInto, rule nth_AddInto)
  show ?thesis by (rule conjI [OF W conjI [OF I conjI [OF PM PA]]])
qed

text \<open>
  Two samples, one per sub-batch, with a 1 x 1 kernel of weight 3 and the output
  gradient 1, 2, 3, 4.  The gradient of the weights goes from 10 to
  \<open>(10 + (1 * 1 + 2 * 2)) + (3 * 3 + 4 * 4) = 40\<close>; the gradient of the input goes
  from 10, 20, 30, 40 to 13, 26, 39, 52, each sub-batch adding into its own column; the
  pooling passes, whose example primitives route the output gradient back unchanged,
  add it to the buffer.  The passes are evaluated from their definitions, and the
  elements again from the sums the theorem gives.
\<close>

theorem backward_passes_accumulate_witness:
  "GetNumCols (example_matrix 2 2 [1, 2, 3, 4]) = 2
   \<and> SubBatchSize (example_node\<lparr>m_maxTempMemSizeInSamples := 1\<rparr>) 2 = 1
   \<and> NumSubBatches 2 1 = Inr 2
   \<and> BackpropToOverWeight example_ops (example_node\<lparr>m_maxTempMemSizeInSamples := 1\<rparr>)
          (example_matrix 2 2 [1, 2, 3, 4]) (example_matrix 1 1 [10]) (example_matrix 1 1 [3])
          (example_matrix 2 2 [1, 2, 3, 4]) (example_matrix 0 0 []) False
        = Inr (example_matrix 1 1 [40], example_matrix 1 2 [3, 4],
               example_matrix 2 2 [1, 2, 3, 4])
   \<and> BackpropToOverInputFeature example_ops
          (example_node\<lparr>m_maxTempMemSizeInSamples := 1\<rparr>)
          (example_matrix 2 2 [1, 2, 3, 4]) (example_matrix 2 2 [10, 20, 30, 40])
          (example_matrix 1 1 [3]) (example_matrix 2 2 [1, 2, 3, 4]) (example_matrix 0 0 [])
        = Inr (example_matrix 2 2 [13, 26, 39, 52], example_matrix 1 2 [9, 12],
               example_matrix 2 2 [1, 2, 3, 4])
   \<and> MaxPooling_BackpropToV example_ops (example_window 2 2 1 1)
        (example_matrix 2 2 [1, 2, 3, 4]) (example_matrix 2 2 [10, 20, 30, 40])
        (example_matrix 2 2 [5, 6, 7, 8]) (example_matrix 2 2 [0, 0, 0, 0])
        = example_matrix 2 2 [11, 22, 33, 44]
   \<and> AveragePooling_BackpropToV example_ops (example_window 2 2 1 1)
        (example_matrix 2 2 [1, 2, 3, 4]) (example_matrix 2 2 [10, 20, 30, 40])
        (example_matrix 2 2 [5, 6, 7, 8]) (example_matrix 2 2 [0, 0, 0, 0])
        = example_matrix 2 2 [11, 22, 33, 44]
   \<and> (\<exists>G1 T1.
        BackpropToOverWeight example_ops (example_node\<lparr>m_maxTempMemSizeInSamples := 1\<rparr>)
          (example_matrix 2 2 [1, 2, 3, 4]) (example_matrix 1 1 [10]) (example_matrix 1 1 [3])
          (example_matrix 2 2 [1, 2, 3, 4]) (example_matrix 0 0 []) False
        = Inr (G1, T1, example_matrix 2 2 [1, 2, 3, 4])
        \<and> length (m_elems G1) = 1 \<and> m_elems G1 ! 0 = 40)
   \<and> (\<exists>G1 T1.
        BackpropToOverInputFeature example_ops
          (example_node\<lparr>m_maxTempMemSizeInSamples := 1\<rparr>)
          (example_matrix 2 2 [1, 2, 3, 4]) (example_matrix 2 2 [10, 20, 30, 40])
          (example_matrix 1 1 [3]) (example_matrix 2 2 [1, 2, 3, 4]) (example_matrix 0 0 [])
        = Inr (G1, T1, example_matrix 2 2 [1, 2, 3, 4])
        \<and> length (m_elems G1) = 4
        \<and> m_elems G1 ! 0 = 13 \<and> m_elems G1 ! 1 = 26
        \<and> m_elems G1 ! 2 = 39 \<and> m_elems G1 ! 3 = 52)
   \<and> m_elems (MaxPooling_BackpropToV example_ops (example_window 2 2 1 1)
        (example_matrix 2 2 [1, 2, 3, 4]) (example_matrix 2 2 [10, 20, 30, 40])
        (example_matrix 2 2 [5, 6, 7, 8]) (example_matrix 2 2 [0, 0, 0, 0])) ! 1 = 22
   \<and> m_elems (AveragePooling_BackpropToV example_ops (example_window 2 2 1 1)
        (example_matrix 2 2 [1, 2, 3, 4]) (example_matrix 2 2 [10, 20, 30, 40])
        (example_matrix 2 2 [5, 6, 7, 8]) (example_matrix 2 2 [0, 0, 0, 0])) ! 2 = 33"
proof -
  have h: "GetNumCols (example_matrix 2 2 [1, 2, 3, 4]) = 2"
    "SubBatchSize (example_node\<lparr>m_maxTempMemSizeInSamples := 1\<rparr>) 2 = 1"
    "GetWidth (m_sampleLayout (example_node\<lparr>m_maxTempMemSizeInSamples := 1\<rparr>)) *
     GetHeight (m_sampleLayout (example_node\<lparr>m_maxTempMemSizeInSamples := 1\<rparr>)) = 2"
    "NumSubBatches 2 1 = Inr 2"
    "Reshape (example_matrix 2 2 [1, 2, 3, 4])
       (GetNumChannels (m_sampleLayout (example_node\<lparr>m_maxTempMemSizeInSamples := 1\<rparr>)))
       (2 * 2) = example_matrix 1 4 [1, 2, 3, 4]"
    "Reshape (example_matrix 2 2 [1, 2, 3, 4])
       (GetNumChannels (m_sampleLayout (example_node\<lparr>m_maxTempMemSizeInSamples := 1\<rparr>)))
       (2 * 2) = example_matrix 1 4 [1, 2, 3, 4]"
    by (simp_all add: example_matrix_def example_node_def SubBatchSize_def NumSubBatches_def
          ImageLayoutWHC_def Reshape_def)
  note weights = backward_passes_accumulate [where ops = example_ops
      and node = "example_node\<lparr>m_maxTempMemSizeInSamples := 1\<rparr>"
      and gradientValues = "example_matrix 2 2 [1, 2, 3, 4]"
      and G = "example_matrix 1 1 [10]"
      and ?input0.0 = "example_matrix 1 1 [3]"
      and ?input1.0 = "example_matrix 2 2 [1, 2, 3, 4]"
      and tempMatrix = "example_matrix 0 0 []" and inLoop = False
      and B = 2 and s = 1 and q = 2 and n = 2
      and gW = "example_matrix 1 4 [1, 2, 3, 4]" and gI = "example_matrix 1 4 [1, 2, 3, 4]", OF h, THEN conjunct1]
  note inputs = backward_passes_accumulate [where ops = example_ops
      and node = "example_node\<lparr>m_maxTempMemSizeInSamples := 1\<rparr>"
      and gradientValues = "example_matrix 2 2 [1, 2, 3, 4]"
      and G = "example_matrix 2 2 [10, 20, 30, 40]"
      and ?input0.0 = "example_matrix 1 1 [3]"
      and ?input1.0 = "example_matrix 2 2 [1, 2, 3, 4]"
      and tempMatrix = "example_matrix 0 0 []" and inLoop = False
      and B = 2 and s = 1 and q = 2 and n = 2
      and gW = "example_matrix 1 4 [1, 2, 3, 4]" and gI = "example_matrix 1 4 [1, 2, 3, 4]", OF h, THEN conjunct2, THEN conjunct1]
  note pools = backward_passes_accumulate [where ops = example_ops
      and node = "example_node\<lparr>m_maxTempMemSizeInSamples := 1\<rparr>"
      and pnode = "example_window 2 2 1 1"
      and gradientValues = "example_matrix 2 2 [1, 2, 3, 4]"
      and G = "example_matrix 2 2 [10, 20, 30, 40]"
      and ?input0.0 = "example_matrix 2 2 [5, 6, 7, 8]"
      and functionValues = "example_matrix 2 2 [0, 0, 0, 0]"
      and ?input1.0 = "example_matrix 2 2 [1, 2, 3, 4]"
      and tempMatrix = "example_matrix 0 0 []" and inLoop = False
      and B = 2 and s = 1 and q = 2 and n = 2
      and gW = "example_matrix 1 4 [1, 2, 3, 4]" and gI = "example_matrix 1 4 [1, 2, 3, 4]", OF h, THEN conjunct2, THEN conjunct2]
  have W: "\<exists>G1 T1.
        BackpropToOverWeight example_ops (example_node\<lparr>m_maxTempMemSizeInSamples := 1\<rparr>)
          (example_matrix 2 2 [1, 2, 3, 4]) (example_matrix 1 1 [10]) (example_matrix 1 1 [3])
          (example_matrix 2 2 [1, 2, 3, 4]) (example_matrix 0 0 []) False
        = Inr (G1, T1, example_matrix 2 2 [1, 2, 3, 4])
        \<and> length (m_elems G1) = 1 \<and> m_elems G1 ! 0 = 40"
    using weights
    apply (elim exE conjE)
    apply (erule allE [where x = 0])
    apply (simp add: example_node_def example_matrix_def example_ops_def
         Let_def Resize_def Reshape_def example_product_def ImageLayoutWHC_def upt_rec
         StartSampleID_def EndSampleID_def ColumnSlice_def PackingGeometry_def)
    done
  have I: "\<exists>G1 T1.
        BackpropToOverInputFeature example_ops
          (example_node\<lparr>m_maxTempMemSizeInSamples := 1\<rparr>)
          (example_matrix 2 2 [1, 2, 3, 4]) (example_matrix 2 2 [10, 20, 30, 40])
          (example_matrix 1 1 [3]) (example_matrix 2 2 [1, 2, 3, 4]) (example_matrix 0 0 [])
        = Inr (G1, T1, example_matrix 2 2 [1, 2, 3, 4])
        \<and> length (m_elems G1) = 4
        \<and> m_elems G1 ! 0 = 13 \<and> m_elems G1 ! 1 = 26
        \<and> m_elems G1 ! 2 = 39 \<and> m_elems G1 ! 3 = 52"
    using inputs
    apply (elim exE conjE)
    apply (frule spec [where x = 0])
    apply (frule spec [where x = 1])
    apply (frule spec [where x = 2])
    apply (drule spec [where x = 3])
    apply (simp add: example_node_def example_matrix_def example_ops_def
         Let_def Resize_def Reshape_def example_product_def ImageLayoutWHC_def upt_rec
         StartSampleID_def EndSampleID_def ColumnSlice_def PackingGeometry_def)
    done
  have P: "m_elems (MaxPooling_BackpropToV example_ops (example_window 2 2 1 1)
        (example_matrix 2 2 [1, 2, 3, 4]) (example_matrix 2 2 [10, 20, 30, 40])
        (example_matrix 2 2 [5, 6, 7, 8]) (example_matrix 2 2 [0, 0, 0, 0])) ! 1 = 22
   \<and> m_elems (AveragePooling_BackpropToV example_ops (example_window 2 2 1 1)
        (example_matrix 2 2 [1, 2, 3, 4]) (example_matrix 2 2 [10, 20, 30, 40])
        (example_matrix 2 2 [5, 6, 7, 8]) (example_matrix 2 2 [0, 0, 0, 0])) ! 2 = 33"
    using pools
    apply (elim conjE)
    apply (drule spec [where x = 1])
    apply (drule spec [where x = 2])
    apply (simp add: example_matrix_def example_ops_def example_window_def)
    done
  have D1: "BackpropToOverWeight example_ops (example_node\<lparr>m_maxTempMemSizeInSamples := 1\<rparr>)
          (example_matrix 2 2 [1, 2, 3, 4]) (example_matrix 1 1 [10]) (example_matrix 1 1 [3])
          (example_matrix 2 2 [1, 2, 3, 4]) (example_matrix 0 0 []) False
        = Inr (example_matrix 1 1 [40], example_matrix 1 2 [3, 4],
               example_matrix 2 2 [1, 2, 3, 4])"
    by (simp add: BackpropToOverWeight_def BackpropToOverWeight_body_def for_loop.simps
        NumSubBatches_def SubBatchSize_def MultiplyAndAdd_def AddInto_def
        example_node_def example_matrix_def example_ops_def
        Let_def Resize_def Reshape_def example_product_def ImageLayoutWHC_def upt_rec
        StartSampleID_def EndSampleID_def ColumnSlice_def PackingGeometry_def)
  have D2: "BackpropToOverInputFeature example_ops
          (example_node\<lparr>m_maxTempMemSizeInSamples := 1\<rparr>)
          (example_matrix 2 2 [1, 2, 3, 4]) (example_matrix 2 2 [10, 20, 30, 40])
          (example_matrix 1 1 [3]) (example_matrix 2 2 [1, 2, 3, 4]) (example_matrix 0 0 [])
        = Inr (example_matrix 2 2 [13, 26, 39, 52], example_matrix 1 2 [9, 12],
               example_matrix 2 2 [1, 2, 3, 4])"
    by (simp add: BackpropToOverInputFeature_def BackpropToOverInputFeature_body_def
        for_loop.simps NumSubBatches_def SubBatchSize_def UnpackConvolutionInput_def
        Multiply_def AddInto_def WriteColumnSlice_def
        example_node_def example_matrix_def example_ops_def
        Let_def Resize_def Reshape_def example_product_def ImageLayoutWHC_def upt_rec
        StartSampleID_def EndSampleID_def ColumnSlice_def PackingGeometry_def)
  have D3: "MaxPooling_BackpropToV example_ops (example_window 2 2 1 1)
        (example_matrix 2 2 [1, 2, 3, 4]) (example_matrix 2 2 [10, 20, 30, 40])
        (example_matrix 2 2 [5, 6, 7, 8]) (example_matrix 2 2 [0, 0, 0, 0])
        = example_matrix 2 2 [11, 22, 33, 44]"
    by (simp add: MaxPooling_BackpropToV_def AddMaxPoolingGradient_def AddInto_def
        example_matrix_def example_ops_def upt_rec)
  have D4: "AveragePooling_BackpropToV example_ops (example_window 2 2 1 1)
        (example_matrix 2 2 [1, 2, 3, 4]) (example_matrix 2 2 [10, 20, 30, 40])
        (example_matrix 2 2 [5, 6, 7, 8]) (example_matrix 2 2 [0, 0, 0, 0])
        = example_matrix 2 2 [11, 22, 33, 44]"
    by (simp add: AveragePooling_BackpropToV_def AddAveragePoolingGradient_def AddInto_def
        example_matrix_def example_ops_def upt_rec)
  show ?thesis
    by (rule conjI [OF h(1) conjI [OF h(2) conjI [OF h(4) conjI [OF D1 conjI [OF D2
          conjI [OF D3 conjI [OF D4 conjI [OF W conjI [OF I P]]]]]]]]])
qed

text \<open>
  For elements of a monoid under addition the same holds in one equation: the buffer
  after a pass is the buffer before it plus what the pass leaves in a zeroed buffer of
  the same extents, and a pass that fails does so for both buffers alike.
\<close>

lemma backward_passes_from_zero:
  fixes G :: "'a::monoid_add Matrix"
  shows
   "map_sum id fst
      (BackpropToOverWeight ops node gradientValues G input0 input1 tempMatrix inLoop) =
    map_sum id (\<lambda>r. AddInto G (fst r))
      (BackpropToOverWeight ops node gradientValues (ZeroLike G) input0 input1
         tempMatrix inLoop)
    \<and> map_sum id fst
      (BackpropToOverInputFeature ops node gradientValues G input0 input1 tempMatrix) =
    map_sum id (\<lambda>r. AddInto G (fst r))
      (BackpropToOverInputFeature ops node gradientValues (ZeroLike G) input0 input1
         tempMatrix)
    \<and> MaxPooling_BackpropToV ops pnode gradientValues G input0 functionValues =
      AddInto G (MaxPooling_BackpropToV ops pnode gradientValues (ZeroLike G) input0
                   functionValues)
    \<and> AveragePooling_BackpropToV ops pnode gradientValues G input0 functionValues =
      AddInto G (AveragePooling_BackpropToV ops pnode gradientValues (ZeroLike G) input0
                   functionValues)
    \<and> MultiplyAndAdd ops a transposeA b transposeB G =
      AddInto G (MatrixProduct ops a transposeA b transposeB)"
  by (simp add: BackpropToOverWeight_accumulates BackpropToOverInputFeature_accumulates
        MaxPooling_BackpropToV_def AveragePooling_BackpropToV_def AddMaxPoolingGradient_def
        AddAveragePoolingGradient_def AddInto_from_zero MultiplyAndAdd_def)

section \<open>Validation errors\<close>






section \<open>Sub-batch tiling\<close>

text \<open>
  Claim C1, amended.  Let \<open>B >= 1\<close> be the batch size (the columns of the input), \<open>M\<close>
  the budget \<open>m_maxTempMemSizeInSamples\<close>, \<open>s\<close> the sub-batch size the passes compute
  and \<open>q\<close> the output size per channel, and let \<open>B + s\<close> not exceed \<open>2^64\<close> and
  \<open>B * q\<close> stay below \<open>2^64\<close>, so that nothing wraps in \<open>size_t\<close>.  Then
  \<open>s = min(B, M)\<close> with \<open>M = 0\<close> read as \<open>B\<close>; \<open>numSubBatches\<close> is
  \<open>(B + s - 1) div s\<close>, the least \<open>n\<close> with \<open>B <= n * s\<close>; the forward pass and the
  two backward passes are the loop over \<open>i = 0, ..., numSubBatches - 1\<close> of their
  bodies (the gradient of the weights takes the retained buffer instead when there is
  one sub-batch, outside a loop and off the GPU-sparse path); and round \<open>i\<close> has the
  samples from \<open>i * s\<close> up to, not including, \<open>min(B, (i + 1) * s)\<close>, a range that is
  not empty: it slices these columns of the input, and the columns of the output and
  of its gradient that start at \<open>start * q\<close> and number \<open>(end - start) * q\<close> (on the
  GPU-sparse path, and for the gradient of the input, the sample columns themselves),
  and writes through the slice of the output or of the gradient of the input.
\<close>

theorem sub_batch_tiling:
  assumes B: "GetNumCols input1 = B" and B1: "1 \<le> B"
    and s: "SubBatchSize node B = s"
    and q: "GetWidth (m_sampleLayout node) * GetHeight (m_sampleLayout node) = q"
    and c: "(GetHeight (m_inputSampleLayout node) = 1
             \<and> GetCurrentMatrixLocation input1 = GPU
             \<and> GetMatrixType input1 = SPARSE) = c"
    and fit: "unat B + unat s \<le> 2 ^ 64"
    and fit2: "unat B * unat q < 2 ^ 64"
  shows "\<exists>n.
   (unat s = min (unat B)
       (if m_maxTempMemSizeInSamples node = 0 then unat B
        else unat (m_maxTempMemSizeInSamples node)))
   \<and> (NumSubBatches B s = Inr n)
   \<and> (unat n = (unat B + unat s - 1) div unat s)
   \<and> (unat B \<le> unat n * unat s)
   \<and> ((unat n - 1) * unat s < unat B)
   \<and> (ForwardPropS ops node functionValues input0 input1 tempMatrix =
     (case for_loop 0 n (ForwardPropS_body ops (node\<lparr>m_1DConvolutionOnGPUSparse := c\<rparr>) input0 input1 B s)
             (if c then (SwitchToMatrixType ops functionValues DENSE matrixFormatDense False)
              else Reshape (SwitchToMatrixType ops functionValues DENSE matrixFormatDense False)
                     (GetNumChannels (m_sampleLayout node)) (B * q),
              tempMatrix) of
        Inl e \<Rightarrow> Inl e
      | Inr (functionValues3, tempMatrix1) \<Rightarrow>
          Inr (Reshape functionValues3 (GetNumChannels (m_sampleLayout node) * q) B, tempMatrix1, (node\<lparr>m_1DConvolutionOnGPUSparse := c\<rparr>))))
   \<and> (BackpropToOverWeight ops node gradientValues inputGradientValues input0 input1
       tempMatrix inLoop =
     (if n = 1 \<and> \<not> inLoop \<and> \<not> m_1DConvolutionOnGPUSparse node
      then Inr (MultiplyAndAdd ops (Reshape gradientValues (GetNumChannels (m_sampleLayout node)) (B * q)) False tempMatrix True inputGradientValues,
                tempMatrix, Reshape (Reshape gradientValues (GetNumChannels (m_sampleLayout node)) (B * q)) (GetNumChannels (m_sampleLayout node) * q) B)
      else
        (case for_loop 0 n (BackpropToOverWeight_body ops node (Reshape gradientValues (GetNumChannels (m_sampleLayout node)) (B * q)) input1 B s)
                (inputGradientValues, tempMatrix) of
           Inl e \<Rightarrow> Inl e
         | Inr (inputGradientValues1, tempMatrix1) \<Rightarrow>
             Inr (inputGradientValues1, tempMatrix1, Reshape (Reshape gradientValues (GetNumChannels (m_sampleLayout node)) (B * q)) (GetNumChannels (m_sampleLayout node) * q) B))))
   \<and> (BackpropToOverInputFeature ops node gradientValues inputGradientValues input0 input1
       tempMatrix =
     (case for_loop 0 n (BackpropToOverInputFeature_body ops node (Reshape gradientValues (GetNumChannels (m_sampleLayout node)) (q * B)) input0 B s)
             (inputGradientValues, tempMatrix) of
        Inl e \<Rightarrow> Inl e
      | Inr (inputGradientValues1, tempMatrix1) \<Rightarrow>
          Inr (inputGradientValues1, tempMatrix1, Reshape (Reshape gradientValues (GetNumChannels (m_sampleLayout node)) (q * B)) (GetNumChannels (m_sampleLayout node) * q) B)))
   \<and> (\<forall>i<n.
(unat (StartSampleID i s) = unat i * unat s)
   \<and> (unat (EndSampleID B i s) = min (unat B) ((unat i + 1) * unat s))
   \<and> (StartSampleID i s < EndSampleID B i s)
   \<and> (unat (EndSampleID B i s - StartSampleID i s) = unat (EndSampleID B i s) - unat (StartSampleID i s))
   \<and> (unat (StartSampleID i s * q) = unat (StartSampleID i s) * unat q)
   \<and> (unat ((EndSampleID B i s - StartSampleID i s) * q) = (unat (EndSampleID B i s) - unat (StartSampleID i s)) * unat q)
   \<and> (ForwardPropS_body ops (node\<lparr>m_1DConvolutionOnGPUSparse := c\<rparr>) input0 input1 B s i (F, T) =
       (if c
        then if m_kernelWidth node * GetNumChannels (m_inputSampleLayout node) \<noteq>
                GetNumCols input0
             then Inl (LogicError ''Kernel width and weight matrix dimensions don't match.'' [])
             else Inr (WriteColumnSlice F (StartSampleID i s) (EndSampleID B i s - StartSampleID i s)
                         (ConvolveAndWeightedAdd ops 1 input0 False
                            (ColumnSlice input1 (StartSampleID i s) (EndSampleID B i s - StartSampleID i s)) False 0
                            (ColumnSlice F (StartSampleID i s) (EndSampleID B i s - StartSampleID i s))
                            (GetNumChannels (m_inputSampleLayout node))
                            (m_horizontalSubsample node) (m_zeroPadding node) True),
                       T)
        else Inr (WriteColumnSlice F (StartSampleID i s * q) ((EndSampleID B i s - StartSampleID i s) * q)
                    (Multiply ops input0 False
                       (AssignPackedConvolutionInput ops
                (Resize T (m_kernelWidth node * m_kernelHeight node *
 GetNumChannels (m_inputSampleLayout node)) (q * (EndSampleID B i s - StartSampleID i s)))
                (SwitchToMatrixType ops (ColumnSlice input1 (StartSampleID i s) (EndSampleID B i s - StartSampleID i s))
                   DENSE matrixFormatDense True)
                (PackingGeometry node) (m_zeroPadding node))
                       False (ColumnSlice F (StartSampleID i s * q) ((EndSampleID B i s - StartSampleID i s) * q))),
                  (AssignPackedConvolutionInput ops
                (Resize T (m_kernelWidth node * m_kernelHeight node *
 GetNumChannels (m_inputSampleLayout node)) (q * (EndSampleID B i s - StartSampleID i s)))
                (SwitchToMatrixType ops (ColumnSlice input1 (StartSampleID i s) (EndSampleID B i s - StartSampleID i s))
                   DENSE matrixFormatDense True)
                (PackingGeometry node) (m_zeroPadding node)))))
   \<and> (BackpropToOverWeight_body ops node G1 input1 B s i (G, T) =
       Inr (MultiplyAndAdd ops (ColumnSlice G1 (StartSampleID i s * q) ((EndSampleID B i s - StartSampleID i s) * q)) False
              (AssignPackedConvolutionInput ops
                (Resize T (m_kernelWidth node * m_kernelHeight node *
 GetNumChannels (m_inputSampleLayout node)) (q * (EndSampleID B i s - StartSampleID i s)))
                (SwitchToMatrixType ops (ColumnSlice input1 (StartSampleID i s) (EndSampleID B i s - StartSampleID i s))
                   DENSE (GetFormat (ColumnSlice input1 (StartSampleID i s) (EndSampleID B i s - StartSampleID i s))) True)
                (PackingGeometry node) (m_zeroPadding node))
              True G,
            (AssignPackedConvolutionInput ops
                (Resize T (m_kernelWidth node * m_kernelHeight node *
 GetNumChannels (m_inputSampleLayout node)) (q * (EndSampleID B i s - StartSampleID i s)))
                (SwitchToMatrixType ops (ColumnSlice input1 (StartSampleID i s) (EndSampleID B i s - StartSampleID i s))
                   DENSE (GetFormat (ColumnSlice input1 (StartSampleID i s) (EndSampleID B i s - StartSampleID i s))) True)
                (PackingGeometry node) (m_zeroPadding node))))
   \<and> (BackpropToOverInputFeature_body ops node G1 input0 B s i (G, T) =
       Inr (WriteColumnSlice G (StartSampleID i s) (EndSampleID B i s - StartSampleID i s)
              (UnpackConvolutionInput ops
                 (Multiply ops input0 True (ColumnSlice G1 (StartSampleID i s * q) ((EndSampleID B i s - StartSampleID i s) * q)) False
                  (Resize T (m_kernelWidth node * m_kernelHeight node *
 GetNumChannels (m_inputSampleLayout node)) (q * (EndSampleID B i s - StartSampleID i s))))
                 (ColumnSlice G (StartSampleID i s) (EndSampleID B i s - StartSampleID i s))
                 (PackingGeometry node) (m_zeroPadding node)),
            (Multiply ops input0 True (ColumnSlice G1 (StartSampleID i s * q) ((EndSampleID B i s - StartSampleID i s) * q)) False
                  (Resize T (m_kernelWidth node * m_kernelHeight node *
 GetNumChannels (m_inputSampleLayout node)) (q * (EndSampleID B i s - StartSampleID i s)))))))"
proof -
  have B0: "B \<noteq> 0" using B1 by auto
  have s0: "s \<noteq> 0" using B0 s SubBatchSize_zero_iff [of node B] by simp
  have sB: "s \<le> B" using SubBatchSize_le [of node B] s by simp
  have spos: "0 < unat s" using s0 by (simp add: unat_gt_0)
  have bpos: "0 < unat B" using B0 by (simp add: unat_gt_0)
  obtain n where n: "NumSubBatches B s = Inr n"
    and un: "unat n = (unat B + unat s - 1) div unat s"
    using NumSubBatches_unat [OF s0 fit] by blast
  have n': "NumSubBatches (GetNumCols input1) (SubBatchSize node (GetNumCols input1)) = Inr n"
    using n B s by simp
  have p1: "unat s = min (unat B)
       (if m_maxTempMemSizeInSamples node = 0 then unat B
        else unat (m_maxTempMemSizeInSamples node))"
    using SubBatchSize_unat [of node B] s by simp
  have p4: "unat B \<le> unat n * unat s"
    unfolding un by (rule ceiling_covers [OF spos])
  have p5: "(unat n - 1) * unat s < unat B"
    unfolding un by (rule ceiling_least [OF spos bpos])
  have p6: "ForwardPropS ops node functionValues input0 input1 tempMatrix =
     (case for_loop 0 n (ForwardPropS_body ops (node\<lparr>m_1DConvolutionOnGPUSparse := c\<rparr>) input0 input1 B s)
             (if c then (SwitchToMatrixType ops functionValues DENSE matrixFormatDense False)
              else Reshape (SwitchToMatrixType ops functionValues DENSE matrixFormatDense False)
                     (GetNumChannels (m_sampleLayout node)) (B * q),
              tempMatrix) of
        Inl e \<Rightarrow> Inl e
      | Inr (functionValues3, tempMatrix1) \<Rightarrow>
          Inr (Reshape functionValues3 (GetNumChannels (m_sampleLayout node) * q) B, tempMatrix1, (node\<lparr>m_1DConvolutionOnGPUSparse := c\<rparr>)))"
    unfolding ForwardPropS_unfold n' sum.case unfolding B s q c by (rule refl)
  have p7: "BackpropToOverWeight ops node gradientValues inputGradientValues input0 input1
       tempMatrix inLoop =
     (if n = 1 \<and> \<not> inLoop \<and> \<not> m_1DConvolutionOnGPUSparse node
      then Inr (MultiplyAndAdd ops (Reshape gradientValues (GetNumChannels (m_sampleLayout node)) (B * q)) False tempMatrix True inputGradientValues,
                tempMatrix, Reshape (Reshape gradientValues (GetNumChannels (m_sampleLayout node)) (B * q)) (GetNumChannels (m_sampleLayout node) * q) B)
      else
        (case for_loop 0 n (BackpropToOverWeight_body ops node (Reshape gradientValues (GetNumChannels (m_sampleLayout node)) (B * q)) input1 B s)
                (inputGradientValues, tempMatrix) of
           Inl e \<Rightarrow> Inl e
         | Inr (inputGradientValues1, tempMatrix1) \<Rightarrow>
             Inr (inputGradientValues1, tempMatrix1, Reshape (Reshape gradientValues (GetNumChannels (m_sampleLayout node)) (B * q)) (GetNumChannels (m_sampleLayout node) * q) B)))"
    unfolding BackpropToOverWeight_unfold [OF n'] unfolding B s q by (rule refl)
  have p8: "BackpropToOverInputFeature ops node gradientValues inputGradientValues input0 input1
       tempMatrix =
     (case for_loop 0 n (BackpropToOverInputFeature_body ops node (Reshape gradientValues (GetNumChannels (m_sampleLayout node)) (q * B)) input0 B s)
             (inputGradientValues, tempMatrix) of
        Inl e \<Rightarrow> Inl e
      | Inr (inputGradientValues1, tempMatrix1) \<Rightarrow>
          Inr (inputGradientValues1, tempMatrix1, Reshape (Reshape gradientValues (GetNumChannels (m_sampleLayout node)) (q * B)) (GetNumChannels (m_sampleLayout node) * q) B))"
    unfolding BackpropToOverInputFeature_unfold [OF n'] unfolding B s q by (rule refl)
  have p9: "(\<forall>i<n.
(unat (StartSampleID i s) = unat i * unat s)
   \<and> (unat (EndSampleID B i s) = min (unat B) ((unat i + 1) * unat s))
   \<and> (StartSampleID i s < EndSampleID B i s)
   \<and> (unat (EndSampleID B i s - StartSampleID i s) = unat (EndSampleID B i s) - unat (StartSampleID i s))
   \<and> (unat (StartSampleID i s * q) = unat (StartSampleID i s) * unat q)
   \<and> (unat ((EndSampleID B i s - StartSampleID i s) * q) = (unat (EndSampleID B i s) - unat (StartSampleID i s)) * unat q)
   \<and> (ForwardPropS_body ops (node\<lparr>m_1DConvolutionOnGPUSparse := c\<rparr>) input0 input1 B s i (F, T) =
       (if c
        then if m_kernelWidth node * GetNumChannels (m_inputSampleLayout node) \<noteq>
                GetNumCols input0
             then Inl (LogicError ''Kernel width and weight matrix dimensions don't match.'' [])
             else Inr (WriteColumnSlice F (StartSampleID i s) (EndSampleID B i s - StartSampleID i s)
                         (ConvolveAndWeightedAdd ops 1 input0 False
                            (ColumnSlice input1 (StartSampleID i s) (EndSampleID B i s - StartSampleID i s)) False 0
                            (ColumnSlice F (StartSampleID i s) (EndSampleID B i s - StartSampleID i s))
                            (GetNumChannels (m_inputSampleLayout node))
                            (m_horizontalSubsample node) (m_zeroPadding node) True),
                       T)
        else Inr (WriteColumnSlice F (StartSampleID i s * q) ((EndSampleID B i s - StartSampleID i s) * q)
                    (Multiply ops input0 False
                       (AssignPackedConvolutionInput ops
                (Resize T (m_kernelWidth node * m_kernelHeight node *
 GetNumChannels (m_inputSampleLayout node)) (q * (EndSampleID B i s - StartSampleID i s)))
                (SwitchToMatrixType ops (ColumnSlice input1 (StartSampleID i s) (EndSampleID B i s - StartSampleID i s))
                   DENSE matrixFormatDense True)
                (PackingGeometry node) (m_zeroPadding node))
                       False (ColumnSlice F (StartSampleID i s * q) ((EndSampleID B i s - StartSampleID i s) * q))),
                  (AssignPackedConvolutionInput ops
                (Resize T (m_kernelWidth node * m_kernelHeight node *
 GetNumChannels (m_inputSampleLayout node)) (q * (EndSampleID B i s - StartSampleID i s)))
                (SwitchToMatrixType ops (ColumnSlice input1 (StartSampleID i s) (EndSampleID B i s - StartSampleID i s))
                   DENSE matrixFormatDense True)
                (PackingGeometry node) (m_zeroPadding node)))))
   \<and> (BackpropToOverWeight_body ops node G1 input1 B s i (G, T) =
       Inr (MultiplyAndAdd ops (ColumnSlice G1 (StartSampleID i s * q) ((EndSampleID B i s - StartSampleID i s) * q)) False
              (AssignPackedConvolutionInput ops
                (Resize T (m_kernelWidth node * m_kernelHeight node *
 GetNumChannels (m_inputSampleLayout node)) (q * (EndSampleID B i s - StartSampleID i s)))
                (SwitchToMatrixType ops (ColumnSlice input1 (StartSampleID i s) (EndSampleID B i s - StartSampleID i s))
                   DENSE (GetFormat (ColumnSlice input1 (StartSampleID i s) (EndSampleID B i s - StartSampleID i s))) True)
                (PackingGeometry node) (m_zeroPadding node))
              True G,
            (AssignPackedConvolutionInput ops
                (Resize T (m_kernelWidth node * m_kernelHeight node *
 GetNumChannels (m_inputSampleLayout node)) (q * (EndSampleID B i s - StartSampleID i s)))
                (SwitchToMatrixType ops (ColumnSlice input1 (StartSampleID i s) (EndSampleID B i s - StartSampleID i s))
                   DENSE (GetFormat (ColumnSlice input1 (StartSampleID i s) (EndSampleID B i s - StartSampleID i s))) True)
                (PackingGeometry node) (m_zeroPadding node))))
   \<and> (BackpropToOverInputFeature_body ops node G1 input0 B s i (G, T) =
       Inr (WriteColumnSlice G (StartSampleID i s) (EndSampleID B i s - StartSampleID i s)
              (UnpackConvolutionInput ops
                 (Multiply ops input0 True (ColumnSlice G1 (StartSampleID i s * q) ((EndSampleID B i s - StartSampleID i s) * q)) False
                  (Resize T (m_kernelWidth node * m_kernelHeight node *
 GetNumChannels (m_inputSampleLayout node)) (q * (EndSampleID B i s - StartSampleID i s))))
                 (ColumnSlice G (StartSampleID i s) (EndSampleID B i s - StartSampleID i s))
                 (PackingGeometry node) (m_zeroPadding node)),
            (Multiply ops input0 True (ColumnSlice G1 (StartSampleID i s * q) ((EndSampleID B i s - StartSampleID i s) * q)) False
                  (Resize T (m_kernelWidth node * m_kernelHeight node *
 GetNumChannels (m_inputSampleLayout node)) (q * (EndSampleID B i s - StartSampleID i s)))))))"
  proof (intro allI impI)
    fix i assume i: "i < n"
    note r = sample_range_unat [OF s0 sB fit un i]
    note k = sub_batch_columns [OF s0 sB fit un i fit2]
    have g: "PackingGeometry (node\<lparr>m_1DConvolutionOnGPUSparse := c\<rparr>) = PackingGeometry node"
      by (simp add: PackingGeometry_def)
    have b1: "ForwardPropS_body ops (node\<lparr>m_1DConvolutionOnGPUSparse := c\<rparr>) input0 input1 B s i (F, T) =
       (if c
        then if m_kernelWidth node * GetNumChannels (m_inputSampleLayout node) \<noteq>
                GetNumCols input0
             then Inl (LogicError ''Kernel width and weight matrix dimensions don't match.'' [])
             else Inr (WriteColumnSlice F (StartSampleID i s) (EndSampleID B i s - StartSampleID i s)
                         (ConvolveAndWeightedAdd ops 1 input0 False
                            (ColumnSlice input1 (StartSampleID i s) (EndSampleID B i s - StartSampleID i s)) False 0
                            (ColumnSlice F (StartSampleID i s) (EndSampleID B i s - StartSampleID i s))
                            (GetNumChannels (m_inputSampleLayout node))
                            (m_horizontalSubsample node) (m_zeroPadding node) True),
                       T)
        else Inr (WriteColumnSlice F (StartSampleID i s * q) ((EndSampleID B i s - StartSampleID i s) * q)
                    (Multiply ops input0 False
                       (AssignPackedConvolutionInput ops
                (Resize T (m_kernelWidth node * m_kernelHeight node *
 GetNumChannels (m_inputSampleLayout node)) (q * (EndSampleID B i s - StartSampleID i s)))
                (SwitchToMatrixType ops (ColumnSlice input1 (StartSampleID i s) (EndSampleID B i s - StartSampleID i s))
                   DENSE matrixFormatDense True)
                (PackingGeometry node) (m_zeroPadding node))
                       False (ColumnSlice F (StartSampleID i s * q) ((EndSampleID B i s - StartSampleID i s) * q))),
                  (AssignPackedConvolutionInput ops
                (Resize T (m_kernelWidth node * m_kernelHeight node *
 GetNumChannels (m_inputSampleLayout node)) (q * (EndSampleID B i s - StartSampleID i s)))
                (SwitchToMatrixType ops (ColumnSlice input1 (StartSampleID i s) (EndSampleID B i s - StartSampleID i s))
                   DENSE matrixFormatDense True)
                (PackingGeometry node) (m_zeroPadding node))))"
      using q g by (cases c) (simp_all add: ForwardPropS_body_sparse ForwardPropS_body_generic)
    have b2: "BackpropToOverWeight_body ops node G1 input1 B s i (G, T) =
       Inr (MultiplyAndAdd ops (ColumnSlice G1 (StartSampleID i s * q) ((EndSampleID B i s - StartSampleID i s) * q)) False
              (AssignPackedConvolutionInput ops
                (Resize T (m_kernelWidth node * m_kernelHeight node *
 GetNumChannels (m_inputSampleLayout node)) (q * (EndSampleID B i s - StartSampleID i s)))
                (SwitchToMatrixType ops (ColumnSlice input1 (StartSampleID i s) (EndSampleID B i s - StartSampleID i s))
                   DENSE (GetFormat (ColumnSlice input1 (StartSampleID i s) (EndSampleID B i s - StartSampleID i s))) True)
                (PackingGeometry node) (m_zeroPadding node))
              True G,
            (AssignPackedConvolutionInput ops
                (Resize T (m_kernelWidth node * m_kernelHeight node *
 GetNumChannels (m_inputSampleLayout node)) (q * (EndSampleID B i s - StartSampleID i s)))
                (SwitchToMatrixType ops (ColumnSlice input1 (StartSampleID i s) (EndSampleID B i s - StartSampleID i s))
                   DENSE (GetFormat (ColumnSlice input1 (StartSampleID i s) (EndSampleID B i s - StartSampleID i s))) True)
                (PackingGeometry node) (m_zeroPadding node)))"
      using q by (simp add: BackpropToOverWeight_body_def Let_def)
    have b3: "BackpropToOverInputFeature_body ops node G1 input0 B s i (G, T) =
       Inr (WriteColumnSlice G (StartSampleID i s) (EndSampleID B i s - StartSampleID i s)
              (UnpackConvolutionInput ops
                 (Multiply ops input0 True (ColumnSlice G1 (StartSampleID i s * q) ((EndSampleID B i s - StartSampleID i s) * q)) False
                  (Resize T (m_kernelWidth node * m_kernelHeight node *
 GetNumChannels (m_inputSampleLayout node)) (q * (EndSampleID B i s - StartSampleID i s))))
                 (ColumnSlice G (StartSampleID i s) (EndSampleID B i s - StartSampleID i s))
                 (PackingGeometry node) (m_zeroPadding node)),
            (Multiply ops input0 True (ColumnSlice G1 (StartSampleID i s * q) ((EndSampleID B i s - StartSampleID i s) * q)) False
                  (Resize T (m_kernelWidth node * m_kernelHeight node *
 GetNumChannels (m_inputSampleLayout node)) (q * (EndSampleID B i s - StartSampleID i s)))))"
      using q by (simp add: BackpropToOverInputFeature_body_def Let_def)
    show "(unat (StartSampleID i s) = unat i * unat s)
   \<and> (unat (EndSampleID B i s) = min (unat B) ((unat i + 1) * unat s))
   \<and> (StartSampleID i s < EndSampleID B i s)
   \<and> (unat (EndSampleID B i s - StartSampleID i s) = unat (EndSampleID B i s) - unat (StartSampleID i s))
   \<and> (unat (StartSampleID i s * q) = unat (StartSampleID i s) * unat q)
   \<and> (unat ((EndSampleID B i s - StartSampleID i s) * q) = (unat (EndSampleID B i s) - unat (StartSampleID i s)) * unat q)
   \<and> (ForwardPropS_body ops (node\<lparr>m_1DConvolutionOnGPUSparse := c\<rparr>) input0 input1 B s i (F, T) =
       (if c
        then if m_kernelWidth node * GetNumChannels (m_inputSampleLayout node) \<noteq>
                GetNumCols input0
             then Inl (LogicError ''Kernel width and weight matrix dimensions don't match.'' [])
             else Inr (WriteColumnSlice F (StartSampleID i s) (EndSampleID B i s - StartSampleID i s)
                         (ConvolveAndWeightedAdd ops 1 input0 False
                            (ColumnSlice input1 (StartSampleID i s) (EndSampleID B i s - StartSampleID i s)) False 0
                            (ColumnSlice F (StartSampleID i s) (EndSampleID B i s - StartSampleID i s))
                            (GetNumChannels (m_inputSampleLayout node))
                            (m_horizontalSubsample node) (m_zeroPadding node) True),
                       T)
        else Inr (WriteColumnSlice F (StartSampleID i s * q) ((EndSampleID B i s - StartSampleID i s) * q)
                    (Multiply ops input0 False
                       (AssignPackedConvolutionInput ops
                (Resize T (m_kernelWidth node * m_kernelHeight node *
 GetNumChannels (m_inputSampleLayout node)) (q * (EndSampleID B i s - StartSampleID i s)))
                (SwitchToMatrixType ops (ColumnSlice input1 (StartSampleID i s) (EndSampleID B i s - StartSampleID i s))
                   DENSE matrixFormatDense True)
                (PackingGeometry node) (m_zeroPadding node))
                       False (ColumnSlice F (StartSampleID i s * q) ((EndSampleID B i s - StartSampleID i s) * q))),
                  (AssignPackedConvolutionInput ops
                (Resize T (m_kernelWidth node * m_kernelHeight node *
 GetNumChannels (m_inputSampleLayout node)) (q * (EndSampleID B i s - StartSampleID i s)))
                (SwitchToMatrixType ops (ColumnSlice input1 (StartSampleID i s) (EndSampleID B i s - StartSampleID i s))
                   DENSE matrixFormatDense True)
                (PackingGeometry node) (m_zeroPadding node)))))
   \<and> (BackpropToOverWeight_body ops node G1 input1 B s i (G, T) =
       Inr (MultiplyAndAdd ops (ColumnSlice G1 (StartSampleID i s * q) ((EndSampleID B i s - StartSampleID i s) * q)) False
              (AssignPackedConvolutionInput ops
                (Resize T (m_kernelWidth node * m_kernelHeight node *
 GetNumChannels (m_inputSampleLayout node)) (q * (EndSampleID B i s - StartSampleID i s)))
                (SwitchToMatrixType ops (ColumnSlice input1 (StartSampleID i s) (EndSampleID B i s - StartSampleID i s))
                   DENSE (GetFormat (ColumnSlice input1 (StartSampleID i s) (EndSampleID B i s - StartSampleID i s))) True)
                (PackingGeometry node) (m_zeroPadding node))
              True G,
            (AssignPackedConvolutionInput ops
                (Resize T (m_kernelWidth node * m_kernelHeight node *
 GetNumChannels (m_inputSampleLayout node)) (q * (EndSampleID B i s - StartSampleID i s)))
                (SwitchToMatrixType ops (ColumnSlice input1 (StartSampleID i s) (EndSampleID B i s - StartSampleID i s))
                   DENSE (GetFormat (ColumnSlice input1 (StartSampleID i s) (EndSampleID B i s - StartSampleID i s))) True)
                (PackingGeometry node) (m_zeroPadding node))))
   \<and> (BackpropToOverInputFeature_body ops node G1 input0 B s i (G, T) =
       Inr (WriteColumnSlice G (StartSampleID i s) (EndSampleID B i s - StartSampleID i s)
              (UnpackConvolutionInput ops
                 (Multiply ops input0 True (ColumnSlice G1 (StartSampleID i s * q) ((EndSampleID B i s - StartSampleID i s) * q)) False
                  (Resize T (m_kernelWidth node * m_kernelHeight node *
 GetNumChannels (m_inputSampleLayout node)) (q * (EndSampleID B i s - StartSampleID i s))))
                 (ColumnSlice G (StartSampleID i s) (EndSampleID B i s - StartSampleID i s))
                 (PackingGeometry node) (m_zeroPadding node)),
            (Multiply ops input0 True (ColumnSlice G1 (StartSampleID i s * q) ((EndSampleID B i s - StartSampleID i s) * q)) False
                  (Resize T (m_kernelWidth node * m_kernelHeight node *
 GetNumChannels (m_inputSampleLayout node)) (q * (EndSampleID B i s - StartSampleID i s))))))"
      using r(1) r(2) r(3) k(2) k(1) k(3) b1 b2 b3 by (intro conjI)
  qed
  show ?thesis
    using p1 n un p4 p5 p6 p7 p8 p9 by (intro exI [of _ n] conjI)
qed

theorem sub_batch_tiling_witness:
  "GetNumCols (example_matrix 2 5 [1, 2, 3, 4, 5, 6, 7, 8, 9, 10]) = 5
   \<and> SubBatchSize (example_node\<lparr>m_maxTempMemSizeInSamples := 2\<rparr>) 5 = 2
   \<and> NumSubBatches 5 2 = Inr 3
   \<and> unat (StartSampleID 2 2) = 4 \<and> unat (EndSampleID 5 2 2) = 5
   \<and> unat (StartSampleID 2 2 * 2) = 8
   \<and> unat ((EndSampleID 5 2 2 - StartSampleID 2 2) * 2) = 2
   \<and> ForwardPropS_body example_ops (example_node\<lparr>m_maxTempMemSizeInSamples := 2\<rparr>)
        (example_matrix 1 1 [3]) (example_matrix 2 5 [1, 2, 3, 4, 5, 6, 7, 8, 9, 10]) 5 2 2
        (example_matrix 1 10 [0, 0, 0, 0, 0, 0, 0, 0, 0, 0], example_matrix 0 0 [])
      = Inr (example_matrix 1 10 [0, 0, 0, 0, 0, 0, 0, 0, 27, 30], example_matrix 1 2 [9, 10])"
proof -
  have h: "GetNumCols (example_matrix 2 5 [1, 2, 3, 4, 5, 6, 7, 8, 9, 10]) = 5"
    "1 \<le> (5::size_t)"
    "SubBatchSize (example_node\<lparr>m_maxTempMemSizeInSamples := 2\<rparr>) 5 = 2"
    "GetWidth (m_sampleLayout (example_node\<lparr>m_maxTempMemSizeInSamples := 2\<rparr>)) *
     GetHeight (m_sampleLayout (example_node\<lparr>m_maxTempMemSizeInSamples := 2\<rparr>)) = 2"
    "(GetHeight (m_inputSampleLayout (example_node\<lparr>m_maxTempMemSizeInSamples := 2\<rparr>)) = 1
      \<and> GetCurrentMatrixLocation (example_matrix 2 5 [1, 2, 3, 4, 5, 6, 7, 8, 9, 10]) = GPU
      \<and> GetMatrixType (example_matrix 2 5 [1, 2, 3, 4, 5, 6, 7, 8, 9, 10]) = SPARSE) = False"
    "unat (5::size_t) + unat (2::size_t) \<le> 2 ^ 64"
    "unat (5::size_t) * unat (2::size_t) < 2 ^ 64"
    by (simp_all add: example_matrix_def example_node_def SubBatchSize_def ImageLayoutWHC_def)
  note t = sub_batch_tiling [where ops = example_ops
      and node = "example_node\<lparr>m_maxTempMemSizeInSamples := 2\<rparr>"
      and ?input1.0 = "example_matrix 2 5 [1, 2, 3, 4, 5, 6, 7, 8, 9, 10]"
      and ?input0.0 = "example_matrix 1 1 [3]"
      and functionValues = "example_matrix 1 10 [0, 0, 0, 0, 0, 0, 0, 0, 0, 0]"
      and tempMatrix = "example_matrix 0 0 []"
      and gradientValues = "example_matrix 1 10 [0, 0, 0, 0, 0, 0, 0, 0, 0, 0]"
      and inputGradientValues = "example_matrix 1 1 [0]" and inLoop = False
      and F = "example_matrix 1 10 [0, 0, 0, 0, 0, 0, 0, 0, 0, 0]"
      and T = "example_matrix 0 0 []"
      and G = "example_matrix 1 1 [0]"
      and ?G1.0 = "example_matrix 1 10 [0, 0, 0, 0, 0, 0, 0, 0, 0, 0]"
      and B = 5 and s = 2 and q = 2 and c = False, OF h]
  show ?thesis
    using t h(1) h(3)
    apply (elim exE conjE)
    apply (erule allE [where x = 2])
    apply (simp add: NumSubBatches_def StartSampleID_def EndSampleID_def example_node_def
         example_matrix_def example_ops_def Let_def Resize_def Multiply_def
         example_product_def ImageLayoutWHC_def upt_rec ColumnSlice_def WriteColumnSlice_def
         PackingGeometry_def)
    done
qed

text \<open>
  Without the bound the count is not the ceiling: for \<open>B = 2^64 - 1\<close> and a budget of
  2 samples, \<open>subBatchSize = 2\<close>, the sum \<open>B + 2 - 1\<close> wraps to 0, and \<open>numSubBatches\<close>
  is 0, where the ceiling of \<open>B / 2\<close> is \<open>2^63\<close>; the loops of the three passes run no
  round.
\<close>

theorem sub_batch_count_wraps_counterexample:
  "SubBatchSize (example_node\<lparr>m_maxTempMemSizeInSamples := 2\<rparr>) 18446744073709551615 = 2
   \<and> NumSubBatches 18446744073709551615 2 = Inr 0
   \<and> (unat (18446744073709551615::size_t) + unat (2::size_t) - 1) div unat (2::size_t)
       = 9223372036854775808"
  by (simp add: NumSubBatches_def SubBatchSize_def example_node_def)

end
